theory Spec2Isabelle
  imports Complex_Main "HOL-Library.Option_ord" "HOL-Library.Product_Lexorder"
begin

section \<open>The JavaScript values and the environment the handlers run in\<close>

text \<open>
  The handlers of the labour management backend are Express handlers over Mongoose
  models. Each handler is embedded as a function from the request and the store to a
  result and the store afterwards. A request field is \<open>None\<close> when it is
  \<open>undefined\<close> and \<open>Some s\<close> when it is the string \<open>s\<close> (query and path
  parameters are strings; body fields of another JSON type are outside the model, but for
  \<open>dailyWage\<close>, which is a \<open>jsval\<close>). A string is a sequence of characters with
  codes up to 255. Numbers are integers; where a request can make a number large (what
  \<open>parseInt\<close> reads, and the pagination computed from it) the rounding of the source's
  doubles is modelled by \<open>toNumber\<close>. Dates are milliseconds since the epoch.
\<close>

type_synonym oid = string

datatype jsval = JUndefined | JNull | JBool bool | JNumber int | JString string

text \<open>What is outside \<open>src/\<close> and a handler depends on: the library and the clock.\<close>

record env =
  objectId :: "string \<Rightarrow> oid option"
    \<comment> \<open>\<open>mongoose.Types.ObjectId\<close>: the identifier a string denotes, \<open>None\<close> when
        \<open>ObjectId.isValid\<close> is false\<close>
  newDate :: "string \<Rightarrow> int option"
    \<comment> \<open>\<open>new Date(s)\<close>; \<open>None\<close> is the Invalid Date, for which \<open>isNaN\<close> is true\<close>
  now :: int
    \<comment> \<open>\<open>new Date()\<close>\<close>
  startOfDay :: "int \<Rightarrow> int"
    \<comment> \<open>\<open>setHours(0, 0, 0, 0)\<close> in the server's time zone\<close>
  endOfDay :: "int \<Rightarrow> int"
    \<comment> \<open>\<open>setHours(23, 59, 59, 999)\<close> in the server's time zone\<close>
  strictQuery :: bool
    \<comment> \<open>Mongoose's \<open>strictQuery\<close>: whether a filter on a path the schema does not
        declare is removed from the query (true) or sent to the database (false)\<close>
  mkId :: "nat \<Rightarrow> oid"
    \<comment> \<open>the identifier the driver gives the n-th document created\<close>
  objectIdCallable :: bool
    \<comment> \<open>whether \<open>mongoose.Types.ObjectId(s)\<close>, called without \<open>new\<close>, returns the
        identifier (up to Mongoose 6, where it is a function) or throws a
        \<open>TypeError\<close> (from Mongoose 7, where it is a class)\<close>
  findUser :: "oid \<Rightarrow> string option"
    \<comment> \<open>the users collection, which no handler embedded here writes: the email of the
        user with an identifier, \<open>None\<close> when there is no such user\<close>

datatype error =
    ApiError nat string      \<comment> \<open>\<open>next(new ApiError(status, message))\<close>\<close>
  | ValidationError "(string \<times> string) list"
      \<comment> \<open>Mongoose validators rejected a document: the (path, message) pairs\<close>
  | CastError string        \<comment> \<open>Mongoose could not cast a value to the schema's type\<close>
  | TypeError string        \<comment> \<open>a JavaScript TypeError\<close>
  | MissingSchemaError string
      \<comment> \<open>Mongoose has no model registered under the name\<close>

definition truthy :: "string option \<Rightarrow> bool" where
  "truthy v = (case v of None \<Rightarrow> False | Some s \<Rightarrow> s \<noteq> [])"

definition isValid :: "env \<Rightarrow> string \<Rightarrow> bool" where
  "isValid e s = (objectId e s \<noteq> None)"

subsection \<open>Numbers\<close>

text \<open>
  A JavaScript number is a double. An integer below \<open>2 ^ 53\<close> in magnitude is a double;
  a larger one is rounded to the nearest double, which is a multiple of
  \<open>2 ^ (b - 53)\<close> when the integer has \<open>b\<close> bits, to the even multiple when two are
  as near. (An integer of \<open>2 ^ 1024\<close> or more is \<open>Infinity\<close> in the source; here it
  is rounded like the others.)
\<close>

fun bitLength :: "nat \<Rightarrow> nat" where
  "bitLength n = (if n = 0 then 0 else Suc (bitLength (n div 2)))"

declare bitLength.simps [simp del]

definition toNumber :: "int \<Rightarrow> int" where
  "toNumber n =
     (if \<bar>n\<bar> < 2 ^ 53 then n
      else (let u = 2 ^ (bitLength (nat \<bar>n\<bar>) - 53);
                q = \<bar>n\<bar> div u; r = \<bar>n\<bar> mod u;
                q' = (if u < 2 * r \<or> (2 * r = u \<and> odd q) then q + 1 else q)
            in sgn n * (q' * u)))"

subsection \<open>parseInt(s, 10)\<close>

text \<open>
  The white space \<open>parseInt\<close> skips, among the characters of a string of the model:
  the tab, the line feed, the vertical tab, the form feed, the carriage return, the space
  and the no-break space.
\<close>

definition isWhiteSpace :: "char \<Rightarrow> bool" where
  "isWhiteSpace c =
     (c \<in> set [CHR 0x09, CHR 0x0A, CHR 0x0B, CHR 0x0C, CHR 0x0D, CHR '' '', CHR 0xA0])"

definition isDigit :: "char \<Rightarrow> bool" where
  "isDigit c = (c \<in> set ''0123456789'')"

definition digitVal :: "char \<Rightarrow> int" where
  "digitVal c = int (of_char c) - 48"

definition digitsVal :: "string \<Rightarrow> int" where
  "digitsVal ds = foldl (\<lambda>acc c. 10 * acc + digitVal c) 0 ds"

text \<open>
  ECMAScript's \<open>parseInt\<close> with radix 10: leading white space is skipped, one sign is
  read, and the longest run of decimal digits is the value, as a number; \<open>None\<close> is
  \<open>NaN\<close>.
\<close>

definition parseInt :: "string \<Rightarrow> int option" where
  "parseInt s =
     (let t = dropWhile isWhiteSpace s;
          sgn = (case t of c # _ \<Rightarrow> if c = CHR ''-'' then - 1 else 1 | [] \<Rightarrow> 1);
          u = (case t of c # r \<Rightarrow> if c = CHR ''-'' \<or> c = CHR ''+'' then r else t | [] \<Rightarrow> t);
          z = takeWhile isDigit u
      in if z = [] then None else Some (toNumber (sgn * digitsVal z)))"

text \<open>\<open>x > 0\<close> on a number that may be \<open>NaN\<close>: false for \<open>NaN\<close>.\<close>

definition gtZero :: "int option \<Rightarrow> bool" where
  "gtZero v = (case v of None \<Rightarrow> False | Some n \<Rightarrow> 0 < n)"

subsection \<open>Pagination\<close>

text \<open>
  The lines every list handler but two starts with:
  \<^verbatim>\<open>
  let { ..., page = 1, limit = 20 } = req.query;
  page = parseInt(page, 10) > 0 ? parseInt(page, 10) : 1;
  limit = parseInt(limit, 10) > 0 ? parseInt(limit, 10) : 20;
  const skip = (page - 1) * limit;
  \<close>
\<close>

record pagination =
  page :: int
  limit :: int
  skip :: int

definition parsePage :: "string option \<Rightarrow> int" where
  "parsePage p =
     (let v = parseInt (case p of None \<Rightarrow> ''1'' | Some s \<Rightarrow> s)
      in if gtZero v then (case v of Some n \<Rightarrow> n | None \<Rightarrow> 1) else 1)"

definition parseLimit :: "string option \<Rightarrow> int" where
  "parseLimit l =
     (let v = parseInt (case l of None \<Rightarrow> ''20'' | Some s \<Rightarrow> s)
      in if gtZero v then (case v of Some n \<Rightarrow> n | None \<Rightarrow> 20) else 20)"

definition parsePagination :: "string option \<Rightarrow> string option \<Rightarrow> pagination" where
  "parsePagination p l =
     (let pg = parsePage p; lm = parseLimit l
      in \<lparr>page = pg, limit = lm, skip = toNumber (toNumber (pg - 1) * lm)\<rparr>)"

text \<open>
  \<open>Math.ceil(total / limit)\<close>, for a total that is a count of documents (below
  \<open>2 ^ 53\<close>) and a limit that is a positive integer: the rounding of the quotient
  does not reach the next integer, so the result is the ceiling of the exact quotient.
\<close>

definition mathCeilDiv :: "int \<Rightarrow> int \<Rightarrow> int" where
  "mathCeilDiv a b = - ((- a) div b)"

record list_meta =
  total :: nat
  totalPages :: int
  currentPage :: int
  pageSize :: nat

text \<open>\<open>find(filters).skip(skip).limit(limit)\<close> on the matching documents, sorted.\<close>

definition pageOf :: "pagination \<Rightarrow> 'a list \<Rightarrow> 'a list" where
  "pageOf pg xs = take (nat (limit pg)) (drop (nat (skip pg)) xs)"

definition metaOf :: "pagination \<Rightarrow> nat \<Rightarrow> 'a list \<Rightarrow> list_meta" where
  "metaOf pg n recs =
     \<lparr>total = n, totalPages = mathCeilDiv (int n) (limit pg),
      currentPage = page pg, pageSize = length recs\<rparr>"

text \<open>
  \<open>listAllUsers\<close> (user.controller.js) parses its pagination otherwise:
  \<^verbatim>\<open>
  const page = parseInt(req.query.page, 10) || 1;
  const limit = parseInt(req.query.limit, 10) || 20;
  const skip = (page - 1) * limit;
  \<close>
  \<open>x || d\<close> is \<open>d\<close> when \<open>x\<close> is \<open>NaN\<close> or 0 and \<open>x\<close> otherwise;
  \<open>parseInt(undefined, 10)\<close> is \<open>NaN\<close>.
\<close>

definition orDefault :: "int option \<Rightarrow> int \<Rightarrow> int" where
  "orDefault v d = (case v of None \<Rightarrow> d | Some n \<Rightarrow> if n = 0 then d else n)"

definition listAllUsers_pagination :: "string option \<Rightarrow> string option \<Rightarrow> pagination" where
  "listAllUsers_pagination p l =
     (let pg = orDefault (case p of None \<Rightarrow> None | Some s \<Rightarrow> parseInt s) 1;
          lm = orDefault (case l of None \<Rightarrow> None | Some s \<Rightarrow> parseInt s) 20
      in \<lparr>page = pg, limit = lm, skip = toNumber (toNumber (pg - 1) * lm)\<rparr>)"

text \<open>Decimal digits of a number, for the template literals of the messages.\<close>

fun showNat :: "nat \<Rightarrow> string" where
  "showNat n =
     (if n < 10 then [char_of (48 + n)] else showNat (n div 10) @ [char_of (48 + n mod 10)])"

declare showNat.simps [simp del]

section \<open>The documents and the store\<close>

text \<open>
  The schemas of \<open>src/models\<close>. A path the schema does not require is optional; an
  \<open>enum\<close> path holds one of its values. A reference is the identifier
  (\<open>ObjectId\<close>) of the referenced document.
\<close>

datatype shift = Morning | Evening | Night

datatype attendance_status = Present | Absent | HalfDay

record attendance =
  att_id :: oid
  att_labourerId :: "oid option"
  att_projectId :: "oid option"
  att_date :: "int option"
  att_shift :: shift
  att_status :: attendance_status
  att_markedBy :: "oid option"

datatype salary_status = Pending | Paid

text \<open>\<open>salarySchema\<close> (salary.model.js) declares these paths and no \<open>paymentDate\<close>.\<close>

record salary =
  sal_id :: oid
  sal_labourerId :: "oid option"
  sal_startPeriod :: "int option"
  sal_endPeriod :: "int option"
  sal_totalDaysPresent :: int
  sal_dailyWage :: int
  sal_totalSalary :: int
  sal_status :: salary_status
  sal_payslipUrl :: string

text \<open>
  A salary document in memory on which a handler has set \<open>paymentDate\<close>: the schema
  is strict and has no such path, so the property stays on the object and \<open>save()\<close>
  does not write it.
\<close>

record salary_obj = salary +
  sal_paymentDate :: "int option"

datatype leave_status = LeavePending | LeaveApproved | LeaveRejected

record leave =
  lv_id :: oid
  lv_labourerId :: "oid option"
  lv_fromDate :: "int option"
  lv_toDate :: "int option"
  lv_reason :: string
  lv_status :: "leave_status option"
  lv_appliedOn :: "int option"
  lv_reviewedBy :: "oid option"

record store =
  attendances :: "attendance list"
  salaries :: "salary list"
  leaves :: "leave list"
  created :: nat  \<comment> \<open>how many documents the driver has given an identifier\<close>

definition shiftOf :: "string \<Rightarrow> shift option" where
  "shiftOf s =
     (if s = ''morning'' then Some Morning else if s = ''evening'' then Some Evening
      else if s = ''night'' then Some Night else None)"

definition attendanceStatusOf :: "string \<Rightarrow> attendance_status option" where
  "attendanceStatusOf s =
     (if s = ''present'' then Some Present else if s = ''absent'' then Some Absent
      else if s = ''half-day'' then Some HalfDay else None)"

definition salaryStatusOf :: "string \<Rightarrow> salary_status option" where
  "salaryStatusOf s =
     (if s = ''pending'' then Some Pending else if s = ''paid'' then Some Paid else None)"

definition leaveStatusOf :: "string \<Rightarrow> leave_status option" where
  "leaveStatusOf s =
     (if s = ''pending'' then Some LeavePending else if s = ''approved'' then Some LeaveApproved
      else if s = ''rejected'' then Some LeaveRejected else None)"

fun leaveStatusString :: "leave_status option \<Rightarrow> string" where
  "leaveStatusString (Some LeavePending) = ''pending''"
| "leaveStatusString (Some LeaveApproved) = ''approved''"
| "leaveStatusString (Some LeaveRejected) = ''rejected''"
| "leaveStatusString None = ''undefined''"

section \<open>References to other models, and populate\<close>

text \<open>
  The names under which the files of the repository register a model with
  \<open>mongoose.model(name, schema)\<close>: attendance.model.js, user.model.js,
  leave.model.js, salary.model.js, performance.model.js (two models) and
  notifications.model.js. The labourer model is not among them: its file calls
  \<open>new mongoose.schema({...})\<close>, which is no constructor, and so never reaches its
  \<open>mongoose.model("Labourer", ...)\<close>. Model names are case-sensitive.
\<close>

definition registeredModels :: "string list" where
  "registeredModels =
     [''Attendance'', ''User'', ''Leave'', ''Salary'', ''Performance'', ''Project'',
      ''Notifications'']"

text \<open>
  The \<open>ref\<close> of the references in the schemas: \<open>labourerId\<close> of an attendance, a
  salary and a leave; \<open>projectId\<close> of an attendance; \<open>markedBy\<close> of an attendance
  and \<open>reviewedBy\<close> of a leave.
\<close>

definition labourerRef :: string where "labourerRef = ''labourer''"

definition projectRef :: string where "projectRef = ''project''"

definition userRef :: string where "userRef = ''User''"

text \<open>
  \<open>.populate({ path, select })\<close> on the documents a query has found. For every
  document with a value at the path Mongoose looks up the model the path refers to, and
  throws \<open>MissingSchemaError\<close> when no model has that name. When the query has found no
  document, or none with a value at the path, no model is looked up.
\<close>

definition populateError :: "string \<Rightarrow> ('a \<Rightarrow> oid option) \<Rightarrow> 'a list \<Rightarrow> error option" where
  "populateError ref path docs =
     (if list_ex (\<lambda>d. path d \<noteq> None) docs \<and> ref \<notin> set registeredModels
      then Some (MissingSchemaError ref) else None)"

fun firstError :: "error option list \<Rightarrow> error option" where
  "firstError [] = None"
| "firstError (Some err # _) = Some err"
| "firstError (None # errs) = firstError errs"

text \<open>
  A reference to a user, populated with \<open>select: "username email"\<close>: the user
  document with its \<open>_id\<close> and its \<open>email\<close> (\<open>userSchema\<close> has no path
  \<open>username\<close>), or \<open>null\<close> when the reference is absent or no user has that
  identifier. In the populated document this value is at the path of the reference; the
  records below keep the reference and add the value beside it.
\<close>

record user_doc =
  ud_id :: oid
  ud_email :: string

definition populateUser :: "env \<Rightarrow> oid option \<Rightarrow> user_doc option" where
  "populateUser e r =
     (case r of
        None \<Rightarrow> None
      | Some u \<Rightarrow> (case findUser e u of None \<Rightarrow> None
                  | Some m \<Rightarrow> Some \<lparr>ud_id = u, ud_email = m\<rparr>))"

record attendance_doc = attendance +
  att_markedByDoc :: "user_doc option"

record leave_doc = leave +
  lv_reviewedByDoc :: "user_doc option"

definition populateMarkedBy :: "env \<Rightarrow> attendance \<Rightarrow> attendance_doc" where
  "populateMarkedBy e a = attendance.extend a \<lparr>att_markedByDoc = populateUser e (att_markedBy a)\<rparr>"

definition populateReviewedBy :: "env \<Rightarrow> leave \<Rightarrow> leave_doc" where
  "populateReviewedBy e l = leave.extend l \<lparr>lv_reviewedByDoc = populateUser e (lv_reviewedBy l)\<rparr>"

section \<open>Salary: the schema's validators and the writes\<close>

text \<open>
  The object \<open>generateSalaryForPeriod\<close> builds for \<open>insertMany\<close>, before Mongoose
  casts and validates it.
\<close>

record salary_new =
  new_labourerId :: "oid option"
  new_startPeriod :: int
  new_endPeriod :: int
  new_totalDaysPresent :: int
  new_dailyWage :: int
  new_totalSalary :: int
  new_status :: string
  new_payslipUrl :: string

text \<open>
  The validators \<open>salarySchema\<close> declares, as (path, message) pairs. Mongoose's
  \<open>required\<close> validator on a \<open>String\<close> path accepts a string of positive length
  only, so the empty string is rejected like \<open>undefined\<close>; \<open>enum\<close> accepts the
  listed values. The numbers are present in a \<open>salary_new\<close>.
\<close>

definition requiredString :: "string \<Rightarrow> bool" where
  "requiredString s = (s \<noteq> [])"

definition salaryErrors :: "string \<Rightarrow> string \<Rightarrow> (string \<times> string) list" where
  "salaryErrors status payslipUrl =
     (if \<not> requiredString status then [(''status'', ''Status Present is required'')]
      else if salaryStatusOf status = None
      then [(''status'', ''`'' @ status @ ''` is not a valid enum value for path `status`.'')]
      else [])
     @ (if \<not> requiredString payslipUrl then [(''payslipUrl'', ''Pay Slip Url is required'')]
        else [])"

definition castSalary :: "oid \<Rightarrow> salary_new \<Rightarrow> (string \<times> string) list + salary" where
  "castSalary i n =
     (case (salaryErrors (new_status n) (new_payslipUrl n), salaryStatusOf (new_status n)) of
        ([], Some s) \<Rightarrow>
          Inr \<lparr>sal_id = i, sal_labourerId = new_labourerId n,
               sal_startPeriod = Some (new_startPeriod n), sal_endPeriod = Some (new_endPeriod n),
               sal_totalDaysPresent = new_totalDaysPresent n, sal_dailyWage = new_dailyWage n,
               sal_totalSalary = new_totalSalary n, sal_status = s,
               sal_payslipUrl = new_payslipUrl n\<rparr>
      | (errs, _) \<Rightarrow> Inl errs)"

text \<open>The documents of a batch with the identifiers the driver gives them.\<close>

definition castSalaries ::
  "env \<Rightarrow> nat \<Rightarrow> salary_new list \<Rightarrow> ((string \<times> string) list + salary) list" where
  "castSalaries e c news = map (\<lambda>(k, n). castSalary (mkId e (c + k)) n) (enumerate 0 news)"

fun firstInl :: "('a + 'b) list \<Rightarrow> 'a option" where
  "firstInl [] = None"
| "firstInl (Inl a # _) = Some a"
| "firstInl (Inr _ # xs) = firstInl xs"

fun allInr :: "('a + 'b) list \<Rightarrow> 'b list" where
  "allInr [] = []"
| "allInr (Inl _ # xs) = allInr xs"
| "allInr (Inr b # xs) = b # allInr xs"

text \<open>
  \<open>Salary.insertMany(docs)\<close>, with no options: \<open>ordered\<close> is true. Mongoose
  validates every document before it sends any; when one fails its validators the call
  rejects with that \<open>ValidationError\<close> and no document is saved.
\<close>

definition insertManySalary ::
  "env \<Rightarrow> salary_new list \<Rightarrow> store \<Rightarrow> (error + salary list) \<times> store" where
  "insertManySalary e news st =
     (let docs = castSalaries e (created st) news
      in case firstInl docs of
           Some errs \<Rightarrow> (Inl (ValidationError errs), st)
         | None \<Rightarrow>
             (Inr (allInr docs),
              st\<lparr>salaries := salaries st @ allInr docs, created := created st + length news\<rparr>))"

text \<open>
  \<open>doc.save()\<close> on a loaded salary document: the paths are validated again, and the
  stored document of that identifier is replaced.
\<close>

definition saveSalary :: "salary \<Rightarrow> store \<Rightarrow> (error + salary) \<times> store" where
  "saveSalary d st =
     (if \<not> requiredString (sal_payslipUrl d)
      then (Inl (ValidationError [(''payslipUrl'', ''Pay Slip Url is required'')]), st)
      else (Inr d, st\<lparr>salaries := map (\<lambda>r. if sal_id r = sal_id d then d else r) (salaries st)\<rparr>))"

definition findSalaryById :: "oid \<Rightarrow> store \<Rightarrow> salary option" where
  "findSalaryById i st = find (\<lambda>r. sal_id r = i) (salaries st)"

section \<open>Salary generation (salary.controller.js, generateSalaryForPeriod)\<close>

record generate_body =
  gb_startPeriod :: "string option"
  gb_endPeriod :: "string option"
  gb_dailyWage :: jsval

record generate_response =
  gr_code :: nat
  gr_message :: string
  gr_generatedSalaries :: "salary list"

text \<open>The \<open>$match\<close> stage: the date in \<open>[start, end]\<close> and the status "present".\<close>

definition presentInPeriod :: "int \<Rightarrow> int \<Rightarrow> attendance \<Rightarrow> bool" where
  "presentInPeriod s e a =
     ((case att_date a of None \<Rightarrow> False | Some d \<Rightarrow> s \<le> d \<and> d \<le> e) \<and> att_status a = Present)"

text \<open>
  The \<open>$group\<close> stage: one entry per labourer reference among the matched documents,
  with the number of them.
\<close>

definition attendanceAggregation ::
  "int \<Rightarrow> int \<Rightarrow> attendance list \<Rightarrow> (oid option \<times> int) list" where
  "attendanceAggregation s e as =
     (let m = filter (presentInPeriod s e) as
      in map (\<lambda>l. (l, int (length (filter (\<lambda>a. att_labourerId a = l) m))))
           (remdups (map att_labourerId m)))"

definition existingSalaries :: "oid option list \<Rightarrow> int \<Rightarrow> int \<Rightarrow> salary list \<Rightarrow> salary list" where
  "existingSalaries labourerIds s e sals =
     filter (\<lambda>r. sal_labourerId r \<in> set labourerIds \<and> sal_startPeriod r = Some s
                 \<and> sal_endPeriod r = Some e) sals"

definition salaryRecordsToCreate ::
  "int \<Rightarrow> int \<Rightarrow> int \<Rightarrow> (oid option \<times> int) list \<Rightarrow> oid option list \<Rightarrow> salary_new list" where
  "salaryRecordsToCreate s e dailyWage agg existingLabourerIds =
     map (\<lambda>(l, n).
            \<lparr>new_labourerId = l, new_startPeriod = s, new_endPeriod = e,
             new_totalDaysPresent = n, new_dailyWage = dailyWage,
             new_totalSalary = n * dailyWage, new_status = ''pending'', new_payslipUrl = []\<rparr>)
       (filter (\<lambda>(l, n). l \<notin> set existingLabourerIds) agg)"

text \<open>
  The handler after its input checks. \<open>rec._id.toString()\<close> throws on a group whose
  \<open>_id\<close> is null (attendance without a labourer reference).
\<close>

definition generateSalaries ::
  "env \<Rightarrow> int \<Rightarrow> int \<Rightarrow> int \<Rightarrow> store \<Rightarrow> (error + generate_response) \<times> store" where
  "generateSalaries e s en dailyWage st =
     (let agg = attendanceAggregation s en (attendances st)
      in if agg = []
         then (Inr \<lparr>gr_code = 200,
                    gr_message = ''No attendance records found for the given period to generate salary.'',
                    gr_generatedSalaries = []\<rparr>, st)
         else if None \<in> set (map fst agg)
         then (Inl (TypeError ''Cannot read properties of null (reading toString)''), st)
         else
           (let labourerIds = map fst agg;
                existingLabourerIds =
                  map sal_labourerId (existingSalaries labourerIds s en (salaries st));
                toCreate = salaryRecordsToCreate s en dailyWage agg existingLabourerIds
            in if toCreate = []
               then (Inr \<lparr>gr_code = 200,
                          gr_message = ''Salary records for this period already generated for all labourers.'',
                          gr_generatedSalaries = []\<rparr>, st)
               else (case insertManySalary e toCreate st of
                       (Inl err, st') \<Rightarrow> (Inl err, st')
                     | (Inr createdSalaries, st') \<Rightarrow>
                         (Inr \<lparr>gr_code = 201,
                               gr_message = ''Generated salary records for ''
                                 @ showNat (length createdSalaries) @ '' labourers'',
                               gr_generatedSalaries = createdSalaries\<rparr>, st'))))"

definition generateSalaryForPeriod ::
  "env \<Rightarrow> generate_body \<Rightarrow> store \<Rightarrow> (error + generate_response) \<times> store" where
  "generateSalaryForPeriod e b st =
     (if \<not> truthy (gb_startPeriod b) \<or> \<not> truthy (gb_endPeriod b) \<or> gb_dailyWage b = JUndefined
      then (Inl (ApiError 400 ''startPeriod, endPeriod, and dailyWage are required''), st)
      else
        (case (gb_startPeriod b, gb_endPeriod b) of
           (Some sp, Some ep) \<Rightarrow>
             (case (newDate e sp, newDate e ep) of
                (Some s, Some en) \<Rightarrow>
                  if s > en
                  then (Inl (ApiError 400 ''startPeriod cannot be after endPeriod''), st)
                  else (case gb_dailyWage b of
                          JNumber w \<Rightarrow>
                            if w < 0
                            then (Inl (ApiError 400 ''dailyWage must be a positive number''), st)
                            else generateSalaries e s en w st
                        | _ \<Rightarrow> (Inl (ApiError 400 ''dailyWage must be a positive number''), st))
              | _ \<Rightarrow> (Inl (ApiError 400 ''Invalid startPeriod or endPeriod date format''), st))
         | _ \<Rightarrow> (Inl (ApiError 400 ''startPeriod, endPeriod, and dailyWage are required''), st)))"

section \<open>Listing salary records (listSalaryRecords, viewSalaryPayslipDetailsForLabourer)\<close>

definition quoted :: "string \<Rightarrow> string" where
  "quoted s = CHR 0x27 # s @ [CHR 0x27]"

record salary_query =
  sq_labourerId :: "string option"
  sq_status :: "string option"
  sq_startPeriod :: "string option"
  sq_endPeriod :: "string option"
  sq_paymentDate :: "string option"
  sq_page :: "string option"
  sq_limit :: "string option"

text \<open>
  The members of \<open>filters.$and\<close>: \<open>{ end: { $gte: d } }\<close> and
  \<open>{ start: { $lte: d } }\<close>, where the two paths are \<open>endPeriod\<close> and
  \<open>startPeriod\<close> of a salary, \<open>toDate\<close> and \<open>fromDate\<close> of a leave.
\<close>

datatype overlap_cond = EndGte int | StartLte int

text \<open>
  \<^verbatim>\<open>
  if (startPeriod || endPeriod) {
    filters.$and = [];
    if (startPeriod && !isNaN(new Date(startPeriod)))
      filters.$and.push({ endPeriod: { $gte: new Date(startPeriod) } });
    if (endPeriod && !isNaN(new Date(endPeriod)))
      filters.$and.push({ startPeriod: { $lte: new Date(endPeriod) } });
    if (filters.$and.length === 0) delete filters.$and;
  }
  \<close>
  \<open>None\<close> is the filter without the key \<open>$and\<close>.
\<close>

definition startBound :: "env \<Rightarrow> string option \<Rightarrow> overlap_cond list" where
  "startBound e sp =
     (case sp of
        None \<Rightarrow> []
      | Some s \<Rightarrow> if s = [] then [] else (case newDate e s of None \<Rightarrow> [] | Some d \<Rightarrow> [EndGte d]))"

definition endBound :: "env \<Rightarrow> string option \<Rightarrow> overlap_cond list" where
  "endBound e ep =
     (case ep of
        None \<Rightarrow> []
      | Some s \<Rightarrow> if s = [] then [] else (case newDate e s of None \<Rightarrow> [] | Some d \<Rightarrow> [StartLte d]))"

definition overlapConds :: "env \<Rightarrow> string option \<Rightarrow> string option \<Rightarrow> overlap_cond list option" where
  "overlapConds e sp ep =
     (if truthy sp \<or> truthy ep
      then (let cs = startBound e sp @ endBound e ep in if cs = [] then None else Some cs)
      else None)"

record salary_filters =
  sf_labourerId :: "oid option"
  sf_status :: "salary_status option"
  sf_and :: "overlap_cond list option"
  sf_paymentDate :: "(int \<times> int) option"

text \<open>\<open>if (x && mongoose.Types.ObjectId.isValid(x)) filters.x = x\<close>\<close>

definition idFilter :: "env \<Rightarrow> string option \<Rightarrow> oid option" where
  "idFilter e x =
     (case x of None \<Rightarrow> None | Some s \<Rightarrow> if s \<noteq> [] \<and> isValid e s then objectId e s else None)"

definition salaryStatusFilter :: "string option \<Rightarrow> error + salary_status option" where
  "salaryStatusFilter x =
     (case x of
        None \<Rightarrow> Inr None
      | Some s \<Rightarrow>
          if s = [] then Inr None
          else (case salaryStatusOf s of
                  None \<Rightarrow> Inl (ApiError 400 (''Status must be '' @ quoted ''pending'' @ '' or ''
                                              @ quoted ''paid''))
                | Some v \<Rightarrow> Inr (Some v)))"

definition paymentDateFilter :: "env \<Rightarrow> string option \<Rightarrow> (int \<times> int) option" where
  "paymentDateFilter e x =
     (case x of
        None \<Rightarrow> None
      | Some s \<Rightarrow>
          if s = [] then None
          else (case newDate e s of None \<Rightarrow> None
                | Some target \<Rightarrow> Some (startOfDay e target, endOfDay e target)))"

fun salaryCond :: "overlap_cond \<Rightarrow> salary \<Rightarrow> bool" where
  "salaryCond (EndGte d) r = (case sal_endPeriod r of None \<Rightarrow> False | Some x \<Rightarrow> d \<le> x)"
| "salaryCond (StartLte d) r = (case sal_startPeriod r of None \<Rightarrow> False | Some x \<Rightarrow> x \<le> d)"

text \<open>The conditions of \<open>$and\<close>, when the filter has them.\<close>

definition salaryPeriodOk :: "salary_filters \<Rightarrow> salary \<Rightarrow> bool" where
  "salaryPeriodOk f r = (case sf_and f of None \<Rightarrow> True | Some cs \<Rightarrow> list_all (\<lambda>c. salaryCond c r) cs)"

text \<open>
  Whether a stored salary satisfies the filter. No stored salary has a \<open>paymentDate\<close>
  (the schema has no such path), so a filter on it matches nothing, unless
  \<open>strictQuery\<close> removes it from the query.
\<close>

definition salaryMatches :: "env \<Rightarrow> salary_filters \<Rightarrow> salary \<Rightarrow> bool" where
  "salaryMatches e f r =
     ((case sf_labourerId f of None \<Rightarrow> True | Some l \<Rightarrow> sal_labourerId r = Some l)
      \<and> (case sf_status f of None \<Rightarrow> True | Some s \<Rightarrow> sal_status r = s)
      \<and> salaryPeriodOk f r
      \<and> (case sf_paymentDate f of None \<Rightarrow> True | Some _ \<Rightarrow> strictQuery e))"

text \<open>\<open>.sort({ startPeriod: -1, endPeriod: -1 })\<close>\<close>

definition sortSalaries :: "salary list \<Rightarrow> salary list" where
  "sortSalaries rs = rev (sort_key (\<lambda>r. (sal_startPeriod r, sal_endPeriod r)) rs)"

record 'a list_response =
  meta :: list_meta
  records :: "'a list"

definition findSalaries :: "env \<Rightarrow> salary_filters \<Rightarrow> pagination \<Rightarrow> store \<Rightarrow> salary list_response" where
  "findSalaries e f pg st =
     (let matching = filter (salaryMatches e f) (salaries st);
          recs = pageOf pg (sortSalaries matching)
      in \<lparr>meta = metaOf pg (length matching) recs, records = recs\<rparr>)"

definition listSalaryFilters :: "env \<Rightarrow> salary_query \<Rightarrow> error + salary_filters" where
  "listSalaryFilters e q =
     (case salaryStatusFilter (sq_status q) of
        Inl err \<Rightarrow> Inl err
      | Inr status \<Rightarrow>
          Inr \<lparr>sf_labourerId = idFilter e (sq_labourerId q), sf_status = status,
               sf_and = overlapConds e (sq_startPeriod q) (sq_endPeriod q),
               sf_paymentDate = paymentDateFilter e (sq_paymentDate q)\<rparr>)"

text \<open>
  \<open>Salary.find(filters).skip(skip).limit(limit).sort(...).populate({ path: "labourerId",
  ... })\<close>: the documents of the page, with the labourer populated.
\<close>

definition populateSalaries :: "salary list_response \<Rightarrow> error + salary list_response" where
  "populateSalaries r =
     (case populateError labourerRef sal_labourerId (records r) of
        Some err \<Rightarrow> Inl err
      | None \<Rightarrow> Inr r)"

definition listSalaryRecords ::
  "env \<Rightarrow> salary_query \<Rightarrow> store \<Rightarrow> (error + salary list_response) \<times> store" where
  "listSalaryRecords e q st =
     (let pg = parsePagination (sq_page q) (sq_limit q)
      in case listSalaryFilters e q of
           Inl err \<Rightarrow> (Inl err, st)
         | Inr filters \<Rightarrow> (populateSalaries (findSalaries e filters pg st), st))"

text \<open>
  \<open>viewSalaryPayslipDetailsForLabourer\<close>: the labourer is a path parameter and must be
  valid; there is no \<open>paymentDate\<close> filter; the pagination is parsed after the filters.
\<close>

definition viewSalaryFilters :: "env \<Rightarrow> string \<Rightarrow> salary_query \<Rightarrow> error + salary_filters" where
  "viewSalaryFilters e labourerId q =
     (if \<not> isValid e labourerId then Inl (ApiError 400 ''Invalid labourer ID'')
      else case salaryStatusFilter (sq_status q) of
             Inl err \<Rightarrow> Inl err
           | Inr status \<Rightarrow>
               Inr \<lparr>sf_labourerId = objectId e labourerId, sf_status = status,
                    sf_and = overlapConds e (sq_startPeriod q) (sq_endPeriod q),
                    sf_paymentDate = None\<rparr>)"


section \<open>Marking a salary as paid (markSalaryAsPaid)\<close>

text \<open>
  \<^verbatim>\<open>
  let payDate = new Date();
  if (paymentDate) {
    const d = new Date(paymentDate);
    if (isNaN(d)) return next(new ApiError(400, "Invalid paymentDate"));
    payDate = d;
  }
  \<close>
\<close>

definition payDateOf :: "env \<Rightarrow> string option \<Rightarrow> error + int" where
  "payDateOf e paymentDate =
     (case paymentDate of
        None \<Rightarrow> Inr (now e)
      | Some s \<Rightarrow>
          if s = [] then Inr (now e)
          else (case newDate e s of None \<Rightarrow> Inl (ApiError 400 ''Invalid paymentDate'')
                | Some d \<Rightarrow> Inr d))"

text \<open>
  The result is the document in memory, with the \<open>paymentDate\<close> property the handler
  has set on it. \<open>paymentDate\<close> is no path of the schema: the store gets what
  \<open>save()\<close> writes, the paths of the schema, and the JSON of the response is made of
  the same paths.
\<close>

definition markSalaryAsPaid ::
  "env \<Rightarrow> string \<Rightarrow> string option \<Rightarrow> store \<Rightarrow> (error + salary_obj) \<times> store" where
  "markSalaryAsPaid e salaryId paymentDate st =
     (case objectId e salaryId of
        None \<Rightarrow> (Inl (ApiError 400 ''Invalid salary record ID''), st)
      | Some i \<Rightarrow>
          (case payDateOf e paymentDate of
             Inl err \<Rightarrow> (Inl err, st)
           | Inr payDate \<Rightarrow>
               (case findSalaryById i st of
                  None \<Rightarrow> (Inl (ApiError 404 ''Salary record not found''), st)
                | Some salary \<Rightarrow>
                    (case saveSalary (salary\<lparr>sal_status := Paid\<rparr>) st of
                       (Inl err, st') \<Rightarrow> (Inl err, st')
                     | (Inr saved, st') \<Rightarrow>
                         (Inr (salary.extend saved \<lparr>sal_paymentDate = Some payDate\<rparr>), st')))))"

section \<open>Attendance: the schema's casts and validators and the writes\<close>

text \<open>
  The fields of a mark-attendance body, of an entry of a bulk body and of an update
  body.
\<close>

record attendance_input =
  ai_labourerId :: "string option"
  ai_projectId :: "string option"
  ai_date :: "string option"
  ai_shift :: "string option"
  ai_status :: "string option"
  ai_markedBy :: "string option"

text \<open>
  The object a handler passes to \<open>create\<close> or \<open>insertMany\<close>: the strings of the
  request, and \<open>new Date(date)\<close>, where \<open>None\<close> is the Invalid Date.
\<close>

record attendance_new =
  an_labourerId :: "string option"
  an_projectId :: "string option"
  an_date :: "int option"
  an_shift :: "string option"
  an_status :: "string option"
  an_markedBy :: "string option"

text \<open>
  Casting to \<open>ObjectId\<close>: \<open>undefined\<close> stays unset, a string must denote an
  identifier. The result is the (path, message) pairs of the failures.
\<close>

definition castIdErrors :: "env \<Rightarrow> string \<Rightarrow> string option \<Rightarrow> (string \<times> string) list" where
  "castIdErrors e path v =
     (case v of
        None \<Rightarrow> []
      | Some s \<Rightarrow> if objectId e s = None
                  then [(path, ''Cast to ObjectId failed for value '' @ quoted s)] else [])"

definition castId :: "env \<Rightarrow> string option \<Rightarrow> oid option" where
  "castId e v = (case v of None \<Rightarrow> None | Some s \<Rightarrow> objectId e s)"

text \<open>A required \<open>enum\<close> path of strings: \<open>allowed\<close> tells the listed values.\<close>

definition enumErrors ::
  "string \<Rightarrow> string \<Rightarrow> (string \<Rightarrow> bool) \<Rightarrow> string option \<Rightarrow> (string \<times> string) list" where
  "enumErrors path requiredMessage allowed v =
     (case v of
        None \<Rightarrow> [(path, requiredMessage)]
      | Some s \<Rightarrow>
          if \<not> requiredString s then [(path, requiredMessage)]
          else if \<not> allowed s
          then [(path, ''`'' @ s @ ''` is not a valid enum value for path `'' @ path @ ''`.'')]
          else [])"

definition attendanceErrors :: "env \<Rightarrow> attendance_new \<Rightarrow> (string \<times> string) list" where
  "attendanceErrors e n =
     castIdErrors e ''labourerId'' (an_labourerId n)
     @ castIdErrors e ''projectId'' (an_projectId n)
     @ (if an_date n = None then [(''date'', ''Cast to date failed for value Invalid Date'')]
        else [])
     @ enumErrors ''shift'' ''Shift is required'' (\<lambda>s. shiftOf s \<noteq> None) (an_shift n)
     @ enumErrors ''status'' ''status is required'' (\<lambda>s. attendanceStatusOf s \<noteq> None) (an_status n)
     @ castIdErrors e ''markedBy'' (an_markedBy n)"

definition castAttendance :: "env \<Rightarrow> oid \<Rightarrow> attendance_new \<Rightarrow> (string \<times> string) list + attendance" where
  "castAttendance e i n =
     (case (attendanceErrors e n,
            case an_shift n of None \<Rightarrow> None | Some s \<Rightarrow> shiftOf s,
            case an_status n of None \<Rightarrow> None | Some s \<Rightarrow> attendanceStatusOf s) of
        ([], Some sh, Some status) \<Rightarrow>
          Inr \<lparr>att_id = i, att_labourerId = castId e (an_labourerId n),
               att_projectId = castId e (an_projectId n), att_date = an_date n,
               att_shift = sh, att_status = status, att_markedBy = castId e (an_markedBy n)\<rparr>
      | (errs, _, _) \<Rightarrow> Inl errs)"

text \<open>\<open>Attendance.create(doc)\<close>\<close>

definition createAttendance ::
  "env \<Rightarrow> attendance_new \<Rightarrow> store \<Rightarrow> (error + attendance) \<times> store" where
  "createAttendance e n st =
     (case castAttendance e (mkId e (created st)) n of
        Inl errs \<Rightarrow> (Inl (ValidationError errs), st)
      | Inr doc \<Rightarrow>
          (Inr doc, st\<lparr>attendances := attendances st @ [doc], created := created st + 1\<rparr>))"

text \<open>
  The key of an attendance record: labourer, project, date and shift.
\<close>

type_synonym attendance_key = "oid option \<times> oid option \<times> int option \<times> shift"

definition attKey :: "attendance \<Rightarrow> attendance_key" where
  "attKey a = (att_labourerId a, att_projectId a, att_date a, att_shift a)"

definition findAttendanceById :: "oid \<Rightarrow> store \<Rightarrow> attendance option" where
  "findAttendanceById i st = find (\<lambda>a. att_id a = i) (attendances st)"

section \<open>Marking attendance (attendance.controller.js, markAttendance)\<close>

text \<open>\<open>x && !mongoose.Types.ObjectId.isValid(x)\<close>\<close>

definition invalidIfTruthy :: "env \<Rightarrow> string option \<Rightarrow> bool" where
  "invalidIfTruthy e v = (case v of None \<Rightarrow> False | Some s \<Rightarrow> s \<noteq> [] \<and> \<not> isValid e s)"

text \<open>
  \<^verbatim>\<open>
  const exists = await Attendance.findOne({ labourerId, projectId, date: new Date(date), shift });
  \<close>
  The query casts the identifiers and the date; a shift that is no value of the
  \<open>enum\<close> matches no document.
\<close>

definition findDuplicate ::
  "oid option \<Rightarrow> oid option \<Rightarrow> int \<Rightarrow> string \<Rightarrow> store \<Rightarrow> attendance option" where
  "findDuplicate l p d sh st =
     find (\<lambda>a. att_labourerId a = l \<and> att_projectId a = p \<and> att_date a = Some d
               \<and> shiftOf sh = Some (att_shift a)) (attendances st)"

definition markAttendance ::
  "env \<Rightarrow> attendance_input \<Rightarrow> store \<Rightarrow> (error + attendance) \<times> store" where
  "markAttendance e b st =
     (case (ai_labourerId b, ai_projectId b, ai_date b, ai_shift b, ai_status b) of
        (Some labourerId, Some projectId, Some date, Some sh, Some status) \<Rightarrow>
          if labourerId = [] \<or> projectId = [] \<or> date = [] \<or> sh = [] \<or> status = []
          then (Inl (ApiError 400
                  ''All fields (labourerId, projectId, date, shift, status) are required''), st)
          else if \<not> isValid e labourerId then (Inl (ApiError 400 ''Invalid labourerId''), st)
          else if \<not> isValid e projectId then (Inl (ApiError 400 ''Invalid projectId''), st)
          else if invalidIfTruthy e (ai_markedBy b)
          then (Inl (ApiError 400 ''Invalid markedBy user ID''), st)
          else
            (case newDate e date of
               None \<Rightarrow> (Inl (CastError ''Cast to date failed for value Invalid Date''), st)
             | Some d \<Rightarrow>
                 (case findDuplicate (objectId e labourerId) (objectId e projectId) d sh st of
                    Some _ \<Rightarrow>
                      (Inl (ApiError 409
                         ''Attendance already marked for this labourer, project, date, and shift''), st)
                  | None \<Rightarrow>
                      createAttendance e
                        \<lparr>an_labourerId = Some labourerId, an_projectId = Some projectId,
                         an_date = Some d, an_shift = Some sh, an_status = Some status,
                         an_markedBy = ai_markedBy b\<rparr> st))
      | _ \<Rightarrow> (Inl (ApiError 400
                  ''All fields (labourerId, projectId, date, shift, status) are required''), st))"

section \<open>Updating attendance (updateAttendance)\<close>

text \<open>
  \<open>updates\<close> holds the fields of the body that are not \<open>undefined\<close>; the checks of
  the handler look at the truthy ones.
\<close>

definition notAllowedIfTruthy :: "(string \<Rightarrow> bool) \<Rightarrow> string option \<Rightarrow> bool" where
  "notAllowedIfTruthy allowed v = (case v of None \<Rightarrow> False | Some s \<Rightarrow> s \<noteq> [] \<and> \<not> allowed s)"

text \<open>\<open>updates.x || attendance.x\<close> on a reference, as the query casts it.\<close>

definition idToCheck :: "env \<Rightarrow> string option \<Rightarrow> oid option \<Rightarrow> oid option" where
  "idToCheck e v stored = (if truthy v then castId e v else stored)"

definition dateToCheck :: "env \<Rightarrow> string option \<Rightarrow> int option \<Rightarrow> int option" where
  "dateToCheck e v stored =
     (case v of None \<Rightarrow> stored | Some s \<Rightarrow> if s = [] then stored else newDate e s)"

definition shiftToCheck :: "string option \<Rightarrow> shift \<Rightarrow> shift" where
  "shiftToCheck v stored =
     (case v of
        None \<Rightarrow> stored
      | Some s \<Rightarrow> if s = [] then stored else (case shiftOf s of None \<Rightarrow> stored | Some x \<Rightarrow> x))"

text \<open>
  \<open>Object.assign(attendance, updates)\<close>: Mongoose casts what is assigned. The empty
  string is cast to \<open>null\<close> on a \<open>Date\<close> path; on the other paths it fails its cast
  or its \<open>required\<close> validator when the document is saved.
\<close>

definition assignErrors :: "env \<Rightarrow> attendance_input \<Rightarrow> (string \<times> string) list" where
  "assignErrors e u =
     castIdErrors e ''labourerId'' (ai_labourerId u)
     @ castIdErrors e ''projectId'' (ai_projectId u)
     @ (case ai_date u of
          None \<Rightarrow> []
        | Some s \<Rightarrow> if s \<noteq> [] \<and> newDate e s = None
                    then [(''date'', ''Cast to date failed for value '' @ quoted s)] else [])
     @ (case ai_shift u of
          None \<Rightarrow> []
        | Some s \<Rightarrow> enumErrors ''shift'' ''Shift is required'' (\<lambda>s. shiftOf s \<noteq> None) (Some s))
     @ (case ai_status u of
          None \<Rightarrow> []
        | Some s \<Rightarrow> enumErrors ''status'' ''status is required''
                     (\<lambda>s. attendanceStatusOf s \<noteq> None) (Some s))
     @ castIdErrors e ''markedBy'' (ai_markedBy u)"

definition assignUpdates :: "env \<Rightarrow> attendance \<Rightarrow> attendance_input \<Rightarrow> attendance" where
  "assignUpdates e a u =
     a\<lparr>att_labourerId := (case ai_labourerId u of None \<Rightarrow> att_labourerId a | Some s \<Rightarrow> objectId e s),
       att_projectId := (case ai_projectId u of None \<Rightarrow> att_projectId a | Some s \<Rightarrow> objectId e s),
       att_date := (case ai_date u of None \<Rightarrow> att_date a
                    | Some s \<Rightarrow> if s = [] then None else newDate e s),
       att_shift := (case ai_shift u of None \<Rightarrow> att_shift a
                     | Some s \<Rightarrow> (case shiftOf s of None \<Rightarrow> att_shift a | Some x \<Rightarrow> x)),
       att_status := (case ai_status u of None \<Rightarrow> att_status a
                      | Some s \<Rightarrow> (case attendanceStatusOf s of None \<Rightarrow> att_status a | Some x \<Rightarrow> x)),
       att_markedBy := (case ai_markedBy u of None \<Rightarrow> att_markedBy a | Some s \<Rightarrow> objectId e s)\<rparr>"

text \<open>\<open>attendance.save()\<close> after the assignment.\<close>

definition saveAttendance ::
  "env \<Rightarrow> attendance \<Rightarrow> attendance_input \<Rightarrow> store \<Rightarrow> (error + attendance) \<times> store" where
  "saveAttendance e a u st =
     (if assignErrors e u \<noteq> [] then (Inl (ValidationError (assignErrors e u)), st)
      else (Inr (assignUpdates e a u),
            st\<lparr>attendances :=
                 map (\<lambda>x. if att_id x = att_id a then assignUpdates e a u else x) (attendances st)\<rparr>))"

text \<open>
  \<^verbatim>\<open>
  const existing = await Attendance.findOne({
    _id: { $ne: attendanceId }, labourerId: labourerIdToCheck, projectId: projectIdToCheck,
    date: dateToCheck, shift: shiftToCheck });
  \<close>
\<close>

definition findOther :: "oid \<Rightarrow> attendance_key \<Rightarrow> store \<Rightarrow> attendance option" where
  "findOther i k st = find (\<lambda>x. att_id x \<noteq> i \<and> attKey x = k) (attendances st)"

definition updateAttendance ::
  "env \<Rightarrow> string \<Rightarrow> attendance_input \<Rightarrow> store \<Rightarrow> (error + attendance) \<times> store" where
  "updateAttendance e attendanceId u st =
     (case objectId e attendanceId of
        None \<Rightarrow> (Inl (ApiError 400 ''Invalid attendance ID''), st)
      | Some i \<Rightarrow>
          if invalidIfTruthy e (ai_labourerId u) then (Inl (ApiError 400 ''Invalid labourerId''), st)
          else if invalidIfTruthy e (ai_projectId u) then (Inl (ApiError 400 ''Invalid projectId''), st)
          else if invalidIfTruthy e (ai_markedBy u)
          then (Inl (ApiError 400 ''Invalid markedBy user ID''), st)
          else if notAllowedIfTruthy (\<lambda>s. shiftOf s \<noteq> None) (ai_shift u)
          then (Inl (ApiError 400 ''Shift must be one of: morning, evening, night''), st)
          else if notAllowedIfTruthy (\<lambda>s. attendanceStatusOf s \<noteq> None) (ai_status u)
          then (Inl (ApiError 400 ''Status must be one of: present, absent, half-day''), st)
          else if notAllowedIfTruthy (\<lambda>s. newDate e s \<noteq> None) (ai_date u)
          then (Inl (ApiError 400 ''Invalid date format''), st)
          else
            (case findAttendanceById i st of
               None \<Rightarrow> (Inl (ApiError 404 ''Attendance record not found''), st)
             | Some attendance \<Rightarrow>
                 if (truthy (ai_labourerId u) \<or> truthy (ai_projectId u) \<or> truthy (ai_date u)
                     \<or> truthy (ai_shift u))
                    \<and> findOther i
                         (idToCheck e (ai_labourerId u) (att_labourerId attendance),
                          idToCheck e (ai_projectId u) (att_projectId attendance),
                          dateToCheck e (ai_date u) (att_date attendance),
                          shiftToCheck (ai_shift u) (att_shift attendance)) st \<noteq> None
                 then (Inl (ApiError 409
                   ''Another attendance record exists for this labourer, project, date, and shift''),
                       st)
                 else saveAttendance e attendance u st))"

section \<open>Listing attendance of a labourer (getAttendanceByLabourer)\<close>

record attendance_query =
  aq_projectId :: "string option"
  aq_status :: "string option"
  aq_shift :: "string option"
  aq_markedBy :: "string option"
  aq_startDate :: "string option"
  aq_endDate :: "string option"
  aq_page :: "string option"
  aq_limit :: "string option"

text \<open>
  \<open>af_date\<close> is \<open>filters.date\<close>: \<open>None\<close> when the key is absent, else the
  \<open>$gte\<close> and the \<open>$lte\<close> the object has.
\<close>

record attendance_filters =
  af_labourerId :: "oid option"
  af_projectId :: "oid option"
  af_status :: "attendance_status option"
  af_shift :: "shift option"
  af_markedBy :: "oid option"
  af_date :: "(int option \<times> int option) option"

text \<open>\<open>if (status && [...].includes(status)) filters.status = status\<close>\<close>

definition enumFilter :: "(string \<Rightarrow> 'a option) \<Rightarrow> string option \<Rightarrow> 'a option" where
  "enumFilter parse x = (case x of None \<Rightarrow> None | Some s \<Rightarrow> if s = [] then None else parse s)"

text \<open>
  \<^verbatim>\<open>
  if (startDate || endDate) {
    filters.date = {};
    if (startDate) { const start = new Date(startDate); if (!isNaN(start)) filters.date.$gte = start; }
    if (endDate) { const end = new Date(endDate); if (!isNaN(end)) filters.date.$lte = end; }
  }
  \<close>
\<close>

definition dateBound :: "env \<Rightarrow> string option \<Rightarrow> int option" where
  "dateBound e x = (case x of None \<Rightarrow> None | Some s \<Rightarrow> if s = [] then None else newDate e s)"

definition dateRangeFilter ::
  "env \<Rightarrow> string option \<Rightarrow> string option \<Rightarrow> (int option \<times> int option) option" where
  "dateRangeFilter e startDate endDate =
     (if truthy startDate \<or> truthy endDate then Some (dateBound e startDate, dateBound e endDate)
      else None)"

definition dateInRange :: "int option \<times> int option \<Rightarrow> int option \<Rightarrow> bool" where
  "dateInRange r d =
     (case d of
        None \<Rightarrow> False
      | Some t \<Rightarrow> (case fst r of None \<Rightarrow> True | Some lo \<Rightarrow> lo \<le> t)
                  \<and> (case snd r of None \<Rightarrow> True | Some hi \<Rightarrow> t \<le> hi))"

definition attendanceMatches :: "attendance_filters \<Rightarrow> attendance \<Rightarrow> bool" where
  "attendanceMatches f a =
     ((case af_labourerId f of None \<Rightarrow> True | Some l \<Rightarrow> att_labourerId a = Some l)
      \<and> (case af_projectId f of None \<Rightarrow> True | Some p \<Rightarrow> att_projectId a = Some p)
      \<and> (case af_status f of None \<Rightarrow> True | Some s \<Rightarrow> att_status a = s)
      \<and> (case af_shift f of None \<Rightarrow> True | Some s \<Rightarrow> att_shift a = s)
      \<and> (case af_markedBy f of None \<Rightarrow> True | Some m \<Rightarrow> att_markedBy a = Some m)
      \<and> (case af_date f of None \<Rightarrow> True | Some r \<Rightarrow> dateInRange r (att_date a)))"

text \<open>\<open>.sort({ date: -1 })\<close>\<close>

definition sortAttendance :: "attendance list \<Rightarrow> attendance list" where
  "sortAttendance rs = rev (sort_key att_date rs)"

text \<open>
  The query of the list. Mongoose casts the filter first: \<open>filters.date\<close> without an
  operator (the object \<open>{}\<close>, when no bound that was supplied is a date) is cast to a
  date itself, which fails.
\<close>

definition findAttendance ::
  "attendance_filters \<Rightarrow> pagination \<Rightarrow> store \<Rightarrow> error + attendance list_response" where
  "findAttendance f pg st =
     (if af_date f = Some (None, None) then Inl (CastError ''Cast to date failed for value {}'')
      else (let matching = filter (attendanceMatches f) (attendances st);
                recs = pageOf pg (sortAttendance matching)
            in Inr \<lparr>meta = metaOf pg (length matching) recs, records = recs\<rparr>))"

text \<open>
  \<open>.populate({ path: "projectId", ... }).populate({ path: "markedBy", ... })\<close> on the
  documents of the page.
\<close>

definition populateAttendance ::
  "env \<Rightarrow> attendance list_response \<Rightarrow> error + attendance_doc list_response" where
  "populateAttendance e r =
     (case firstError [populateError projectRef att_projectId (records r),
                       populateError userRef att_markedBy (records r)] of
        Some err \<Rightarrow> Inl err
      | None \<Rightarrow> Inr \<lparr>meta = meta r, records = map (populateMarkedBy e) (records r)\<rparr>)"

definition attendanceFilters :: "env \<Rightarrow> string \<Rightarrow> attendance_query \<Rightarrow> attendance_filters" where
  "attendanceFilters e labourerId q =
     \<lparr>af_labourerId = objectId e labourerId,
      af_projectId = idFilter e (aq_projectId q),
      af_status = enumFilter attendanceStatusOf (aq_status q),
      af_shift = enumFilter shiftOf (aq_shift q),
      af_markedBy = idFilter e (aq_markedBy q),
      af_date = dateRangeFilter e (aq_startDate q) (aq_endDate q)\<rparr>"

definition getAttendanceByLabourer ::
  "env \<Rightarrow> string \<Rightarrow> attendance_query \<Rightarrow> store
     \<Rightarrow> (error + attendance_doc list_response) \<times> store" where
  "getAttendanceByLabourer e labourerId q st =
     (if \<not> isValid e labourerId then (Inl (ApiError 400 ''Invalid labourer ID''), st)
      else (case findAttendance (attendanceFilters e labourerId q)
                   (parsePagination (aq_page q) (aq_limit q)) st of
              Inl err \<Rightarrow> (Inl err, st)
            | Inr r \<Rightarrow> (populateAttendance e r, st)))"

section \<open>Attendance summaries (getLabourerAttendanceSummary, getProjectAttendanceSummary)\<close>

record attendance_summary =
  present :: int
  absent :: int
  halfDay :: int
  totalRecords :: int

record summary_response =
  sr_id :: string
  sr_summary :: attendance_summary
  sr_startDate :: "string option"
  sr_endDate :: "string option"

text \<open>
  The date filter of the summaries: a bound that is supplied and is no date fails the
  request.
\<close>

definition summaryBound :: "env \<Rightarrow> string \<Rightarrow> string option \<Rightarrow> error + int option" where
  "summaryBound e message x =
     (case x of
        None \<Rightarrow> Inr None
      | Some s \<Rightarrow>
          if s = [] then Inr None
          else (case newDate e s of None \<Rightarrow> Inl (ApiError 400 message) | Some d \<Rightarrow> Inr (Some d)))"

text \<open>The \<open>$match\<close> stage: the reference, and the date when a bound is supplied.\<close>

definition summaryMatches ::
  "(attendance \<Rightarrow> oid option) \<Rightarrow> oid option \<Rightarrow> (int option \<times> int option) option \<Rightarrow> attendance \<Rightarrow> bool" where
  "summaryMatches ref i dateFilter a =
     (ref a = i \<and> (case dateFilter of None \<Rightarrow> True | Some r \<Rightarrow> dateInRange r (att_date a)))"

text \<open>The \<open>$group\<close> stage: \<open>{ _id: "$status", count: { $sum: 1 } }\<close>\<close>

definition groupByStatus :: "attendance list \<Rightarrow> (attendance_status \<times> int) list" where
  "groupByStatus docs =
     map (\<lambda>s. (s, int (length (filter (\<lambda>a. att_status a = s) docs))))
       (remdups (map att_status docs))"

text \<open>
  \<^verbatim>\<open>
  const summary = { present: 0, absent: 0, halfDay: 0 };
  aggregationResult.forEach(({ _id, count }) => {
    if (_id === "present") summary.present = count;
    else if (_id === "absent") summary.absent = count;
    else if (_id === "half-day") summary.halfDay = count;
  });
  summary.totalRecords = aggregationResult.reduce((sum, cur) => sum + cur.count, 0);
  \<close>
\<close>

fun setCount :: "attendance_summary \<Rightarrow> attendance_status \<times> int \<Rightarrow> attendance_summary" where
  "setCount summary (Present, n) = summary\<lparr>present := n\<rparr>"
| "setCount summary (Absent, n) = summary\<lparr>absent := n\<rparr>"
| "setCount summary (HalfDay, n) = summary\<lparr>halfDay := n\<rparr>"

definition summaryOf :: "(attendance_status \<times> int) list \<Rightarrow> attendance_summary" where
  "summaryOf aggregationResult =
     (foldl setCount \<lparr>present = 0, absent = 0, halfDay = 0, totalRecords = 0\<rparr> aggregationResult)
       \<lparr>totalRecords := foldl (\<lambda>sum cur. sum + snd cur) 0 aggregationResult\<rparr>"

text \<open>
  The handler of a summary. After the checks of the identifier and the bounds it builds
  the match condition with
  \<^verbatim>\<open>
  const matchCondition = { labourerId: mongoose.Types.ObjectId(labourerId) };
  \<close>
  that is, it calls \<open>ObjectId\<close> without \<open>new\<close>.
\<close>

definition attendanceSummary ::
  "env \<Rightarrow> (attendance \<Rightarrow> oid option) \<Rightarrow> string \<Rightarrow> string \<Rightarrow> string option \<Rightarrow> string option
     \<Rightarrow> store \<Rightarrow> (error + summary_response) \<times> store" where
  "attendanceSummary e ref invalidId i startDate endDate st =
     (if \<not> isValid e i then (Inl (ApiError 400 invalidId), st)
      else case summaryBound e ''Invalid startDate'' startDate of
             Inl err \<Rightarrow> (Inl err, st)
           | Inr lo \<Rightarrow>
               (case summaryBound e ''Invalid endDate'' endDate of
                  Inl err \<Rightarrow> (Inl err, st)
                | Inr hi \<Rightarrow>
                    if \<not> objectIdCallable e
                    then (Inl (TypeError ''Class constructor ObjectId cannot be invoked without new''),
                          st)
                    else
                    (let dateFilter = (if truthy startDate \<or> truthy endDate then Some (lo, hi) else None);
                         aggregationResult =
                           groupByStatus (filter (summaryMatches ref (objectId e i) dateFilter)
                                            (attendances st))
                     in (Inr \<lparr>sr_id = i, sr_summary = summaryOf aggregationResult,
                              sr_startDate = (if truthy startDate then startDate else None),
                              sr_endDate = (if truthy endDate then endDate else None)\<rparr>, st))))"

text \<open>The two handlers differ in the reference they match and in the message.\<close>

definition getLabourerAttendanceSummary ::
  "env \<Rightarrow> string \<Rightarrow> string option \<Rightarrow> string option \<Rightarrow> store \<Rightarrow> (error + summary_response) \<times> store" where
  "getLabourerAttendanceSummary e labourerId startDate endDate st =
     attendanceSummary e att_labourerId ''Invalid labourer ID'' labourerId startDate endDate st"

definition getProjectAttendanceSummary ::
  "env \<Rightarrow> string \<Rightarrow> string option \<Rightarrow> string option \<Rightarrow> store \<Rightarrow> (error + summary_response) \<times> store" where
  "getProjectAttendanceSummary e projectId startDate endDate st =
     attendanceSummary e att_projectId ''Invalid project ID'' projectId startDate endDate st"

section \<open>Bulk attendance (bulkAddAttendance)\<close>

text \<open>
  What the server and the driver do in \<open>insertMany\<close> and \<open>src/\<close> does not tell:
  whether the server rejects the write of a document (the schema declares no unique
  index; one may exist in the database), and what the error the call then throws holds
  at \<open>err.result.insertedDocs\<close>, which the handler reads.
\<close>

record driver =
  writeError :: "attendance \<Rightarrow> string option"
    \<comment> \<open>the message of the server's write error for a document, \<open>None\<close> when it is
        written\<close>
  resultInsertedDocs :: "attendance list \<Rightarrow> attendance list option"
    \<comment> \<open>\<open>err.result.insertedDocs\<close> of the error thrown, for the documents written;
        \<open>None\<close> is \<open>undefined\<close>\<close>

text \<open>The checks of one entry, in the order of the source: the last failure names the error.\<close>

definition missingOrInvalidId :: "env \<Rightarrow> string option \<Rightarrow> bool" where
  "missingOrInvalidId e v = (case v of None \<Rightarrow> True | Some s \<Rightarrow> s = [] \<or> \<not> isValid e s)"

definition missingOrNot :: "(string \<Rightarrow> bool) \<Rightarrow> string option \<Rightarrow> bool" where
  "missingOrNot ok v = (case v of None \<Rightarrow> True | Some s \<Rightarrow> s = [] \<or> \<not> ok s)"

definition checkEntry :: "env \<Rightarrow> attendance_input \<Rightarrow> bool \<times> string" where
  "checkEntry e r =
     (let c0 = (True, []);
          c1 = (if missingOrInvalidId e (ai_labourerId r)
                then (False, ''Missing/invalid labourerId'') else c0);
          c2 = (if missingOrInvalidId e (ai_projectId r)
                then (False, ''Missing/invalid projectId'') else c1);
          c3 = (if missingOrNot (\<lambda>s. newDate e s \<noteq> None) (ai_date r)
                then (False, ''Missing/invalid date'') else c2);
          c4 = (if missingOrNot (\<lambda>s. shiftOf s \<noteq> None) (ai_shift r)
                then (False, ''Missing/invalid shift'') else c3);
          c5 = (if missingOrNot (\<lambda>s. attendanceStatusOf s \<noteq> None) (ai_status r)
                then (False, ''Missing/invalid status'') else c4);
          c6 = (if invalidIfTruthy e (ai_markedBy r) then (False, ''Invalid markedBy'') else c5)
      in c6)"

definition toNew :: "env \<Rightarrow> attendance_input \<Rightarrow> attendance_new" where
  "toNew e r =
     \<lparr>an_labourerId = ai_labourerId r, an_projectId = ai_projectId r,
      an_date = (case ai_date r of None \<Rightarrow> None | Some s \<Rightarrow> newDate e s),
      an_shift = ai_shift r, an_status = ai_status r, an_markedBy = ai_markedBy r\<rparr>"

text \<open>
  \<open>record\<close> of a failure is the entry of the request for a failed check and
  \<open>validRecords[we.index]\<close> for a write error.
\<close>

datatype failed_source = Entry attendance_input | Valid attendance_new | NoRecord

record failed_record =
  fr_idx :: nat
  fr_error :: string
  fr_record :: failed_source

definition validRecords :: "env \<Rightarrow> attendance_input list \<Rightarrow> attendance_new list" where
  "validRecords e rs = map (toNew e) (filter (\<lambda>r. fst (checkEntry e r)) rs)"

definition entryErrors :: "env \<Rightarrow> attendance_input list \<Rightarrow> failed_record list" where
  "entryErrors e rs =
     map (\<lambda>(k, r). \<lparr>fr_idx = k, fr_error = snd (checkEntry e r), fr_record = Entry r\<rparr>)
       (filter (\<lambda>(k, r). \<not> fst (checkEntry e r)) (enumerate 0 rs))"

text \<open>
  \<open>Attendance.insertMany(docs, { ordered: false })\<close>. A document that fails the
  schema's casts and validators is left out; the others are sent in one unordered insert,
  in which the server writes every document it does not reject. With no write error the
  call resolves with the documents written; else it throws an error with the write
  errors, each with the index of its document and the message.
\<close>

record bulk_write_error =
  be_writeErrors :: "(nat \<times> string) list option"
  be_resultInsertedDocs :: "attendance list option"
  be_message :: string

datatype write_outcome = Written attendance | Rejected nat string | LeftOut

definition writeOutcomes :: "env \<Rightarrow> driver \<Rightarrow> nat \<Rightarrow> attendance_new list \<Rightarrow> write_outcome list" where
  "writeOutcomes e dr c docs =
     map (\<lambda>(k, n).
            case castAttendance e (mkId e (c + k)) n of
              Inl _ \<Rightarrow> LeftOut
            | Inr doc \<Rightarrow> (case writeError dr doc of None \<Rightarrow> Written doc | Some m \<Rightarrow> Rejected k m))
       (enumerate 0 docs)"

fun written :: "write_outcome list \<Rightarrow> attendance list" where
  "written [] = []"
| "written (Written doc # os) = doc # written os"
| "written (_ # os) = written os"

fun rejected :: "write_outcome list \<Rightarrow> (nat \<times> string) list" where
  "rejected [] = []"
| "rejected (Rejected k m # os) = (k, m) # rejected os"
| "rejected (_ # os) = rejected os"

definition insertManyUnordered ::
  "env \<Rightarrow> driver \<Rightarrow> attendance_new list \<Rightarrow> store \<Rightarrow> (bulk_write_error + attendance list) \<times> store" where
  "insertManyUnordered e dr docs st =
     (let os = writeOutcomes e dr (created st) docs;
          st' = st\<lparr>attendances := attendances st @ written os,
                   created := created st + length docs\<rparr>
      in if rejected os = [] then (Inr (written os), st')
         else (Inl \<lparr>be_writeErrors = Some (rejected os),
                    be_resultInsertedDocs = resultInsertedDocs dr (written os),
                    be_message = ''BulkWriteError''\<rparr>, st'))"

record bulk_response =
  br_message :: string
  br_insertedCount :: nat
  br_failedCount :: nat
  br_failedRecords :: "failed_record list"

text \<open>\<open>validRecords[we.index]\<close>\<close>

definition recordAt :: "attendance_new list \<Rightarrow> nat \<Rightarrow> failed_source" where
  "recordAt vs k = (if k < length vs then Valid (vs ! k) else NoRecord)"

definition writeFailures :: "attendance_new list \<Rightarrow> (nat \<times> string) list \<Rightarrow> failed_record list" where
  "writeFailures vs wes =
     map (\<lambda>(k, m). \<lparr>fr_idx = k, fr_error = m, fr_record = recordAt vs k\<rparr>) wes"

definition bulkAddAttendance ::
  "env \<Rightarrow> driver \<Rightarrow> attendance_input list option \<Rightarrow> store \<Rightarrow> (error + bulk_response) \<times> store" where
  "bulkAddAttendance e dr attendanceRecords st =
     (case attendanceRecords of
        None \<Rightarrow> (Inl (ApiError 400 ''attendanceRecords must be a non-empty array''), st)
      | Some rs \<Rightarrow>
          if rs = [] then (Inl (ApiError 400 ''attendanceRecords must be a non-empty array''), st)
          else
            (let vs = validRecords e rs; errors = entryErrors e rs
             in if vs = []
                then (Inl (ApiError 400 (''No valid attendance records to add. ''
                             @ showNat (length errors) @ '' failed validation.'')), st)
                else
                  (case insertManyUnordered e dr vs st of
                     (Inr inserted, st') \<Rightarrow>
                       (Inr \<lparr>br_message = ''Bulk attendance insert complete'',
                             br_insertedCount = length inserted,
                             br_failedCount = length errors,
                             br_failedRecords = errors\<rparr>, st')
                   | (Inl err, st') \<Rightarrow>
                       (case be_writeErrors err of
                          Some wes \<Rightarrow>
                            (let failed = errors @ writeFailures vs wes;
                                 inserted = (case be_resultInsertedDocs err of
                                               None \<Rightarrow> [] | Some ds \<Rightarrow> ds)
                             in (Inr \<lparr>br_message = ''Bulk attendance insert complete'',
                                      br_insertedCount = length inserted,
                                      br_failedCount = length failed,
                                      br_failedRecords = failed\<rparr>, st'))
                        | None \<Rightarrow>
                            (Inl (ApiError 500 (''Bulk insert failed: '' @ be_message err)), st')))))"

section \<open>Leave requests (leave.controller.js)\<close>

text \<open>
  \<open>leaveRequest.save()\<close>: \<open>reason\<close> is required by \<open>leaveSchema\<close>; the stored
  document of that identifier is replaced. (The timestamps of the schema are not
  modelled.)
\<close>

definition saveLeave :: "leave \<Rightarrow> store \<Rightarrow> (error + leave) \<times> store" where
  "saveLeave d st =
     (if \<not> requiredString (lv_reason d)
      then (Inl (ValidationError [(''reason'', ''Reason must be mentioned'')]), st)
      else (Inr d, st\<lparr>leaves := map (\<lambda>r. if lv_id r = lv_id d then d else r) (leaves st)\<rparr>))"

definition findLeaveById :: "oid \<Rightarrow> store \<Rightarrow> leave option" where
  "findLeaveById i st = find (\<lambda>r. lv_id r = i) (leaves st)"

text \<open>
  \<open>approveLeave\<close> and \<open>rejectLeave\<close> are the same lines but for the status they set
  and the verb of the message.
\<close>

definition reviewLeave ::
  "env \<Rightarrow> leave_status \<Rightarrow> string \<Rightarrow> string \<Rightarrow> string option \<Rightarrow> store \<Rightarrow> (error + leave) \<times> store" where
  "reviewLeave e decision verb leaveId reviewedBy st =
     (case objectId e leaveId of
        None \<Rightarrow> (Inl (ApiError 400 ''Invalid leave request ID''), st)
      | Some i \<Rightarrow>
          if missingOrInvalidId e reviewedBy
          then (Inl (ApiError 400 ''Invalid reviewedBy user ID''), st)
          else
            (case findLeaveById i st of
               None \<Rightarrow> (Inl (ApiError 404 ''Leave request not found''), st)
             | Some leaveRequest \<Rightarrow>
                 if lv_status leaveRequest \<noteq> Some LeavePending
                 then (Inl (ApiError 400 (''Cannot '' @ verb @ '' a leave request with status ''
                              @ quoted (leaveStatusString (lv_status leaveRequest)))), st)
                 else saveLeave (leaveRequest\<lparr>lv_status := Some decision,
                                              lv_reviewedBy := castId e reviewedBy\<rparr>) st))"

definition approveLeave ::
  "env \<Rightarrow> string \<Rightarrow> string option \<Rightarrow> store \<Rightarrow> (error + leave) \<times> store" where
  "approveLeave e leaveId reviewedBy st = reviewLeave e LeaveApproved ''approve'' leaveId reviewedBy st"

definition rejectLeave ::
  "env \<Rightarrow> string \<Rightarrow> string option \<Rightarrow> store \<Rightarrow> (error + leave) \<times> store" where
  "rejectLeave e leaveId reviewedBy st = reviewLeave e LeaveRejected ''reject'' leaveId reviewedBy st"

text \<open>\<open>cancelLeaveRequest\<close> deletes the request; it answers a message.\<close>

definition cancelLeaveRequest :: "env \<Rightarrow> string \<Rightarrow> store \<Rightarrow> (error + string) \<times> store" where
  "cancelLeaveRequest e leaveId st =
     (case objectId e leaveId of
        None \<Rightarrow> (Inl (ApiError 400 ''Invalid leave request ID''), st)
      | Some i \<Rightarrow>
          (case findLeaveById i st of
             None \<Rightarrow> (Inl (ApiError 404 ''Leave request not found''), st)
           | Some leaveRequest \<Rightarrow>
               if lv_status leaveRequest \<noteq> Some LeavePending
               then (Inl (ApiError 400 (''Cannot cancel a leave request with status ''
                            @ quoted (leaveStatusString (lv_status leaveRequest)))), st)
               else (Inr ''Leave request cancelled successfully'',
                     st\<lparr>leaves := filter (\<lambda>r. lv_id r \<noteq> i) (leaves st)\<rparr>)))"

subsection \<open>Listing leave requests (listLeaveRequests, getLeaveStatusByLabourer)\<close>

record leave_query =
  lq_labourerId :: "string option"
  lq_status :: "string option"
  lq_fromDate :: "string option"
  lq_toDate :: "string option"
  lq_reviewedBy :: "string option"
  lq_page :: "string option"
  lq_limit :: "string option"

record leave_filters =
  lf_labourerId :: "oid option"
  lf_status :: "leave_status option"
  lf_and :: "overlap_cond list option"
  lf_reviewedBy :: "oid option"

fun leaveCond :: "overlap_cond \<Rightarrow> leave \<Rightarrow> bool" where
  "leaveCond (EndGte d) r = (case lv_toDate r of None \<Rightarrow> False | Some x \<Rightarrow> d \<le> x)"
| "leaveCond (StartLte d) r = (case lv_fromDate r of None \<Rightarrow> False | Some x \<Rightarrow> x \<le> d)"

definition leavePeriodOk :: "leave_filters \<Rightarrow> leave \<Rightarrow> bool" where
  "leavePeriodOk f r = (case lf_and f of None \<Rightarrow> True | Some cs \<Rightarrow> list_all (\<lambda>c. leaveCond c r) cs)"

definition leaveMatches :: "leave_filters \<Rightarrow> leave \<Rightarrow> bool" where
  "leaveMatches f r =
     ((case lf_labourerId f of None \<Rightarrow> True | Some l \<Rightarrow> lv_labourerId r = Some l)
      \<and> (case lf_status f of None \<Rightarrow> True | Some s \<Rightarrow> lv_status r = Some s)
      \<and> leavePeriodOk f r
      \<and> (case lf_reviewedBy f of None \<Rightarrow> True | Some u \<Rightarrow> lv_reviewedBy r = Some u))"

text \<open>\<open>.sort({ fromDate: -1 })\<close>\<close>

definition sortLeaves :: "leave list \<Rightarrow> leave list" where
  "sortLeaves rs = rev (sort_key lv_fromDate rs)"

definition findLeaves :: "leave_filters \<Rightarrow> pagination \<Rightarrow> store \<Rightarrow> leave list_response" where
  "findLeaves f pg st =
     (let matching = filter (leaveMatches f) (leaves st);
          recs = pageOf pg (sortLeaves matching)
      in \<lparr>meta = metaOf pg (length matching) recs, records = recs\<rparr>)"

definition listLeaveFilters :: "env \<Rightarrow> leave_query \<Rightarrow> leave_filters" where
  "listLeaveFilters e q =
     \<lparr>lf_labourerId = idFilter e (lq_labourerId q),
      lf_status = enumFilter leaveStatusOf (lq_status q),
      lf_and = overlapConds e (lq_fromDate q) (lq_toDate q),
      lf_reviewedBy = idFilter e (lq_reviewedBy q)\<rparr>"

text \<open>
  \<open>.populate({ path: "labourerId", ... }).populate({ path: "reviewedBy", ... })\<close> in
  \<open>listLeaveRequests\<close>, and \<open>.populate({ path: "reviewedBy", ... })\<close> alone in
  \<open>getLeaveStatusByLabourer\<close>.
\<close>

definition populateLeaves ::
  "env \<Rightarrow> (string \<times> (leave \<Rightarrow> oid option)) list \<Rightarrow> leave list_response
     \<Rightarrow> error + leave_doc list_response" where
  "populateLeaves e paths r =
     (case firstError (map (\<lambda>(ref, path). populateError ref path (records r)) paths) of
        Some err \<Rightarrow> Inl err
      | None \<Rightarrow> Inr \<lparr>meta = meta r, records = map (populateReviewedBy e) (records r)\<rparr>)"


text \<open>
  \<open>getLeaveStatusByLabourer\<close>: the labourer is a path parameter and must be valid, a
  status that is not allowed fails the request, and there is no reviewer filter.
\<close>

definition leaveStatusFilter :: "string option \<Rightarrow> error + leave_status option" where
  "leaveStatusFilter x =
     (case x of
        None \<Rightarrow> Inr None
      | Some s \<Rightarrow>
          if s = [] then Inr None
          else (case leaveStatusOf s of
                  None \<Rightarrow> Inl (ApiError 400 ''Invalid status filter'')
                | Some v \<Rightarrow> Inr (Some v)))"

definition leaveStatusFilters :: "env \<Rightarrow> string \<Rightarrow> leave_query \<Rightarrow> error + leave_filters" where
  "leaveStatusFilters e labourerId q =
     (if \<not> isValid e labourerId then Inl (ApiError 400 ''Invalid labourer ID'')
      else case leaveStatusFilter (lq_status q) of
             Inl err \<Rightarrow> Inl err
           | Inr status \<Rightarrow>
               Inr \<lparr>lf_labourerId = objectId e labourerId, lf_status = status,
                    lf_and = overlapConds e (lq_fromDate q) (lq_toDate q),
                    lf_reviewedBy = None\<rparr>)"

definition getLeaveStatusByLabourer ::
  "env \<Rightarrow> string \<Rightarrow> leave_query \<Rightarrow> store \<Rightarrow> (error + leave_doc list_response) \<times> store" where
  "getLeaveStatusByLabourer e labourerId q st =
     (case leaveStatusFilters e labourerId q of
        Inl err \<Rightarrow> (Inl err, st)
      | Inr filters \<Rightarrow>
          (populateLeaves e [(userRef, lv_reviewedBy)]
             (findLeaves filters (parsePagination (lq_page q) (lq_limit q)) st), st))"

section \<open>The overlap of a period with a query window, as the specification words it\<close>

text \<open>
  A record qualifies if \<open>record.end >= queryStart\<close> and \<open>record.start <= queryEnd\<close>,
  independently for each bound supplied.
\<close>

definition overlapsWindow :: "int option \<Rightarrow> int option \<Rightarrow> int \<Rightarrow> int \<Rightarrow> bool" where
  "overlapsWindow queryStart queryEnd recordStart recordEnd =
     ((case queryStart of None \<Rightarrow> True | Some qs \<Rightarrow> recordEnd \<ge> qs)
      \<and> (case queryEnd of None \<Rightarrow> True | Some qe \<Rightarrow> recordStart \<le> qe))"

text \<open>
  \<open>isBound e x q\<close>: the bound \<open>q\<close> of the window is what the query parameter
  \<open>x\<close> supplies: none when \<open>x\<close> is absent or empty, the date \<open>x\<close> denotes
  otherwise.
\<close>

definition isBound :: "env \<Rightarrow> string option \<Rightarrow> int option \<Rightarrow> bool" where
  "isBound e x q =
     (case q of
        None \<Rightarrow> \<not> truthy x
      | Some d \<Rightarrow> truthy x \<and> (case x of None \<Rightarrow> False | Some s \<Rightarrow> newDate e s = Some d))"

section \<open>The batch of a salary generation\<close>

text \<open>
  The batch the handler passes to \<open>insertMany\<close>: one document per labourer of the
  aggregation who has no salary of the period.
\<close>

definition generationBatch :: "int \<Rightarrow> int \<Rightarrow> int \<Rightarrow> store \<Rightarrow> salary_new list" where
  "generationBatch s en w st =
     (let agg = attendanceAggregation s en (attendances st)
      in salaryRecordsToCreate s en w agg
           (map sal_labourerId (existingSalaries (map fst agg) s en (salaries st))))"

section \<open>Attendance: the key after an update, and the summary as the specification words it\<close>

text \<open>
  The key \<open>updateAttendance\<close> looks for in another record, and whether the body
  supplies a field of the key (its condition for looking).
\<close>

definition targetKey :: "env \<Rightarrow> attendance_input \<Rightarrow> attendance \<Rightarrow> attendance_key" where
  "targetKey e u a =
     (idToCheck e (ai_labourerId u) (att_labourerId a),
      idToCheck e (ai_projectId u) (att_projectId a),
      dateToCheck e (ai_date u) (att_date a),
      shiftToCheck (ai_shift u) (att_shift a))"

definition suppliesKey :: "attendance_input \<Rightarrow> bool" where
  "suppliesKey u =
     (truthy (ai_labourerId u) \<or> truthy (ai_projectId u) \<or> truthy (ai_date u)
      \<or> truthy (ai_shift u))"

text \<open>
  The records a summary is about: those of the labourer (or the project) whose date is in
  the range, when a bound is supplied; and the number of them with a status.
\<close>

definition matchedAttendance ::
  "(attendance \<Rightarrow> oid option) \<Rightarrow> oid option \<Rightarrow> int option \<Rightarrow> int option \<Rightarrow> attendance list
     \<Rightarrow> attendance list" where
  "matchedAttendance ref i lo hi as =
     filter (\<lambda>a. ref a = i \<and> (if lo = None \<and> hi = None then True
                                 else dateInRange (lo, hi) (att_date a))) as"

definition countStatus :: "attendance_status \<Rightarrow> attendance list \<Rightarrow> int" where
  "countStatus s docs = int (length (filter (\<lambda>a. att_status a = s) docs))"

section \<open>A concrete environment and concrete stores\<close>

text \<open>
  An environment to run the handlers in: identifiers are strings of 24 hexadecimal
  digits, in lower case once cast; the clock knows the days of January 1970, as
  ECMAScript reads the date-only form \<open>1970-01-DD\<close> (midnight UTC); the server's
  time zone is UTC.
\<close>

definition isHex :: "char \<Rightarrow> bool" where
  "isHex c = (c \<in> set ''0123456789abcdefABCDEF'')"

definition lowerHex :: "char \<Rightarrow> char" where
  "lowerHex c =
     (if c = CHR ''A'' then CHR ''a'' else if c = CHR ''B'' then CHR ''b''
      else if c = CHR ''C'' then CHR ''c'' else if c = CHR ''D'' then CHR ''d''
      else if c = CHR ''E'' then CHR ''e'' else if c = CHR ''F'' then CHR ''f'' else c)"

definition demoObjectId :: "string \<Rightarrow> oid option" where
  "demoObjectId s = (if length s = 24 \<and> list_all isHex s then Some (map lowerHex s) else None)"

definition demoNewDate :: "string \<Rightarrow> int option" where
  "demoNewDate s =
     (let dd = drop 8 s
      in if take 8 s = ''1970-01-'' \<and> length dd = 2 \<and> list_all isDigit dd
            \<and> 1 \<le> digitsVal dd \<and> digitsVal dd \<le> 31
         then Some ((digitsVal dd - 1) * 86400000) else None)"

definition demoMkId :: "nat \<Rightarrow> oid" where
  "demoMkId n = replicate (24 - length (showNat n)) (CHR ''0'') @ showNat n"

definition demoEnv :: env where
  "demoEnv = \<lparr>objectId = demoObjectId, newDate = demoNewDate, now = 1000,
              startOfDay = (\<lambda>t. t - t mod 86400000),
              endOfDay = (\<lambda>t. t - t mod 86400000 + 86399999),
              strictQuery = False, mkId = demoMkId, objectIdCallable = False,
              findUser = (\<lambda>u. if u = ''dddddddddddddddddddddddd''
                                then Some ''u@labour.example'' else None)\<rparr>"

text \<open>The same environment on Mongoose 6 or older, where \<open>ObjectId\<close> is a function.\<close>

definition legacyEnv :: env where
  "legacyEnv = demoEnv\<lparr>objectIdCallable := True\<rparr>"

definition labA :: oid where "labA = ''aaaaaaaaaaaaaaaaaaaaaaaa''"

definition labB :: oid where "labB = ''bbbbbbbbbbbbbbbbbbbbbbbb''"

definition projP :: oid where "projP = ''cccccccccccccccccccccccc''"

definition userU :: oid where "userU = ''dddddddddddddddddddddddd''"

definition presentOn :: "oid \<Rightarrow> oid \<Rightarrow> int \<Rightarrow> attendance" where
  "presentOn i l d =
     \<lparr>att_id = i, att_labourerId = Some l, att_projectId = Some projP, att_date = Some d,
      att_shift = Morning, att_status = Present, att_markedBy = None\<rparr>"

text \<open>Labourer A present on the first three days of January 1970, and no salary.\<close>

definition threeDays :: store where
  "threeDays =
     \<lparr>attendances = [presentOn ''000000000000000000000001'' labA 0,
                     presentOn ''000000000000000000000002'' labA 86400000,
                     presentOn ''000000000000000000000003'' labA 172800000],
      salaries = [], leaves = [], created = 4\<rparr>"

text \<open>Labourers A and B present on the first of January 1970, and no salary.\<close>

definition twoLabourers :: store where
  "twoLabourers =
     \<lparr>attendances = [presentOn ''000000000000000000000001'' labA 0,
                     presentOn ''000000000000000000000002'' labB 0],
      salaries = [], leaves = [], created = 3\<rparr>"

definition january :: generate_body where
  "january = \<lparr>gb_startPeriod = Some ''1970-01-01'', gb_endPeriod = Some ''1970-01-31'',
              gb_dailyWage = JNumber 100\<rparr>"

definition salaryOf :: "oid \<Rightarrow> oid \<Rightarrow> int \<Rightarrow> int \<Rightarrow> salary_status \<Rightarrow> salary" where
  "salaryOf i l s e status =
     \<lparr>sal_id = i, sal_labourerId = Some l, sal_startPeriod = Some s, sal_endPeriod = Some e,
      sal_totalDaysPresent = 3, sal_dailyWage = 100, sal_totalSalary = 300, sal_status = status,
      sal_payslipUrl = ''https://files.example/payslip.pdf''\<rparr>"

text \<open>One paid salary of labourer A, for the second to the fourth day of January 1970.\<close>

definition oneSalary :: store where
  "oneSalary =
     \<lparr>attendances = [],
      salaries = [salaryOf ''000000000000000000000001'' labA 86400000 259200000 Paid],
      leaves = [], created = 2\<rparr>"

definition noSalaryFilter :: salary_query where
  "noSalaryFilter =
     \<lparr>sq_labourerId = None, sq_status = None, sq_startPeriod = None, sq_endPeriod = None,
      sq_paymentDate = None, sq_page = None, sq_limit = None\<rparr>"

definition noLeaveFilter :: leave_query where
  "noLeaveFilter =
     \<lparr>lq_labourerId = None, lq_status = None, lq_fromDate = None, lq_toDate = None,
      lq_reviewedBy = None, lq_page = None, lq_limit = None\<rparr>"

definition noAttendanceFilter :: attendance_query where
  "noAttendanceFilter =
     \<lparr>aq_projectId = None, aq_status = None, aq_shift = None, aq_markedBy = None,
      aq_startDate = None, aq_endDate = None, aq_page = None, aq_limit = None\<rparr>"

text \<open>The window from the first to the third of January 1970.\<close>

definition firstToThird :: salary_query where
  "firstToThird = noSalaryFilter\<lparr>sq_startPeriod := Some ''1970-01-01'', sq_endPeriod := Some ''1970-01-03''\<rparr>"

definition firstToThirdLeave :: leave_query where
  "firstToThirdLeave = noLeaveFilter\<lparr>lq_fromDate := Some ''1970-01-01'', lq_toDate := Some ''1970-01-03''\<rparr>"

definition leaveOf :: "oid \<Rightarrow> int \<Rightarrow> int \<Rightarrow> leave_status \<Rightarrow> leave" where
  "leaveOf i f t status =
     \<lparr>lv_id = i, lv_labourerId = Some labA, lv_fromDate = Some f, lv_toDate = Some t,
      lv_reason = ''family event'', lv_status = Some status, lv_appliedOn = Some 0,
      lv_reviewedBy = None\<rparr>"

text \<open>A pending leave of labourer A from the third to the fifth of January 1970.\<close>

definition oneLeave :: store where
  "oneLeave =
     \<lparr>attendances = [], salaries = [],
      leaves = [leaveOf ''000000000000000000000001'' 172800000 345600000 LeavePending],
      created = 2\<rparr>"

definition januaryAttendance :: attendance_query where
  "januaryAttendance =
     noAttendanceFilter\<lparr>aq_startDate := Some ''1970-01-01'', aq_endDate := Some ''1970-01-31''\<rparr>"

text \<open>
  A batch of two salary documents for \<open>insertMany\<close>: the first has a payslip URL, the
  second has the empty one.
\<close>

definition withPayslip :: "oid \<Rightarrow> string \<Rightarrow> salary_new" where
  "withPayslip l url =
     \<lparr>new_labourerId = Some l, new_startPeriod = 0, new_endPeriod = 2592000000,
      new_totalDaysPresent = 1, new_dailyWage = 100, new_totalSalary = 100,
      new_status = ''pending'', new_payslipUrl = url\<rparr>"

definition mixedBatch :: "salary_new list" where
  "mixedBatch = [withPayslip labA ''https://files.example/a.pdf'', withPayslip labB []]"

text \<open>The second page of a list, with the default page size.\<close>

definition pageTwo :: salary_query where
  "pageTwo = noSalaryFilter\<lparr>sq_page := Some ''2''\<rparr>"

definition pageTwoOfJanuary :: attendance_query where
  "pageTwoOfJanuary = januaryAttendance\<lparr>aq_page := Some ''2''\<rparr>"

text \<open>A server that rejects no write.\<close>

definition demoDriver :: driver where
  "demoDriver = \<lparr>writeError = (\<lambda>_. None), resultInsertedDocs = (\<lambda>_. None)\<rparr>"

definition emptyStore :: store where
  "emptyStore = \<lparr>attendances = [], salaries = [], leaves = [], created = 0\<rparr>"

definition entryOn :: "string \<Rightarrow> string \<Rightarrow> attendance_input" where
  "entryOn date sh =
     \<lparr>ai_labourerId = Some labA, ai_projectId = Some projP, ai_date = Some date,
      ai_shift = Some sh, ai_status = Some ''present'', ai_markedBy = None\<rparr>"

text \<open>Five entries; the third has the shift "afternoon".\<close>

definition fiveEntries :: "attendance_input list" where
  "fiveEntries =
     [entryOn ''1970-01-01'' ''morning'', entryOn ''1970-01-02'' ''morning'',
      entryOn ''1970-01-03'' ''afternoon'', entryOn ''1970-01-04'' ''evening'',
      entryOn ''1970-01-05'' ''night'']"

definition attendanceOf :: "oid \<Rightarrow> oid \<Rightarrow> int \<Rightarrow> attendance_status \<Rightarrow> attendance" where
  "attendanceOf i l d status =
     \<lparr>att_id = i, att_labourerId = Some l, att_projectId = Some projP, att_date = Some d,
      att_shift = Morning, att_status = status, att_markedBy = None\<rparr>"

text \<open>
  Labourer A with two "present", one "absent" and one "half-day" record, and labourer B
  with one "present" record.
\<close>

definition fourRecords :: store where
  "fourRecords =
     \<lparr>attendances = [attendanceOf ''000000000000000000000000'' labA 0 Present,
                     attendanceOf ''000000000000000000000001'' labA 86400000 Absent,
                     attendanceOf ''000000000000000000000002'' labB 86400000 Present,
                     attendanceOf ''000000000000000000000003'' labA 172800000 Present,
                     attendanceOf ''000000000000000000000004'' labA 259200000 HalfDay],
      salaries = [], leaves = [], created = 5\<rparr>"

text \<open>Three entries; the second has the marker \<open>""\<close>.\<close>

definition threeEntries :: "attendance_input list" where
  "threeEntries =
     [entryOn ''1970-01-01'' ''morning'',
      (entryOn ''1970-01-02'' ''morning'')\<lparr>ai_markedBy := Some []\<rparr>,
      entryOn ''1970-01-03'' ''morning'']"

text \<open>An update of the shift to "evening".\<close>

definition toEvening :: attendance_input where
  "toEvening =
     \<lparr>ai_labourerId = None, ai_projectId = None, ai_date = None, ai_shift = Some ''evening'',
      ai_status = None, ai_markedBy = None\<rparr>"

text \<open>An update body whose only field is \<open>date: ""\<close>.\<close>

definition clearDate :: attendance_input where
  "clearDate =
     \<lparr>ai_labourerId = None, ai_projectId = None, ai_date = Some [], ai_shift = None,
      ai_status = None, ai_markedBy = None\<rparr>"

text \<open>A morning record of labourer A with no date, and \<open>threeDays\<close> with one and two of them.\<close>

definition undated :: "oid \<Rightarrow> attendance" where
  "undated i =
     \<lparr>att_id = i, att_labourerId = Some labA, att_projectId = Some projP, att_date = None,
      att_shift = Morning, att_status = Present, att_markedBy = None\<rparr>"

definition oneUndated :: store where
  "oneUndated =
     \<lparr>attendances = [undated ''000000000000000000000001'',
                     presentOn ''000000000000000000000002'' labA 86400000,
                     presentOn ''000000000000000000000003'' labA 172800000],
      salaries = [], leaves = [], created = 4\<rparr>"

definition twoUndated :: store where
  "twoUndated =
     \<lparr>attendances = [undated ''000000000000000000000001'',
                     undated ''000000000000000000000002'',
                     presentOn ''000000000000000000000003'' labA 172800000],
      salaries = [], leaves = [], created = 4\<rparr>"

section \<open>The concrete environment, evaluated\<close>

lemma demoDate_01: "newDate demoEnv ''1970-01-01'' = Some 0"
  by (simp add: demoEnv_def demoNewDate_def isDigit_def digitsVal_def digitVal_def)

lemma demoDate_31: "newDate demoEnv ''1970-01-31'' = Some 2592000000"
  by (simp add: demoEnv_def demoNewDate_def isDigit_def digitsVal_def digitVal_def)

lemma demoObjectId_1:
  "objectId demoEnv ''000000000000000000000001'' = Some ''000000000000000000000001''"
  by (simp add: demoEnv_def demoObjectId_def isHex_def lowerHex_def)

lemma demoObjectId_2:
  "objectId demoEnv ''000000000000000000000002'' = Some ''000000000000000000000002''"
  by (simp add: demoEnv_def demoObjectId_def isHex_def lowerHex_def)

section \<open>Salary generation: what the handler builds and what the schema accepts\<close>

text \<open>
  Every document of the batch has the period and the wage of the request, the number of
  days present of its labourer, their product as the total, the status "pending" and an
  empty payslip URL; and its labourer had no salary of that period.
\<close>

lemma salaryRecordsToCreate_fields:
  assumes "n \<in> set (salaryRecordsToCreate s e w agg ex)"
  shows "new_startPeriod n = s \<and> new_endPeriod n = e \<and> new_dailyWage n = w
       \<and> new_totalSalary n = new_totalDaysPresent n * w
       \<and> new_status n = ''pending'' \<and> new_payslipUrl n = []
       \<and> (new_labourerId n, new_totalDaysPresent n) \<in> set agg
       \<and> new_labourerId n \<notin> set ex"
  using assms by (auto simp: salaryRecordsToCreate_def)

text \<open>The aggregation counts, per labourer, the present days of the period.\<close>

lemma attendanceAggregation_count:
  "(l, n) \<in> set (attendanceAggregation s e as) \<longleftrightarrow>
     n = int (length (filter (\<lambda>a. presentInPeriod s e a \<and> att_labourerId a = l) as)) \<and> 0 < n"
proof -
  have "length (filter (\<lambda>a. att_labourerId a = l) (filter (presentInPeriod s e) as)) > 0
        \<longleftrightarrow> l \<in> att_labourerId ` set (filter (presentInPeriod s e) as)"
    by (auto simp: length_greater_0_conv filter_empty_conv simp del: length_greater_0_conv)
  then show ?thesis
    by (auto simp: attendanceAggregation_def Let_def conj_commute)
qed

lemma attendanceAggregation_distinct: "distinct (map fst (attendanceAggregation s e as))"
  by (simp add: attendanceAggregation_def Let_def comp_def)

text \<open>The schema rejects a document of the batch: its payslip URL is empty.\<close>

lemma castSalary_empty_payslip:
  "new_status n = ''pending'' \<Longrightarrow> new_payslipUrl n = [] \<Longrightarrow>
   castSalary i n = Inl [(''payslipUrl'', ''Pay Slip Url is required'')]"
  by (simp add: castSalary_def salaryErrors_def requiredString_def salaryStatusOf_def)

lemma firstInl_castSalaries:
  assumes "news \<noteq> []"
      and "\<forall>n \<in> set news. new_status n = ''pending'' \<and> new_payslipUrl n = []"
  shows "firstInl (castSalaries e c news) = Some [(''payslipUrl'', ''Pay Slip Url is required'')]"
proof (cases news)
  case Nil
  with assms show ?thesis by simp
next
  case (Cons n ns)
  with assms have
    "castSalary (mkId e (c + 0)) n = Inl [(''payslipUrl'', ''Pay Slip Url is required'')]"
    by (simp add: castSalary_empty_payslip)
  with Cons show ?thesis
    by (simp add: castSalaries_def enumerate_eq_zip upt_rec [of 0])
qed

lemma insertManySalary_toCreate:
  assumes "salaryRecordsToCreate s en w agg ex \<noteq> []"
  shows "insertManySalary e (salaryRecordsToCreate s en w agg ex) st
       = (Inl (ValidationError [(''payslipUrl'', ''Pay Slip Url is required'')]), st)"
proof -
  have "\<forall>n \<in> set (salaryRecordsToCreate s en w agg ex).
          new_status n = ''pending'' \<and> new_payslipUrl n = []"
    using salaryRecordsToCreate_fields by blast
  with assms show ?thesis
    by (simp add: insertManySalary_def firstInl_castSalaries)
qed

text \<open>So no call of the handler writes a salary, and none answers 201.\<close>

lemma generateSalaries_store: "snd (generateSalaries e s en w st) = st"
  by (simp add: generateSalaries_def Let_def insertManySalary_toCreate)

lemma generateSalaryForPeriod_store: "snd (generateSalaryForPeriod e b st) = st"
  by (simp add: generateSalaryForPeriod_def generateSalaries_store
      split: option.splits jsval.splits prod.splits)

lemma generateSalaries_no_201:
  "fst (generateSalaries e s en w st) = Inr r \<Longrightarrow> gr_code r = 200 \<and> gr_generatedSalaries r = []"
  by (auto simp: generateSalaries_def Let_def insertManySalary_toCreate split: if_splits)

text \<open>
  When every labourer of the aggregation has a salary of exactly the period, the handler
  answers that the salaries were already generated.
\<close>

lemma generateSalaries_already_generated:
  assumes "attendanceAggregation s en (attendances st) \<noteq> []"
      and "None \<notin> fst ` set (attendanceAggregation s en (attendances st))"
      and "\<forall>l \<in> fst ` set (attendanceAggregation s en (attendances st)).
             \<exists>r \<in> set (salaries st).
               sal_labourerId r = l \<and> sal_startPeriod r = Some s \<and> sal_endPeriod r = Some en"
  shows "generateSalaries e s en w st
       = (Inr \<lparr>gr_code = 200,
               gr_message = ''Salary records for this period already generated for all labourers.'',
               gr_generatedSalaries = []\<rparr>, st)"
proof -
  let ?agg = "attendanceAggregation s en (attendances st)"
  let ?ex = "map sal_labourerId (existingSalaries (map fst ?agg) s en (salaries st))"
  have "\<forall>p \<in> set ?agg. fst p \<in> set ?ex"
    using assms(3) by (force simp: existingSalaries_def)
  then have "salaryRecordsToCreate s en w ?agg ?ex = []"
    by (auto simp: salaryRecordsToCreate_def filter_empty_conv)
  with assms(1,2) show ?thesis
    by (simp add: generateSalaries_def Let_def)
qed

text \<open>An ordered \<open>insertMany\<close> that fails has saved nothing.\<close>

lemma insertManySalary_all_or_nothing:
  "fst (insertManySalary e news st) = Inl err \<Longrightarrow> snd (insertManySalary e news st) = st"
  by (auto simp: insertManySalary_def Let_def split: option.splits)

lemma agg_threeDays:
  "attendanceAggregation 0 2592000000 (attendances threeDays) = [(Some labA, 3)]"
  by (simp add: attendanceAggregation_def threeDays_def presentOn_def presentInPeriod_def labA_def)

lemma agg_twoLabourers:
  "attendanceAggregation 0 2592000000 (attendances twoLabourers)
   = [(Some labA, 1), (Some labB, 1)]"
  by (simp add: attendanceAggregation_def twoLabourers_def presentOn_def presentInPeriod_def
      labA_def labB_def)

text \<open>
  Claim C1, at a failing input. Labourer A has three "present" attendance records in
  January 1970 and no salary; generation for that period at a daily wage of 100 builds one
  record with 3 days, a total of 300, the status "pending" and the payslip URL \<open>""\<close>.
  \<open>insertMany\<close> rejects it, since \<open>payslipUrl\<close> is required by the schema: the call
  fails with the validation error and the store has no salary, where the claim has one
  new record.
\<close>

theorem generateSalaryForPeriod_threeDays_rejected:
  "generateSalaryForPeriod demoEnv january threeDays
   = (Inl (ValidationError [(''payslipUrl'', ''Pay Slip Url is required'')]), threeDays)"
proof -
  have "salaries threeDays = []" "created threeDays = 4"
    by (simp_all add: threeDays_def)
  then have "generateSalaries demoEnv 0 2592000000 100 threeDays
     = (Inl (ValidationError [(''payslipUrl'', ''Pay Slip Url is required'')]), threeDays)"
    by (simp add: generateSalaries_def agg_threeDays Let_def existingSalaries_def
        salaryRecordsToCreate_def insertManySalary_def castSalaries_def castSalary_def
        salaryErrors_def requiredString_def salaryStatusOf_def enumerate_eq_zip)
  then show ?thesis
    by (simp add: generateSalaryForPeriod_def january_def truthy_def demoDate_01 demoDate_31)
qed

text \<open>After the call the store has no salary, and the call has not succeeded.\<close>

theorem generateSalaryForPeriod_threeDays_rejected_witness:
  "salaries (snd (generateSalaryForPeriod demoEnv january threeDays)) = []
   \<and> (\<forall>r. fst (generateSalaryForPeriod demoEnv january threeDays) \<noteq> Inr r)"
  using generateSalaryForPeriod_threeDays_rejected by (simp add: threeDays_def)

subsection \<open>The batch insert\<close>

text \<open>
  The handler inserts the batch with \<open>Salary.insertMany(salaryRecordsToCreate)\<close>: no
  \<open>ordered: false\<close>, no \<open>try\<close> around it, and a response with the generated
  salaries only. When a document of a batch fails the validators of the schema, the
  insert rejects with that error and saves no document of the batch.
\<close>

lemma firstInl_nth:
  "k < length xs \<Longrightarrow> xs ! k = Inl a \<Longrightarrow> \<exists>b. firstInl xs = Some b"
proof (induction xs arbitrary: k)
  case Nil
  then show ?case by simp
next
  case (Cons x xs)
  then show ?case by (cases x; cases k) auto
qed

lemma insertManySalary_aborts:
  assumes "k < length news" "castSalary (mkId e (created st + k)) (news ! k) = Inl errs"
  shows "\<exists>errs'. insertManySalary e news st = (Inl (ValidationError errs'), st)"
proof -
  have n: "castSalaries e (created st) news ! k
           = castSalary (mkId e (created st + k)) (news ! k)"
    using assms(1) by (simp add: castSalaries_def nth_enumerate_eq)
  have l: "k < length (castSalaries e (created st) news)"
    using assms(1) by (simp add: castSalaries_def)
  from n assms(2) have "castSalaries e (created st) news ! k = Inl errs" by simp
  from firstInl_nth [OF l this]
  obtain b where "firstInl (castSalaries e (created st) news) = Some b" ..
  then show ?thesis by (simp add: insertManySalary_def)
qed

text \<open>When the insert of the batch fails, the call fails with its error.\<close>

lemma generateSalaries_insert_fails:
  assumes "None \<notin> fst ` set (attendanceAggregation s en (attendances st))"
      and "generationBatch s en w st \<noteq> []"
      and "insertManySalary e (generationBatch s en w st) st = (Inl err, st1)"
  shows "generateSalaries e s en w st = (Inl err, st)"
proof -
  have "attendanceAggregation s en (attendances st) \<noteq> []"
    using assms(2) by (auto simp: generationBatch_def salaryRecordsToCreate_def Let_def)
  moreover have "st1 = st"
    using assms(3) insertManySalary_all_or_nothing [of e "generationBatch s en w st" st err]
    by simp
  ultimately show ?thesis
    using assms by (simp add: generateSalaries_def generationBatch_def Let_def)
qed

lemma generateSalaryForPeriod_no_201:
  assumes "generateSalaryForPeriod e b st = (Inr r, st')"
  shows "gr_generatedSalaries r = []"
proof -
  have "\<exists>s en w. generateSalaries e s en w st = (Inr r, st')"
    using assms
    by (auto simp: generateSalaryForPeriod_def split: if_splits option.splits jsval.splits)
  then obtain s en w where "generateSalaries e s en w st = (Inr r, st')" by blast
  then have "fst (generateSalaries e s en w st) = Inr r" by simp
  then show ?thesis by (simp add: generateSalaries_no_201)
qed

lemma generateSalaries_twoLabourers:
  "generateSalaries demoEnv 0 2592000000 100 twoLabourers
   = (Inl (ValidationError [(''payslipUrl'', ''Pay Slip Url is required'')]), twoLabourers)"
proof -
  have "salaries twoLabourers = []" "created twoLabourers = 3"
    by (simp_all add: twoLabourers_def)
  then show ?thesis
    by (simp add: generateSalaries_def agg_twoLabourers Let_def existingSalaries_def
        salaryRecordsToCreate_def insertManySalary_def castSalaries_def castSalary_def
        salaryErrors_def requiredString_def salaryStatusOf_def enumerate_eq_zip)
qed

text \<open>
  Claim C2 fails on the code. The batch for labourers A and B is inserted with the
  default, ordered \<open>insertMany\<close> and the handler does not catch its rejection: the
  insert of a record fails and the whole call is aborted with that one error. The answer
  is the error and not a report of failures per record, and no record of the batch is
  committed.
\<close>

theorem generateSalaryForPeriod_twoLabourers_aborted:
  "generateSalaryForPeriod demoEnv january twoLabourers
   = (Inl (ValidationError [(''payslipUrl'', ''Pay Slip Url is required'')]), twoLabourers)"
  using generateSalaries_twoLabourers
  by (simp add: generateSalaryForPeriod_def january_def truthy_def demoDate_01 demoDate_31)

text \<open>
  Claim C2, amended. Salary generation inserts its batch in one ordered insert and does
  not handle its failure. A call that fails answers one error and has committed nothing;
  a call that succeeds has committed exactly the salaries it reports as generated. When
  the insert of the batch fails, the call fails with the error of the insert. And the
  insert of a batch in which a record fails the validators of the schema fails as a
  whole: no record of the batch is committed, the others included.
\<close>

theorem generateSalaryForPeriod_all_or_nothing:
  assumes "generateSalaryForPeriod e b st = (res, st')"
  shows "(case res of
            Inl err \<Rightarrow> st' = st
          | Inr r \<Rightarrow> salaries st' = salaries st @ gr_generatedSalaries r)
       \<and> (\<forall>s en w err st1.
             None \<notin> fst ` set (attendanceAggregation s en (attendances st))
             \<and> generationBatch s en w st \<noteq> []
             \<and> insertManySalary e (generationBatch s en w st) st = (Inl err, st1)
             \<longrightarrow> generateSalaries e s en w st = (Inl err, st))
       \<and> (\<forall>news k errs.
             k < length news \<and> castSalary (mkId e (created st + k)) (news ! k) = Inl errs
             \<longrightarrow> (\<exists>errs'. insertManySalary e news st = (Inl (ValidationError errs'), st)))"
proof -
  have st: "st' = st"
    using assms generateSalaryForPeriod_store [of e b st] by simp
  have "case res of Inl err \<Rightarrow> st' = st
        | Inr r \<Rightarrow> salaries st' = salaries st @ gr_generatedSalaries r"
  proof (cases res)
    case (Inl err)
    with st show ?thesis by simp
  next
    case (Inr r)
    with assms generateSalaryForPeriod_no_201 have "gr_generatedSalaries r = []" by blast
    with Inr st show ?thesis by simp
  qed
  moreover have "\<forall>s en w err st1.
             None \<notin> fst ` set (attendanceAggregation s en (attendances st))
             \<and> generationBatch s en w st \<noteq> []
             \<and> insertManySalary e (generationBatch s en w st) st = (Inl err, st1)
             \<longrightarrow> generateSalaries e s en w st = (Inl err, st)"
    using generateSalaries_insert_fails by blast
  moreover have "\<forall>news k errs.
             k < length news \<and> castSalary (mkId e (created st + k)) (news ! k) = Inl errs
             \<longrightarrow> (\<exists>errs'. insertManySalary e news st = (Inl (ValidationError errs'), st))"
    using insertManySalary_aborts by blast
  ultimately show ?thesis by blast
qed

text \<open>
  The call for labourers A and B fails and commits nothing; and in the batch of a record
  with a payslip URL and a record without one, the first is not committed either.
\<close>

theorem generateSalaryForPeriod_all_or_nothing_witness:
  "generateSalaryForPeriod demoEnv january twoLabourers
     = (Inl (ValidationError [(''payslipUrl'', ''Pay Slip Url is required'')]), twoLabourers)
   \<and> (\<exists>errs. castSalary (mkId demoEnv (created twoLabourers + 1)) (mixedBatch ! 1) = Inl errs)
   \<and> (\<exists>errs'. insertManySalary demoEnv mixedBatch twoLabourers
                 = (Inl (ValidationError errs'), twoLabourers))"
proof -
  have g: "generateSalaryForPeriod demoEnv january twoLabourers
           = (Inl (ValidationError [(''payslipUrl'', ''Pay Slip Url is required'')]), twoLabourers)"
    using generateSalaries_twoLabourers
    by (simp add: generateSalaryForPeriod_def january_def truthy_def demoDate_01 demoDate_31)
  have k: "(1::nat) < length mixedBatch" by (simp add: mixedBatch_def)
  have c: "castSalary (mkId demoEnv (created twoLabourers + 1)) (mixedBatch ! 1)
           = Inl [(''payslipUrl'', ''Pay Slip Url is required'')]"
    by (simp add: mixedBatch_def withPayslip_def castSalary_empty_payslip)
  from generateSalaryForPeriod_all_or_nothing [OF g] k c
  have "\<exists>errs'. insertManySalary demoEnv mixedBatch twoLabourers
                 = (Inl (ValidationError errs'), twoLabourers)"
    by blast
  with g c show ?thesis by blast
qed

section \<open>Pagination\<close>

text \<open>
  The common lines: the page and the limit are at least 1 whatever the input is, the value
  read by \<open>parseInt\<close> when it is positive and the default otherwise.
\<close>

lemma toNumber_small: "\<bar>n\<bar> < 2 ^ 53 \<Longrightarrow> toNumber n = n"
  by (simp add: toNumber_def)

text \<open>The integer \<open>2 ^ 53 + 1\<close> is no double: it reads as \<open>2 ^ 53\<close>.\<close>

lemma toNumber_example: "toNumber (2 ^ 53 + 1) = 2 ^ 53"
  by (simp add: toNumber_def bitLength.simps Let_def)

lemma bitLength_lower: "0 < n \<Longrightarrow> 2 ^ (bitLength n - 1) \<le> n"
proof (induction n rule: bitLength.induct)
  case (1 n)
  show ?case
  proof (cases "n div 2 = 0")
    case True
    with 1(2) have "n = 1" by (auto simp: div_eq_0_iff)
    then show ?thesis by (simp add: bitLength.simps [of "Suc 0"] bitLength.simps [of 0])
  next
    case False
    then have h: "0 < n div 2" by simp
    with 1(1) 1(2) have "2 ^ (bitLength (n div 2) - 1) \<le> n div 2" by simp
    moreover have "bitLength (n div 2) \<noteq> 0" using h by (simp add: bitLength.simps [of "n div 2"])
    ultimately have "2 ^ bitLength (n div 2) \<le> 2 * (n div 2)"
      by (cases "bitLength (n div 2)") auto
    then have "2 ^ bitLength (n div 2) \<le> n" by linarith
    then show ?thesis using 1(2) by (simp add: bitLength.simps [of n])
  qed
qed

text \<open>A positive integer is a positive number.\<close>

lemma toNumber_pos: "0 < n \<Longrightarrow> 0 < toNumber n"
proof (cases "\<bar>n\<bar> < 2 ^ 53")
  case True
  assume "0 < n"
  with True show ?thesis by (simp add: toNumber_small)
next
  case False
  assume p: "0 < n"
  let ?u = "(2::int) ^ (bitLength (nat \<bar>n\<bar>) - 53)"
  have "(2::nat) ^ (bitLength (nat n) - 1) \<le> nat n" using p by (intro bitLength_lower) simp
  then have "(2::int) ^ (bitLength (nat n) - 1) \<le> n"
    using p by (metis of_nat_le_iff of_nat_numeral of_nat_power nat_0_le less_imp_le)
  moreover have "(2::int) ^ (bitLength (nat n) - 53) \<le> 2 ^ (bitLength (nat n) - 1)"
    by (rule power_increasing) auto
  ultimately have "(2::int) ^ (bitLength (nat n) - 53) \<le> n" by (rule order_trans [rotated])
  then have "?u \<le> n" using p by simp
  moreover have "0 < ?u" by simp
  ultimately have q: "0 < \<bar>n\<bar> div ?u" using p
    by (simp add: pos_imp_zdiv_pos_iff)
  have "0 < ?u" by simp
  with q False p show ?thesis
    by (auto simp: toNumber_def Let_def intro!: mult_pos_pos)
qed

lemma parsePage_pos: "1 \<le> parsePage p"
  by (auto simp: parsePage_def gtZero_def Let_def split: option.splits)

lemma parseLimit_pos: "1 \<le> parseLimit l"
  by (auto simp: parseLimit_def gtZero_def Let_def split: option.splits)

lemma parsePage_cases:
  "parsePage p = (case parseInt (case p of None \<Rightarrow> ''1'' | Some s \<Rightarrow> s) of
                    None \<Rightarrow> 1 | Some n \<Rightarrow> if 0 < n then n else 1)"
  by (auto simp: parsePage_def gtZero_def Let_def split: option.splits)

lemma parseLimit_cases:
  "parseLimit l = (case parseInt (case l of None \<Rightarrow> ''20'' | Some s \<Rightarrow> s) of
                     None \<Rightarrow> 20 | Some n \<Rightarrow> if 0 < n then n else 20)"
  by (auto simp: parseLimit_def gtZero_def Let_def split: option.splits)


lemma parsePagination_skip:
  "skip (parsePagination p l)
   = toNumber (toNumber (page (parsePagination p l) - 1) * limit (parsePagination p l))"
  by (simp add: parsePagination_def Let_def)

text \<open>Below \<open>2 ^ 53\<close> the records to skip are the pages before the page.\<close>

lemma parsePagination_skip_exact:
  assumes "page (parsePagination p l) * limit (parsePagination p l) < 2 ^ 53"
  shows "skip (parsePagination p l)
         = (page (parsePagination p l) - 1) * limit (parsePagination p l)"
proof -
  let ?pg = "parsePage p" and ?lm = "parseLimit l"
  have b: "?pg * ?lm < 2 ^ 53" using assms by (simp add: parsePagination_def Let_def)
  have pos: "1 \<le> ?pg" "1 \<le> ?lm" by (rule parsePage_pos, rule parseLimit_pos)
  have "0 \<le> (?pg - 1) * ?lm" using pos by simp
  moreover have "(?pg - 1) * ?lm \<le> ?pg * ?lm" using pos by (simp add: mult_right_mono)
  ultimately have 1: "\<bar>(?pg - 1) * ?lm\<bar> < 2 ^ 53" using b by simp
  have "?pg - 1 \<le> (?pg - 1) * ?lm" using pos by (simp add: mult_le_cancel_left1)
  then have 2: "\<bar>?pg - 1\<bar> < 2 ^ 53" using 1 pos by simp
  show ?thesis
    by (simp add: parsePagination_def Let_def toNumber_small [OF 2] toNumber_small [OF 1])
qed

lemma parsePagination_limit_pos: "0 < limit (parsePagination p l)"
  using parseLimit_pos [of l] by (simp add: parsePagination_def Let_def)

lemma mathCeilDiv_ceiling: "mathCeilDiv a b = \<lceil>real_of_int a / real_of_int b\<rceil>"
  by (simp add: mathCeilDiv_def ceiling_divide_eq_div)

lemma pageOf_length: "0 < limit pg \<Longrightarrow> int (length (pageOf pg xs)) \<le> limit pg"
  by (simp add: pageOf_def)

text \<open>The list of salaries: the metadata of the response.\<close>

lemma findSalaries_meta:
  assumes "pg = parsePagination p l"
  shows "totalPages (meta (findSalaries e f pg st))
           = \<lceil>real (total (meta (findSalaries e f pg st))) / real_of_int (limit pg)\<rceil>
       \<and> currentPage (meta (findSalaries e f pg st)) = page pg
       \<and> pageSize (meta (findSalaries e f pg st)) = length (records (findSalaries e f pg st))
       \<and> int (length (records (findSalaries e f pg st))) \<le> limit pg
       \<and> total (meta (findSalaries e f pg st)) = length (filter (salaryMatches e f) (salaries st))"
  using parsePagination_limit_pos [of p l] assms
  by (simp add: findSalaries_def metaOf_def Let_def mathCeilDiv_ceiling pageOf_length)

lemma parsePagination_negative:
  "parsePagination (Some ''-3'') None = \<lparr>page = 1, limit = 20, skip = 0\<rparr>"
  by (simp add: parsePagination_def parsePage_def parseLimit_def gtZero_def parseInt_def
      isWhiteSpace_def isDigit_def digitsVal_def digitVal_def toNumber_small)

text \<open>
  Claim C5, at a failing input. \<open>listAllUsers\<close> is a paginated list call that reads
  \<open>parseInt(req.query.page, 10) || 1\<close>: the page \<open>-3\<close> does not fall back to the
  default 1 as it does in the other list handlers (\<open>parsePagination_negative\<close>); it
  stays \<open>-3\<close>, and the number of records to skip is negative.
\<close>

theorem listAllUsers_pagination_negative:
  "listAllUsers_pagination (Some ''-3'') None = \<lparr>page = - 3, limit = 20, skip = - 80\<rparr>"
  by (simp add: listAllUsers_pagination_def orDefault_def parseInt_def isWhiteSpace_def
      isDigit_def digitsVal_def digitVal_def toNumber_small)

text \<open>The page is not the default, and the records to skip are fewer than none.\<close>

theorem listAllUsers_pagination_negative_witness:
  "page (listAllUsers_pagination (Some ''-3'') None) \<noteq> 1
   \<and> skip (listAllUsers_pagination (Some ''-3'') None) < 0"
  using listAllUsers_pagination_negative by simp

section \<open>Marking a salary as paid\<close>

lemma find_map_replace:
  "sal_id d = i \<Longrightarrow>
   find (\<lambda>x. sal_id x = i) (map (\<lambda>x. if sal_id x = sal_id d then d else x) xs)
   = (case find (\<lambda>x. sal_id x = i) xs of None \<Rightarrow> None | Some _ \<Rightarrow> Some d)"
  by (induction xs) auto

lemma filter_map_replace:
  "filter (\<lambda>x. sal_id x \<noteq> sal_id d) (map (\<lambda>x. if sal_id x = sal_id d then d else x) xs)
   = filter (\<lambda>x. sal_id x \<noteq> sal_id d) xs"
  by (induction xs) auto

lemma findSalaryById_id: "findSalaryById i st = Some r \<Longrightarrow> sal_id r = i"
  by (auto simp: findSalaryById_def find_Some_iff)

text \<open>
  Claim C10. For a stored salary record (one the schema accepts, as every record written
  through the model is) and a payment date that is absent or parses, marking as paid
  succeeds whatever the status of the record is. The document in the handler's hands has
  the status "paid" and the payment date (the current time when none is supplied), and
  the labourer, the period, the days present, the daily wage, the total and the payslip
  URL of the stored record; the store holds that record with the status "paid", every
  other salary as it was, and the same attendance and leave records.
\<close>

theorem markSalaryAsPaid_frame:
  assumes "objectId e salaryId = Some i"
      and "findSalaryById i st = Some r"
      and "requiredString (sal_payslipUrl r)"
      and "payDateOf e paymentDate = Inr d"
  shows "\<exists>obj st'. markSalaryAsPaid e salaryId paymentDate st = (Inr obj, st')
           \<and> sal_status obj = Paid \<and> sal_paymentDate obj = Some d
           \<and> (if truthy paymentDate then True else d = now e)
           \<and> sal_id obj = sal_id r \<and> sal_labourerId obj = sal_labourerId r
           \<and> sal_startPeriod obj = sal_startPeriod r \<and> sal_endPeriod obj = sal_endPeriod r
           \<and> sal_totalDaysPresent obj = sal_totalDaysPresent r
           \<and> sal_dailyWage obj = sal_dailyWage r \<and> sal_totalSalary obj = sal_totalSalary r
           \<and> sal_payslipUrl obj = sal_payslipUrl r
           \<and> findSalaryById i st' = Some (r\<lparr>sal_status := Paid\<rparr>)
           \<and> filter (\<lambda>x. sal_id x \<noteq> i) (salaries st') = filter (\<lambda>x. sal_id x \<noteq> i) (salaries st)
           \<and> length (salaries st') = length (salaries st)
           \<and> attendances st' = attendances st \<and> leaves st' = leaves st"
proof -
  have id: "sal_id r = i" using assms(2) by (rule findSalaryById_id)
  have now: "if truthy paymentDate then True else d = now e"
    using assms(4) by (auto simp: payDateOf_def truthy_def split: option.splits if_splits)
  let ?d = "r\<lparr>sal_status := Paid\<rparr>"
  have sid: "sal_id ?d = i" using id by simp
  have f: "findSalaryById i
             (st\<lparr>salaries := map (\<lambda>x. if sal_id x = sal_id ?d then ?d else x) (salaries st)\<rparr>)
           = Some ?d"
    using assms(2) find_map_replace [OF sid, of "salaries st"] by (simp add: findSalaryById_def)
  have g: "filter (\<lambda>x. sal_id x \<noteq> i)
             (map (\<lambda>x. if sal_id x = sal_id ?d then ?d else x) (salaries st))
           = filter (\<lambda>x. sal_id x \<noteq> i) (salaries st)"
    using filter_map_replace [of ?d "salaries st"] sid by simp
  show ?thesis
    using assms now f g id
    by (simp add: markSalaryAsPaid_def saveSalary_def salary.extend_def)
qed

text \<open>The record of \<open>oneSalary\<close> is paid already; marking it again succeeds.\<close>

theorem markSalaryAsPaid_frame_witness:
  "objectId demoEnv ''000000000000000000000001'' = Some ''000000000000000000000001''
   \<and> findSalaryById ''000000000000000000000001'' oneSalary
       = Some (salaryOf ''000000000000000000000001'' labA 86400000 259200000 Paid)
   \<and> requiredString (sal_payslipUrl (salaryOf ''000000000000000000000001'' labA 86400000 259200000 Paid))
   \<and> payDateOf demoEnv None = Inr 1000
   \<and> (\<exists>obj st'. markSalaryAsPaid demoEnv ''000000000000000000000001'' None oneSalary = (Inr obj, st')
         \<and> sal_status obj = Paid \<and> sal_paymentDate obj = Some 1000
         \<and> sal_totalSalary obj = 300
         \<and> findSalaryById ''000000000000000000000001'' st'
             = Some (salaryOf ''000000000000000000000001'' labA 86400000 259200000 Paid))"
proof -
  let ?r = "salaryOf ''000000000000000000000001'' labA 86400000 259200000 Paid"
  have h1: "objectId demoEnv ''000000000000000000000001'' = Some ''000000000000000000000001''"
    by (rule demoObjectId_1)
  have h2: "findSalaryById ''000000000000000000000001'' oneSalary = Some ?r"
    by (simp add: findSalaryById_def oneSalary_def salaryOf_def)
  have h3: "requiredString (sal_payslipUrl ?r)"
    by (simp add: requiredString_def salaryOf_def)
  have h4: "payDateOf demoEnv None = Inr 1000"
    by (simp add: payDateOf_def demoEnv_def)
  have r: "?r\<lparr>sal_status := Paid\<rparr> = ?r" "sal_totalSalary ?r = 300"
    by (simp_all add: salaryOf_def)
  from markSalaryAsPaid_frame [OF h1 h2 h3 h4] obtain obj st' where
    "markSalaryAsPaid demoEnv ''000000000000000000000001'' None oneSalary = (Inr obj, st')"
    "sal_status obj = Paid" "sal_paymentDate obj = Some 1000"
    "sal_totalSalary obj = sal_totalSalary ?r"
    "findSalaryById ''000000000000000000000001'' st' = Some (?r\<lparr>sal_status := Paid\<rparr>)"
    by blast
  with h1 h2 h3 h4 r show ?thesis by simp
qed

lemma demoDate_03: "newDate demoEnv ''1970-01-03'' = Some 172800000"
  by (simp add: demoEnv_def demoNewDate_def isDigit_def digitsVal_def digitVal_def)

lemma demo_not_an_id: "objectId demoEnv ''not-an-id'' = None"
  by (simp add: demoEnv_def demoObjectId_def)

lemma demo_not_a_date: "newDate demoEnv ''not-a-date'' = None"
  by (simp add: demoEnv_def demoNewDate_def)

lemma demoObjectId_labA: "objectId demoEnv labA = Some labA"
  by (simp add: demoEnv_def demoObjectId_def isHex_def lowerHex_def labA_def)

lemma demoObjectId_userU: "objectId demoEnv userU = Some userU"
  by (simp add: demoEnv_def demoObjectId_def isHex_def lowerHex_def userU_def)

section \<open>The period filters of the salary and leave lists\<close>

lemma overlapConds_isBound:
  assumes "isBound e sp qs" "isBound e ep qe"
  shows "overlapConds e sp ep =
           (if qs = None \<and> qe = None then None
            else Some ((case qs of None \<Rightarrow> [] | Some d \<Rightarrow> [EndGte d])
                       @ (case qe of None \<Rightarrow> [] | Some d \<Rightarrow> [StartLte d])))"
  using assms
  by (auto simp: isBound_def overlapConds_def startBound_def endBound_def truthy_def Let_def
      split: option.splits)

lemma salary_overlap:
  assumes "isBound e sp qs" "isBound e ep qe"
      and "sal_startPeriod r = Some rs" "sal_endPeriod r = Some re"
      and "sf_and f = overlapConds e sp ep"
  shows "salaryPeriodOk f r = overlapsWindow qs qe rs re"
  using assms(3-5)
  by (auto simp: salaryPeriodOk_def overlapConds_isBound [OF assms(1,2)] overlapsWindow_def
      split: option.splits)

lemma leave_overlap:
  assumes "isBound e sp qs" "isBound e ep qe"
      and "lv_fromDate r = Some rs" "lv_toDate r = Some re"
      and "lf_and f = overlapConds e sp ep"
  shows "leavePeriodOk f r = overlapsWindow qs qe rs re"
  using assms(3-5)
  by (auto simp: leavePeriodOk_def overlapConds_isBound [OF assms(1,2)] overlapsWindow_def
      split: option.splits)

text \<open>
  With both bounds, the predicate of the specification is the intersection of the two
  closed intervals: a period strictly outside the window does not qualify, and one that
  shares a single instant with it does.
\<close>

lemma overlapsWindow_intersect:
  assumes "rs \<le> re" "a \<le> b"
  shows "overlapsWindow (Some a) (Some b) rs re
         \<longleftrightarrow> (\<exists>t. rs \<le> t \<and> t \<le> re \<and> a \<le> t \<and> t \<le> b)"
proof
  assume "overlapsWindow (Some a) (Some b) rs re"
  then have "a \<le> re" "rs \<le> b" by (simp_all add: overlapsWindow_def)
  with assms have "rs \<le> max rs a \<and> max rs a \<le> re \<and> a \<le> max rs a \<and> max rs a \<le> b" by auto
  then show "\<exists>t. rs \<le> t \<and> t \<le> re \<and> a \<le> t \<and> t \<le> b" by blast
next
  assume "\<exists>t. rs \<le> t \<and> t \<le> re \<and> a \<le> t \<and> t \<le> b"
  then show "overlapsWindow (Some a) (Some b) rs re" by (auto simp: overlapsWindow_def)
qed

lemma overlapsWindow_outside:
  "re < a \<or> b < rs \<Longrightarrow> \<not> overlapsWindow (Some a) (Some b) rs re"
  by (auto simp: overlapsWindow_def)

text \<open>The records a list answers are stored records that satisfy its filter.\<close>

lemma set_pageOf: "set (pageOf pg xs) \<subseteq> set xs"
  by (auto simp: pageOf_def dest: in_set_takeD in_set_dropD)

lemma findSalaries_records:
  "x \<in> set (records (findSalaries e f pg st)) \<Longrightarrow> x \<in> set (salaries st) \<and> salaryMatches e f x"
  using set_pageOf [of pg "sortSalaries (filter (salaryMatches e f) (salaries st))"]
  by (auto simp: findSalaries_def Let_def sortSalaries_def)

lemma findLeaves_records:
  "x \<in> set (records (findLeaves f pg st)) \<Longrightarrow> x \<in> set (leaves st) \<and> leaveMatches f x"
  using set_pageOf [of pg "sortLeaves (filter (leaveMatches f) (leaves st))"]
  by (auto simp: findLeaves_def Let_def sortLeaves_def)

lemma salaryMatches_period: "salaryMatches e f x \<Longrightarrow> salaryPeriodOk f x"
  by (simp add: salaryMatches_def)

lemma leaveMatches_period: "leaveMatches f x \<Longrightarrow> leavePeriodOk f x"
  by (simp add: leaveMatches_def)

text \<open>
  The filters the four lists with period bounds build (\<open>listSalaryRecords\<close>,
  \<open>viewSalaryPayslipDetailsForLabourer\<close>, \<open>listLeaveRequests\<close>,
  \<open>getLeaveStatusByLabourer\<close>): when each bound the query supplies is a date, a stored
  record satisfies the date-range part of the filter exactly when its end is at or after
  the start of the window (if one is supplied) and its start is at or before the end of
  the window (if one is supplied): overlap, not containment or equality
  (\<open>overlapsWindow_intersect\<close>, \<open>overlapsWindow_outside\<close>).
\<close>

lemma period_filters_overlap:
  assumes "isBound e (sq_startPeriod q) qs" "isBound e (sq_endPeriod q) qe"
      and "isBound e (lq_fromDate k) qs" "isBound e (lq_toDate k) qe"
      and "sal_startPeriod r = Some rs" "sal_endPeriod r = Some re"
      and "lv_fromDate l = Some ls" "lv_toDate l = Some le"
      and "salaryStatusFilter (sq_status q) = Inr sst"
      and "leaveStatusFilter (lq_status k) = Inr lst"
      and "isValid e labourerId"
  shows "(\<exists>f. listSalaryFilters e q = Inr f
            \<and> salaryPeriodOk f r = overlapsWindow qs qe rs re)
       \<and> (\<exists>f. viewSalaryFilters e labourerId q = Inr f
            \<and> salaryPeriodOk f r = overlapsWindow qs qe rs re)
       \<and> leavePeriodOk (listLeaveFilters e k) l = overlapsWindow qs qe ls le
       \<and> (\<exists>f. leaveStatusFilters e labourerId k = Inr f
            \<and> leavePeriodOk f l = overlapsWindow qs qe ls le)"
proof -
  have 1: "\<And>f. sf_and f = overlapConds e (sq_startPeriod q) (sq_endPeriod q) \<Longrightarrow>
             salaryPeriodOk f r = overlapsWindow qs qe rs re"
    using salary_overlap [OF assms(1,2,5,6)] .
  have 2: "\<And>f. lf_and f = overlapConds e (lq_fromDate k) (lq_toDate k) \<Longrightarrow>
             leavePeriodOk f l = overlapsWindow qs qe ls le"
    using leave_overlap [OF assms(3,4,7,8)] .
  show ?thesis
    using assms(9-11)
    by (simp add: listSalaryFilters_def viewSalaryFilters_def listLeaveFilters_def
        leaveStatusFilters_def 1 2)
qed

text \<open>
  A salary for the second to the fourth and a leave for the third to the fifth of January
  1970 qualify for the window from the first to the third.
\<close>

lemma period_filters_overlap_witness:
  "isBound demoEnv (sq_startPeriod firstToThird) (Some 0)
   \<and> isBound demoEnv (sq_endPeriod firstToThird) (Some 172800000)
   \<and> isBound demoEnv (lq_fromDate firstToThirdLeave) (Some 0)
   \<and> isBound demoEnv (lq_toDate firstToThirdLeave) (Some 172800000)
   \<and> salaryStatusFilter (sq_status firstToThird) = Inr None
   \<and> leaveStatusFilter (lq_status firstToThirdLeave) = Inr None
   \<and> isValid demoEnv labA
   \<and> (\<exists>f. listSalaryFilters demoEnv firstToThird = Inr f
         \<and> salaryPeriodOk f (salaryOf ''000000000000000000000001'' labA 86400000 259200000 Paid))
   \<and> (\<exists>f. leaveStatusFilters demoEnv labA firstToThirdLeave = Inr f
         \<and> leavePeriodOk f (leaveOf ''000000000000000000000001'' 172800000 345600000 LeavePending))"
proof -
  let ?r = "salaryOf ''000000000000000000000001'' labA 86400000 259200000 Paid"
  let ?l = "leaveOf ''000000000000000000000001'' 172800000 345600000 LeavePending"
  have b1: "isBound demoEnv (sq_startPeriod firstToThird) (Some 0)"
    and b2: "isBound demoEnv (sq_endPeriod firstToThird) (Some 172800000)"
    and b3: "isBound demoEnv (lq_fromDate firstToThirdLeave) (Some 0)"
    and b4: "isBound demoEnv (lq_toDate firstToThirdLeave) (Some 172800000)"
    by (simp_all add: isBound_def firstToThird_def firstToThirdLeave_def noSalaryFilter_def
        noLeaveFilter_def truthy_def demoDate_01 demoDate_03)
  have r: "sal_startPeriod ?r = Some 86400000" "sal_endPeriod ?r = Some 259200000"
    by (simp_all add: salaryOf_def)
  have l: "lv_fromDate ?l = Some 172800000" "lv_toDate ?l = Some 345600000"
    by (simp_all add: leaveOf_def)
  have s1: "salaryStatusFilter (sq_status firstToThird) = Inr None"
    by (simp add: salaryStatusFilter_def firstToThird_def noSalaryFilter_def)
  have s2: "leaveStatusFilter (lq_status firstToThirdLeave) = Inr None"
    by (simp add: leaveStatusFilter_def firstToThirdLeave_def noLeaveFilter_def)
  have v: "isValid demoEnv labA"
    by (simp add: isValid_def demoObjectId_labA)
  have o: "overlapsWindow (Some 0) (Some 172800000) 86400000 259200000"
          "overlapsWindow (Some 0) (Some 172800000) 172800000 345600000"
    by (simp_all add: overlapsWindow_def)
  from period_filters_overlap [OF b1 b2 b3 b4 r l s1 s2 v] o b1 b2 b3 b4 s1 s2 v
  show ?thesis by simp
qed

subsection \<open>The lists themselves\<close>

text \<open>
  What the query of a list selects: the number of stored salaries (leaves) that satisfy
  the filter is the total, and the page holds such records only.
\<close>

lemma findSalaries_total:
  "total (meta (findSalaries e f pg st)) = length (filter (salaryMatches e f) (salaries st))"
  by (simp add: findSalaries_def metaOf_def Let_def)

lemma findLeaves_total:
  "total (meta (findLeaves f pg st)) = length (filter (leaveMatches f) (leaves st))"
  by (simp add: findLeaves_def metaOf_def Let_def)

text \<open>
  \<open>populate\<close> of a page with a record that has a labourer fails, in the salary lists
  and in \<open>listLeaveRequests\<close>: no model is registered under the name \<open>labourer\<close>.
\<close>

lemma labourer_not_registered: "labourerRef \<notin> set registeredModels"
  by (simp add: labourerRef_def registeredModels_def)

lemma user_registered: "userRef \<in> set registeredModels"
  by (simp add: userRef_def registeredModels_def)

lemma populateSalaries_cases:
  "populateSalaries r
   = (if list_ex (\<lambda>d. sal_labourerId d \<noteq> None) (records r)
      then Inl (MissingSchemaError ''labourer'') else Inr r)"
  using labourer_not_registered
  by (simp add: populateSalaries_def populateError_def labourerRef_def)


lemma populateLeaves_user:
  "populateLeaves e [(userRef, lv_reviewedBy)] r
   = Inr \<lparr>meta = meta r, records = map (populateReviewedBy e) (records r)\<rparr>"
  using user_registered by (simp add: populateLeaves_def populateError_def)

text \<open>
  \<open>getLeaveStatusByLabourer\<close> populates the reviewer only, and answers. With bounds
  that are dates when supplied and no status filter, on stored leaves that have both
  dates: the total is the number of leaves of the labourer whose period overlaps the
  window, and every record of the page is such a leave.
\<close>

lemma leaveMatches_overlap:
  assumes "isBound e sp qs" "isBound e ep qe"
      and "lv_fromDate r = Some rs" "lv_toDate r = Some re"
  shows "leaveMatches \<lparr>lf_labourerId = Some i, lf_status = None,
                        lf_and = overlapConds e sp ep, lf_reviewedBy = None\<rparr> r
         \<longleftrightarrow> lv_labourerId r = Some i \<and> overlapsWindow qs qe rs re"
  using leave_overlap [OF assms, of "\<lparr>lf_labourerId = Some i, lf_status = None,
                        lf_and = overlapConds e sp ep, lf_reviewedBy = None\<rparr>"]
  by (simp add: leaveMatches_def)

lemma getLeaveStatusByLabourer_overlap:
  assumes "objectId e labourerId = Some i"
      and "isBound e (lq_fromDate k) qs" "isBound e (lq_toDate k) qe"
      and "\<not> truthy (lq_status k)"
      and "\<forall>l \<in> set (leaves st). \<exists>rs re. lv_fromDate l = Some rs \<and> lv_toDate l = Some re"
  shows "\<exists>resp. getLeaveStatusByLabourer e labourerId k st = (Inr resp, st)
           \<and> total (meta resp)
               = length (filter (\<lambda>l. lv_labourerId l = Some i
                                     \<and> (\<exists>rs re. lv_fromDate l = Some rs \<and> lv_toDate l = Some re
                                            \<and> overlapsWindow qs qe rs re)) (leaves st))
           \<and> (\<forall>x \<in> set (records resp).
                 \<exists>l rs re. l \<in> set (leaves st) \<and> x = populateReviewedBy e l
                   \<and> lv_labourerId l = Some i \<and> lv_fromDate l = Some rs \<and> lv_toDate l = Some re
                   \<and> overlapsWindow qs qe rs re)"
proof -
  let ?f = "\<lparr>lf_labourerId = Some i, lf_status = None,
             lf_and = overlapConds e (lq_fromDate k) (lq_toDate k), lf_reviewedBy = None\<rparr>"
  let ?pg = "parsePagination (lq_page k) (lq_limit k)"
  have f: "leaveStatusFilters e labourerId k = Inr ?f"
    using assms(1,4)
    by (auto simp: leaveStatusFilters_def isValid_def leaveStatusFilter_def truthy_def
        split: option.splits)
  have m: "\<And>l. l \<in> set (leaves st) \<Longrightarrow>
             leaveMatches ?f l
             \<longleftrightarrow> lv_labourerId l = Some i
                 \<and> (\<exists>rs re. lv_fromDate l = Some rs \<and> lv_toDate l = Some re
                        \<and> overlapsWindow qs qe rs re)"
  proof -
    fix l assume "l \<in> set (leaves st)"
    with assms(5) obtain rs re where d: "lv_fromDate l = Some rs" "lv_toDate l = Some re"
      by blast
    show "leaveMatches ?f l
          \<longleftrightarrow> lv_labourerId l = Some i
              \<and> (\<exists>rs re. lv_fromDate l = Some rs \<and> lv_toDate l = Some re
                     \<and> overlapsWindow qs qe rs re)"
      using leaveMatches_overlap [OF assms(2,3) d, of i] d by simp
  qed
  have t: "filter (leaveMatches ?f) (leaves st)
           = filter (\<lambda>l. lv_labourerId l = Some i
                          \<and> (\<exists>rs re. lv_fromDate l = Some rs \<and> lv_toDate l = Some re
                                 \<and> overlapsWindow qs qe rs re)) (leaves st)"
    by (rule filter_cong [OF refl]) (rule m)
  let ?resp = "\<lparr>meta = meta (findLeaves ?f ?pg st),
                records = map (populateReviewedBy e) (records (findLeaves ?f ?pg st))\<rparr>"
  have r: "getLeaveStatusByLabourer e labourerId k st = (Inr ?resp, st)"
    by (simp add: getLeaveStatusByLabourer_def f populateLeaves_user)
  have 1: "total (meta ?resp)
           = length (filter (\<lambda>l. lv_labourerId l = Some i
                                 \<and> (\<exists>rs re. lv_fromDate l = Some rs \<and> lv_toDate l = Some re
                                        \<and> overlapsWindow qs qe rs re)) (leaves st))"
    using findLeaves_total [of ?f ?pg st] t by simp
  have 2: "\<forall>x \<in> set (records ?resp).
             \<exists>l rs re. l \<in> set (leaves st) \<and> x = populateReviewedBy e l
               \<and> lv_labourerId l = Some i \<and> lv_fromDate l = Some rs \<and> lv_toDate l = Some re
               \<and> overlapsWindow qs qe rs re"
  proof
    fix x assume "x \<in> set (records ?resp)"
    then obtain l where l: "l \<in> set (records (findLeaves ?f ?pg st))" "x = populateReviewedBy e l"
      by auto
    from findLeaves_records [OF l(1)] have s: "l \<in> set (leaves st)" "leaveMatches ?f l" by auto
    from m [OF s(1)] s(2) l(2) s(1)
    show "\<exists>l rs re. l \<in> set (leaves st) \<and> x = populateReviewedBy e l
            \<and> lv_labourerId l = Some i \<and> lv_fromDate l = Some rs \<and> lv_toDate l = Some re
            \<and> overlapsWindow qs qe rs re"
      by blast
  qed
  from r 1 2 show ?thesis by blast
qed

text \<open>
  \<open>listSalaryRecords\<close> with bounds that are dates when supplied and no other filter,
  on stored salaries that have both dates: the query selects by overlap (its total is the
  number of salaries whose period overlaps the window, and every record of its page is
  such a salary), and the handler answers what the query selects unless a record of the
  page has a labourer.
\<close>

lemma salaryMatches_overlap:
  assumes "isBound e sp qs" "isBound e ep qe"
      and "sal_startPeriod r = Some rs" "sal_endPeriod r = Some re"
  shows "salaryMatches e \<lparr>sf_labourerId = None, sf_status = None,
                          sf_and = overlapConds e sp ep, sf_paymentDate = None\<rparr> r
         \<longleftrightarrow> overlapsWindow qs qe rs re"
  using salary_overlap [OF assms, of "\<lparr>sf_labourerId = None, sf_status = None,
                          sf_and = overlapConds e sp ep, sf_paymentDate = None\<rparr>"]
  by (simp add: salaryMatches_def)

lemma listSalaryRecords_overlap:
  assumes "isBound e (sq_startPeriod q) qs" "isBound e (sq_endPeriod q) qe"
      and "\<not> truthy (sq_labourerId q)" "\<not> truthy (sq_status q)" "\<not> truthy (sq_paymentDate q)"
      and "\<forall>r \<in> set (salaries st). \<exists>rs re. sal_startPeriod r = Some rs \<and> sal_endPeriod r = Some re"
  shows "\<exists>sel. listSalaryRecords e q st
                 = (if list_ex (\<lambda>d. sal_labourerId d \<noteq> None) (records sel)
                    then (Inl (MissingSchemaError ''labourer''), st) else (Inr sel, st))
           \<and> total (meta sel)
               = length (filter (\<lambda>r. \<exists>rs re. sal_startPeriod r = Some rs \<and> sal_endPeriod r = Some re
                                         \<and> overlapsWindow qs qe rs re) (salaries st))
           \<and> (\<forall>x \<in> set (records sel).
                 \<exists>rs re. x \<in> set (salaries st) \<and> sal_startPeriod x = Some rs
                   \<and> sal_endPeriod x = Some re \<and> overlapsWindow qs qe rs re)"
proof -
  let ?f = "\<lparr>sf_labourerId = None, sf_status = None,
             sf_and = overlapConds e (sq_startPeriod q) (sq_endPeriod q), sf_paymentDate = None\<rparr>"
  let ?pg = "parsePagination (sq_page q) (sq_limit q)"
  let ?sel = "findSalaries e ?f ?pg st"
  have f: "listSalaryFilters e q = Inr ?f"
    using assms(3-5)
    by (auto simp: listSalaryFilters_def salaryStatusFilter_def idFilter_def paymentDateFilter_def
        truthy_def split: option.splits)
  have m: "\<And>r. r \<in> set (salaries st) \<Longrightarrow>
             salaryMatches e ?f r
             \<longleftrightarrow> (\<exists>rs re. sal_startPeriod r = Some rs \<and> sal_endPeriod r = Some re
                        \<and> overlapsWindow qs qe rs re)"
  proof -
    fix r assume "r \<in> set (salaries st)"
    with assms(6) obtain rs re where d: "sal_startPeriod r = Some rs" "sal_endPeriod r = Some re"
      by blast
    show "salaryMatches e ?f r
          \<longleftrightarrow> (\<exists>rs re. sal_startPeriod r = Some rs \<and> sal_endPeriod r = Some re
                     \<and> overlapsWindow qs qe rs re)"
      using salaryMatches_overlap [OF assms(1,2) d] d by simp
  qed
  have t: "filter (salaryMatches e ?f) (salaries st)
           = filter (\<lambda>r. \<exists>rs re. sal_startPeriod r = Some rs \<and> sal_endPeriod r = Some re
                                 \<and> overlapsWindow qs qe rs re) (salaries st)"
    by (rule filter_cong [OF refl]) (rule m)
  have r: "listSalaryRecords e q st
           = (if list_ex (\<lambda>d. sal_labourerId d \<noteq> None) (records ?sel)
              then (Inl (MissingSchemaError ''labourer''), st) else (Inr ?sel, st))"
    by (simp add: listSalaryRecords_def f populateSalaries_cases Let_def)
  have 1: "total (meta ?sel)
           = length (filter (\<lambda>r. \<exists>rs re. sal_startPeriod r = Some rs \<and> sal_endPeriod r = Some re
                                   \<and> overlapsWindow qs qe rs re) (salaries st))"
    using findSalaries_total [of e ?f ?pg st] t by simp
  have 2: "\<forall>x \<in> set (records ?sel).
             \<exists>rs re. x \<in> set (salaries st) \<and> sal_startPeriod x = Some rs
               \<and> sal_endPeriod x = Some re \<and> overlapsWindow qs qe rs re"
  proof
    fix x assume "x \<in> set (records ?sel)"
    from findSalaries_records [OF this] have s: "x \<in> set (salaries st)" "salaryMatches e ?f x"
      by auto
    from m [OF s(1)] s show "\<exists>rs re. x \<in> set (salaries st) \<and> sal_startPeriod x = Some rs
               \<and> sal_endPeriod x = Some re \<and> overlapsWindow qs qe rs re"
      by blast
  qed
  from r 1 2 show ?thesis by blast
qed

subsection \<open>A window and a record that overlaps it\<close>








section \<open>Invalid values of optional filters\<close>

lemma idFilter_invalid: "\<not> isValid e x \<Longrightarrow> idFilter e (Some x) = None"
  by (simp add: idFilter_def)

lemma idFilter_None: "idFilter e None = None"
  by (simp add: idFilter_def)

lemma overlapConds_invalid_start:
  "newDate e s = None \<Longrightarrow> overlapConds e (Some s) ep = overlapConds e None ep"
  by (auto simp: overlapConds_def startBound_def endBound_def truthy_def Let_def split: option.splits)

lemma overlapConds_invalid_end:
  "newDate e s = None \<Longrightarrow> overlapConds e sp (Some s) = overlapConds e sp None"
  by (auto simp: overlapConds_def startBound_def endBound_def truthy_def Let_def split: option.splits)

lemma paymentDateFilter_invalid:
  "newDate e s = None \<Longrightarrow> paymentDateFilter e (Some s) = paymentDateFilter e None"
  by (simp add: paymentDateFilter_def)

lemma dateRangeFilter_invalid_start:
  "newDate e s = None \<Longrightarrow> dateBound e endDate \<noteq> None \<Longrightarrow>
   dateRangeFilter e (Some s) endDate = dateRangeFilter e None endDate"
  by (auto simp: dateRangeFilter_def dateBound_def truthy_def split: option.splits if_splits)

lemma dateRangeFilter_invalid_end:
  "newDate e s = None \<Longrightarrow> dateBound e startDate \<noteq> None \<Longrightarrow>
   dateRangeFilter e startDate (Some s) = dateRangeFilter e startDate None"
  by (auto simp: dateRangeFilter_def dateBound_def truthy_def split: option.splits if_splits)

lemma listSalaryRecords_cong:
  "listSalaryFilters e q = listSalaryFilters e q' \<Longrightarrow> sq_page q = sq_page q' \<Longrightarrow>
   sq_limit q = sq_limit q' \<Longrightarrow> listSalaryRecords e q st = listSalaryRecords e q' st"
  by (simp add: listSalaryRecords_def)

lemma listSalaryRecords_invalid_labourer:
  "\<not> isValid e x \<Longrightarrow>
   listSalaryRecords e (q\<lparr>sq_labourerId := Some x\<rparr>) st
     = listSalaryRecords e (q\<lparr>sq_labourerId := None\<rparr>) st"
  by (rule listSalaryRecords_cong)
     (simp_all add: listSalaryFilters_def idFilter_invalid idFilter_None split: sum.splits)

lemma listSalaryRecords_invalid_start:
  "newDate e s = None \<Longrightarrow>
   listSalaryRecords e (q\<lparr>sq_startPeriod := Some s\<rparr>) st
     = listSalaryRecords e (q\<lparr>sq_startPeriod := None\<rparr>) st"
  by (rule listSalaryRecords_cong)
     (simp_all add: listSalaryFilters_def overlapConds_invalid_start split: sum.splits)

lemma listSalaryRecords_invalid_end:
  "newDate e s = None \<Longrightarrow>
   listSalaryRecords e (q\<lparr>sq_endPeriod := Some s\<rparr>) st
     = listSalaryRecords e (q\<lparr>sq_endPeriod := None\<rparr>) st"
  by (rule listSalaryRecords_cong)
     (simp_all add: listSalaryFilters_def overlapConds_invalid_end split: sum.splits)

lemma listSalaryRecords_invalid_paymentDate:
  "newDate e s = None \<Longrightarrow>
   listSalaryRecords e (q\<lparr>sq_paymentDate := Some s\<rparr>) st
     = listSalaryRecords e (q\<lparr>sq_paymentDate := None\<rparr>) st"
  by (rule listSalaryRecords_cong)
     (simp_all add: listSalaryFilters_def paymentDateFilter_invalid split: sum.splits)

lemma getAttendanceByLabourer_invalid_project:
  "\<not> isValid e x \<Longrightarrow>
   getAttendanceByLabourer e l (a\<lparr>aq_projectId := Some x\<rparr>) st
     = getAttendanceByLabourer e l (a\<lparr>aq_projectId := None\<rparr>) st"
  by (simp add: getAttendanceByLabourer_def attendanceFilters_def idFilter_invalid idFilter_None)

lemma getAttendanceByLabourer_invalid_markedBy:
  "\<not> isValid e x \<Longrightarrow>
   getAttendanceByLabourer e l (a\<lparr>aq_markedBy := Some x\<rparr>) st
     = getAttendanceByLabourer e l (a\<lparr>aq_markedBy := None\<rparr>) st"
  by (simp add: getAttendanceByLabourer_def attendanceFilters_def idFilter_invalid idFilter_None)

lemma getAttendanceByLabourer_invalid_start:
  "newDate e s = None \<Longrightarrow> dateBound e (aq_endDate a) \<noteq> None \<Longrightarrow>
   getAttendanceByLabourer e l (a\<lparr>aq_startDate := Some s\<rparr>) st
     = getAttendanceByLabourer e l (a\<lparr>aq_startDate := None\<rparr>) st"
  by (simp add: getAttendanceByLabourer_def attendanceFilters_def dateRangeFilter_invalid_start)

lemma getAttendanceByLabourer_invalid_end:
  "newDate e s = None \<Longrightarrow> dateBound e (aq_startDate a) \<noteq> None \<Longrightarrow>
   getAttendanceByLabourer e l (a\<lparr>aq_endDate := Some s\<rparr>) st
     = getAttendanceByLabourer e l (a\<lparr>aq_endDate := None\<rparr>) st"
  by (simp add: getAttendanceByLabourer_def attendanceFilters_def dateRangeFilter_invalid_end)

lemma parsePagination_pageTwo:
  "parsePagination (Some ''2'') None = \<lparr>page = 2, limit = 20, skip = 20\<rparr>"
  by (simp add: parsePagination_def parsePage_def parseLimit_def parseInt_def isWhiteSpace_def
      isDigit_def digitsVal_def digitVal_def gtZero_def Let_def toNumber_small)

lemma findSalaries_pageTwo_oneSalary:
  "findSalaries demoEnv
     \<lparr>sf_labourerId = None, sf_status = None, sf_and = None, sf_paymentDate = None\<rparr>
     \<lparr>page = 2, limit = 20, skip = 20\<rparr> oneSalary
   = \<lparr>meta = \<lparr>total = 1, totalPages = 1, currentPage = 2, pageSize = 0\<rparr>, records = []\<rparr>"
  by (simp add: findSalaries_def salaryMatches_def salaryPeriodOk_def oneSalary_def
      sortSalaries_def pageOf_def metaOf_def mathCeilDiv_def)

lemma populateSalaries_empty:
  "records r = [] \<Longrightarrow> populateSalaries r = Inr r"
  by (simp add: populateSalaries_def populateError_def)

lemma listSalaryRecords_pageTwo_oneSalary:
  "listSalaryRecords demoEnv pageTwo oneSalary
   = (Inr \<lparr>meta = \<lparr>total = 1, totalPages = 1, currentPage = 2, pageSize = 0\<rparr>, records = []\<rparr>,
      oneSalary)"
  by (simp add: listSalaryRecords_def pageTwo_def noSalaryFilter_def parsePagination_pageTwo
      listSalaryFilters_def salaryStatusFilter_def idFilter_def overlapConds_def truthy_def
      paymentDateFilter_def findSalaries_pageTwo_oneSalary populateSalaries_empty)

lemma findAttendance_pageTwo_threeDays:
  "findAttendance
     \<lparr>af_labourerId = Some labA, af_projectId = None, af_status = None, af_shift = None,
      af_markedBy = None, af_date = Some (Some 0, Some 2592000000)\<rparr>
     \<lparr>page = 2, limit = 20, skip = 20\<rparr> threeDays
   = Inr \<lparr>meta = \<lparr>total = 3, totalPages = 1, currentPage = 2, pageSize = 0\<rparr>, records = []\<rparr>"
  by (simp add: findAttendance_def attendanceMatches_def dateInRange_def threeDays_def
      presentOn_def sortAttendance_def pageOf_def metaOf_def mathCeilDiv_def)

lemma getAttendanceByLabourer_pageTwo_threeDays:
  "getAttendanceByLabourer demoEnv labA pageTwoOfJanuary threeDays
   = (Inr \<lparr>meta = \<lparr>total = 3, totalPages = 1, currentPage = 2, pageSize = 0\<rparr>, records = []\<rparr>,
      threeDays)"
  by (simp add: getAttendanceByLabourer_def isValid_def demoObjectId_labA attendanceFilters_def
      pageTwoOfJanuary_def januaryAttendance_def noAttendanceFilter_def parsePagination_pageTwo
      idFilter_def enumFilter_def dateRangeFilter_def dateBound_def truthy_def demoDate_01
      demoDate_31 findAttendance_pageTwo_threeDays populateAttendance_def populateError_def)

text \<open>
  Claim C3 fails on the code. \<open>listSalaryRecords\<close> with a labourer filter that is no
  identifier, and with a start of the period that is no date, does not fail: it answers
  200 with the total of the query without the filter, which counts the salary of labourer
  A. And \<open>getAttendanceByLabourer\<close> with a project filter that is no identifier
  answers 200 with the total of the three records of the labourer. (The requests ask for
  the second page, which is empty; how the handlers answer a page with a record is the
  matter of the populate step.)
\<close>

theorem invalid_filters_not_rejected:
  "listSalaryRecords demoEnv (pageTwo\<lparr>sq_labourerId := Some ''not-an-id''\<rparr>) oneSalary
     = (Inr \<lparr>meta = \<lparr>total = 1, totalPages = 1, currentPage = 2, pageSize = 0\<rparr>,
             records = []\<rparr>, oneSalary)
   \<and> listSalaryRecords demoEnv (pageTwo\<lparr>sq_startPeriod := Some ''not-a-date''\<rparr>) oneSalary
     = (Inr \<lparr>meta = \<lparr>total = 1, totalPages = 1, currentPage = 2, pageSize = 0\<rparr>,
             records = []\<rparr>, oneSalary)
   \<and> getAttendanceByLabourer demoEnv labA (pageTwoOfJanuary\<lparr>aq_projectId := Some ''not-an-id''\<rparr>)
       threeDays
     = (Inr \<lparr>meta = \<lparr>total = 3, totalPages = 1, currentPage = 2, pageSize = 0\<rparr>,
             records = []\<rparr>, threeDays)"
proof -
  have n: "\<not> isValid demoEnv ''not-an-id''" by (simp add: isValid_def demo_not_an_id)
  have "pageTwo\<lparr>sq_labourerId := None\<rparr> = pageTwo" "pageTwo\<lparr>sq_startPeriod := None\<rparr> = pageTwo"
    by (simp_all add: pageTwo_def noSalaryFilter_def)
  moreover have "pageTwoOfJanuary\<lparr>aq_projectId := None\<rparr> = pageTwoOfJanuary"
    by (simp add: pageTwoOfJanuary_def januaryAttendance_def noAttendanceFilter_def)
  ultimately show ?thesis
    using listSalaryRecords_invalid_labourer [OF n, of pageTwo oneSalary]
      listSalaryRecords_invalid_start [OF demo_not_a_date, of pageTwo oneSalary]
      getAttendanceByLabourer_invalid_project [OF n, of labA pageTwoOfJanuary threeDays]
    by (simp add: listSalaryRecords_pageTwo_oneSalary getAttendanceByLabourer_pageTwo_threeDays)
qed

text \<open>
  Claim C3, amended. In \<open>listSalaryRecords\<close> and \<open>getAttendanceByLabourer\<close> an
  optional identifier filter that is not a valid identifier, and a date of a filter that
  is not a date, do not fail the request with a validation error: the criterion is left
  out, and the answer is that of the same request without the value. For the two bounds
  of the date range of \<open>getAttendanceByLabourer\<close> this is stated beside another bound
  that is a date.
\<close>

theorem invalid_filters_dropped:
  assumes "\<not> isValid e x" and "newDate e s = None"
      and "dateBound e (aq_endDate a1) \<noteq> None" and "dateBound e (aq_startDate a2) \<noteq> None"
  shows "listSalaryRecords e (q\<lparr>sq_labourerId := Some x\<rparr>) st
           = listSalaryRecords e (q\<lparr>sq_labourerId := None\<rparr>) st
       \<and> listSalaryRecords e (q\<lparr>sq_startPeriod := Some s\<rparr>) st
           = listSalaryRecords e (q\<lparr>sq_startPeriod := None\<rparr>) st
       \<and> listSalaryRecords e (q\<lparr>sq_endPeriod := Some s\<rparr>) st
           = listSalaryRecords e (q\<lparr>sq_endPeriod := None\<rparr>) st
       \<and> listSalaryRecords e (q\<lparr>sq_paymentDate := Some s\<rparr>) st
           = listSalaryRecords e (q\<lparr>sq_paymentDate := None\<rparr>) st
       \<and> getAttendanceByLabourer e l (a\<lparr>aq_projectId := Some x\<rparr>) st
           = getAttendanceByLabourer e l (a\<lparr>aq_projectId := None\<rparr>) st
       \<and> getAttendanceByLabourer e l (a\<lparr>aq_markedBy := Some x\<rparr>) st
           = getAttendanceByLabourer e l (a\<lparr>aq_markedBy := None\<rparr>) st
       \<and> getAttendanceByLabourer e l (a1\<lparr>aq_startDate := Some s\<rparr>) st
           = getAttendanceByLabourer e l (a1\<lparr>aq_startDate := None\<rparr>) st
       \<and> getAttendanceByLabourer e l (a2\<lparr>aq_endDate := Some s\<rparr>) st
           = getAttendanceByLabourer e l (a2\<lparr>aq_endDate := None\<rparr>) st"
  using listSalaryRecords_invalid_labourer [OF assms(1)] listSalaryRecords_invalid_start [OF assms(2)]
    listSalaryRecords_invalid_end [OF assms(2)] listSalaryRecords_invalid_paymentDate [OF assms(2)]
    getAttendanceByLabourer_invalid_project [OF assms(1)]
    getAttendanceByLabourer_invalid_markedBy [OF assms(1)]
    getAttendanceByLabourer_invalid_start [OF assms(2,3)]
    getAttendanceByLabourer_invalid_end [OF assms(2,4)]
  by blast

text \<open>
  On the store with the salary of labourer A, the labourer filter \<open>not-an-id\<close> of the
  salary list is left out: the total is 1. On the store with the three records of
  labourer A, the marker \<open>not-an-id\<close> and the start \<open>not-a-date\<close> of the attendance
  list of January 1970 are left out: the total is 3.
\<close>

theorem invalid_filters_dropped_witness:
  "\<not> isValid demoEnv ''not-an-id'' \<and> newDate demoEnv ''not-a-date'' = None
   \<and> dateBound demoEnv (aq_endDate pageTwoOfJanuary) \<noteq> None
   \<and> dateBound demoEnv (aq_startDate pageTwoOfJanuary) \<noteq> None
   \<and> listSalaryRecords demoEnv (pageTwo\<lparr>sq_labourerId := Some ''not-an-id''\<rparr>) oneSalary
       = (Inr \<lparr>meta = \<lparr>total = 1, totalPages = 1, currentPage = 2, pageSize = 0\<rparr>,
               records = []\<rparr>, oneSalary)
   \<and> getAttendanceByLabourer demoEnv labA (pageTwoOfJanuary\<lparr>aq_markedBy := Some ''not-an-id''\<rparr>)
         threeDays
       = (Inr \<lparr>meta = \<lparr>total = 3, totalPages = 1, currentPage = 2, pageSize = 0\<rparr>,
               records = []\<rparr>, threeDays)
   \<and> getAttendanceByLabourer demoEnv labA (pageTwoOfJanuary\<lparr>aq_startDate := Some ''not-a-date''\<rparr>)
         threeDays
       = getAttendanceByLabourer demoEnv labA (pageTwoOfJanuary\<lparr>aq_startDate := None\<rparr>) threeDays"
proof -
  have h1: "\<not> isValid demoEnv ''not-an-id''"
    by (simp add: isValid_def demo_not_an_id)
  have h2: "newDate demoEnv ''not-a-date'' = None"
    by (rule demo_not_a_date)
  have h3: "dateBound demoEnv (aq_endDate pageTwoOfJanuary) \<noteq> None"
    by (simp add: dateBound_def pageTwoOfJanuary_def januaryAttendance_def noAttendanceFilter_def
        demoDate_31)
  have h4: "dateBound demoEnv (aq_startDate pageTwoOfJanuary) \<noteq> None"
    by (simp add: dateBound_def pageTwoOfJanuary_def januaryAttendance_def noAttendanceFilter_def
        demoDate_01)
  have p: "pageTwo\<lparr>sq_labourerId := None\<rparr> = pageTwo"
    by (simp add: pageTwo_def noSalaryFilter_def)
  have a: "pageTwoOfJanuary\<lparr>aq_markedBy := None\<rparr> = pageTwoOfJanuary"
    by (simp add: pageTwoOfJanuary_def januaryAttendance_def noAttendanceFilter_def)
  from invalid_filters_dropped [OF h1 h2 h3 h4, where q = pageTwo and st = oneSalary]
  have 1: "listSalaryRecords demoEnv (pageTwo\<lparr>sq_labourerId := Some ''not-an-id''\<rparr>) oneSalary
           = listSalaryRecords demoEnv pageTwo oneSalary"
    unfolding p by blast
  from invalid_filters_dropped [OF h1 h2 h3 h4, where a = pageTwoOfJanuary and st = threeDays
      and l = labA]
  have 2: "getAttendanceByLabourer demoEnv labA (pageTwoOfJanuary\<lparr>aq_markedBy := Some ''not-an-id''\<rparr>)
             threeDays
           = getAttendanceByLabourer demoEnv labA pageTwoOfJanuary threeDays"
    and 3: "getAttendanceByLabourer demoEnv labA
              (pageTwoOfJanuary\<lparr>aq_startDate := Some ''not-a-date''\<rparr>) threeDays
            = getAttendanceByLabourer demoEnv labA (pageTwoOfJanuary\<lparr>aq_startDate := None\<rparr>)
                threeDays"
    unfolding a by blast+
  from 1 2 3 h1 h2 h3 h4 show ?thesis
    by (simp add: listSalaryRecords_pageTwo_oneSalary getAttendanceByLabourer_pageTwo_threeDays)
qed

section \<open>The lifecycle of a leave request\<close>

lemma find_map_replace_leave:
  "lv_id d = i \<Longrightarrow>
   find (\<lambda>x. lv_id x = i) (map (\<lambda>x. if lv_id x = lv_id d then d else x) xs)
   = (case find (\<lambda>x. lv_id x = i) xs of None \<Rightarrow> None | Some _ \<Rightarrow> Some d)"
  by (induction xs) auto

lemma findLeaveById_id: "findLeaveById i st = Some l \<Longrightarrow> lv_id l = i"
  by (auto simp: findLeaveById_def find_Some_iff)

lemma findLeaveById_deleted:
  "findLeaveById i (st\<lparr>leaves := filter (\<lambda>r. lv_id r \<noteq> i) (leaves st)\<rparr>) = None"
  by (simp add: findLeaveById_def find_None_iff)

lemma reviewLeave_not_pending:
  assumes "objectId e leaveId = Some i" "\<not> missingOrInvalidId e reviewedBy"
      and "findLeaveById i st = Some l" "lv_status l \<noteq> Some LeavePending"
  shows "reviewLeave e decision verb leaveId reviewedBy st
       = (Inl (ApiError 400 (''Cannot '' @ verb @ '' a leave request with status ''
                               @ quoted (leaveStatusString (lv_status l)))), st)"
  using assms by (simp add: reviewLeave_def)

lemma reviewLeave_pending:
  assumes "objectId e leaveId = Some i" "\<not> missingOrInvalidId e reviewedBy"
      and "findLeaveById i st = Some l" "lv_status l = Some LeavePending"
      and "requiredString (lv_reason l)"
  shows "\<exists>st'. reviewLeave e decision verb leaveId reviewedBy st
           = (Inr (l\<lparr>lv_status := Some decision, lv_reviewedBy := castId e reviewedBy\<rparr>), st')
         \<and> findLeaveById i st'
             = Some (l\<lparr>lv_status := Some decision, lv_reviewedBy := castId e reviewedBy\<rparr>)
         \<and> castId e reviewedBy \<noteq> None
         \<and> salaries st' = salaries st \<and> attendances st' = attendances st"
proof -
  let ?d = "l\<lparr>lv_status := Some decision, lv_reviewedBy := castId e reviewedBy\<rparr>"
  have id: "lv_id ?d = i" using findLeaveById_id [OF assms(3)] by simp
  have f: "findLeaveById i
             (st\<lparr>leaves := map (\<lambda>r. if lv_id r = lv_id ?d then ?d else r) (leaves st)\<rparr>)
           = Some ?d"
    using assms(3) find_map_replace_leave [OF id, of "leaves st"] by (simp add: findLeaveById_def)
  have c: "castId e reviewedBy \<noteq> None"
    using assms(2)
    by (auto simp: missingOrInvalidId_def castId_def isValid_def split: option.splits)
  show ?thesis
    using assms f c by (simp add: reviewLeave_def saveLeave_def)
qed

text \<open>A review or a cancellation that succeeds was of a pending request.\<close>

lemma reviewLeave_success_was_pending:
  assumes "reviewLeave e decision verb leaveId reviewedBy st = (Inr l', st')"
  shows "\<exists>i l. objectId e leaveId = Some i \<and> findLeaveById i st = Some l
           \<and> lv_status l = Some LeavePending \<and> lv_status l' = Some decision
           \<and> lv_reviewedBy l' = castId e reviewedBy"
  using assms
  by (auto simp: reviewLeave_def saveLeave_def split: option.splits if_splits)

lemma cancelLeaveRequest_success_was_pending:
  assumes "cancelLeaveRequest e leaveId st = (Inr m, st')"
  shows "\<exists>i l. objectId e leaveId = Some i \<and> findLeaveById i st = Some l
           \<and> lv_status l = Some LeavePending \<and> findLeaveById i st' = None"
  using assms
  by (auto simp: cancelLeaveRequest_def findLeaveById_deleted split: option.splits if_splits)

text \<open>
  Claim C9. For a stored leave request (with the reason its schema requires) and a valid
  reviewer: when its status is "pending", approving and rejecting succeed, set the status
  to "approved" or "rejected" and record the reviewer, and cancelling succeeds and deletes
  it; in any other status each of the three fails with an error that names the status,
  and the store is unchanged.
\<close>

theorem leave_transitions_from_pending_only:
  assumes "objectId e leaveId = Some i" and "\<not> missingOrInvalidId e reviewedBy"
      and "findLeaveById i st = Some l" and "requiredString (lv_reason l)"
  shows "if lv_status l = Some LeavePending
         then (\<exists>a st'. approveLeave e leaveId reviewedBy st = (Inr a, st')
                 \<and> a = l\<lparr>lv_status := Some LeaveApproved, lv_reviewedBy := castId e reviewedBy\<rparr>
                 \<and> castId e reviewedBy \<noteq> None \<and> findLeaveById i st' = Some a)
            \<and> (\<exists>a st'. rejectLeave e leaveId reviewedBy st = (Inr a, st')
                 \<and> a = l\<lparr>lv_status := Some LeaveRejected, lv_reviewedBy := castId e reviewedBy\<rparr>
                 \<and> castId e reviewedBy \<noteq> None \<and> findLeaveById i st' = Some a)
            \<and> (\<exists>m st'. cancelLeaveRequest e leaveId st = (Inr m, st')
                 \<and> findLeaveById i st' = None)
         else approveLeave e leaveId reviewedBy st
                = (Inl (ApiError 400 (''Cannot approve a leave request with status ''
                                        @ quoted (leaveStatusString (lv_status l)))), st)
            \<and> rejectLeave e leaveId reviewedBy st
                = (Inl (ApiError 400 (''Cannot reject a leave request with status ''
                                        @ quoted (leaveStatusString (lv_status l)))), st)
            \<and> cancelLeaveRequest e leaveId st
                = (Inl (ApiError 400 (''Cannot cancel a leave request with status ''
                                        @ quoted (leaveStatusString (lv_status l)))), st)"
proof (cases "lv_status l = Some LeavePending")
  case True
  from reviewLeave_pending [OF assms(1,2,3) True assms(4), of LeaveApproved "''approve''"]
  have a: "\<exists>a st'. approveLeave e leaveId reviewedBy st = (Inr a, st')
                 \<and> a = l\<lparr>lv_status := Some LeaveApproved, lv_reviewedBy := castId e reviewedBy\<rparr>
                 \<and> castId e reviewedBy \<noteq> None \<and> findLeaveById i st' = Some a"
    by (auto simp: approveLeave_def)
  from reviewLeave_pending [OF assms(1,2,3) True assms(4), of LeaveRejected "''reject''"]
  have b: "\<exists>a st'. rejectLeave e leaveId reviewedBy st = (Inr a, st')
                 \<and> a = l\<lparr>lv_status := Some LeaveRejected, lv_reviewedBy := castId e reviewedBy\<rparr>
                 \<and> castId e reviewedBy \<noteq> None \<and> findLeaveById i st' = Some a"
    by (auto simp: rejectLeave_def)
  have c: "\<exists>m st'. cancelLeaveRequest e leaveId st = (Inr m, st') \<and> findLeaveById i st' = None"
    using assms(1,3) True by (simp add: cancelLeaveRequest_def findLeaveById_deleted)
  from True a b c show ?thesis by simp
next
  case False
  with assms show ?thesis
    by (simp add: approveLeave_def rejectLeave_def reviewLeave_not_pending cancelLeaveRequest_def)
qed

text \<open>
  The pending leave of \<open>oneLeave\<close> is approved by user U; approving it once more
  fails.
\<close>

theorem leave_transitions_from_pending_only_witness:
  "objectId demoEnv ''000000000000000000000001'' = Some ''000000000000000000000001''
   \<and> \<not> missingOrInvalidId demoEnv (Some userU)
   \<and> findLeaveById ''000000000000000000000001'' oneLeave
       = Some (leaveOf ''000000000000000000000001'' 172800000 345600000 LeavePending)
   \<and> requiredString (lv_reason (leaveOf ''000000000000000000000001'' 172800000 345600000 LeavePending))
   \<and> (\<exists>a st'. approveLeave demoEnv ''000000000000000000000001'' (Some userU) oneLeave = (Inr a, st')
         \<and> lv_status a = Some LeaveApproved \<and> lv_reviewedBy a = Some userU
         \<and> findLeaveById ''000000000000000000000001'' st' = Some a
         \<and> approveLeave demoEnv ''000000000000000000000001'' (Some userU) st'
             = (Inl (ApiError 400 (''Cannot approve a leave request with status ''
                                     @ quoted ''approved'')), st'))"
proof -
  let ?i = "''000000000000000000000001''"
  let ?l = "leaveOf ?i 172800000 345600000 LeavePending"
  have h1: "objectId demoEnv ?i = Some ?i" by (rule demoObjectId_1)
  have "userU \<noteq> []" by (simp add: userU_def)
  then have h2: "\<not> missingOrInvalidId demoEnv (Some userU)"
    by (simp add: missingOrInvalidId_def isValid_def demoObjectId_userU)
  have h3: "findLeaveById ?i oneLeave = Some ?l"
    by (simp add: findLeaveById_def oneLeave_def leaveOf_def)
  have h4: "requiredString (lv_reason ?l)"
    by (simp add: requiredString_def leaveOf_def)
  have p: "lv_status ?l = Some LeavePending" by (simp add: leaveOf_def)
  have c: "castId demoEnv (Some userU) = Some userU"
    by (simp add: castId_def demoObjectId_userU)
  from leave_transitions_from_pending_only [OF h1 h2 h3 h4] p c obtain a st' where
    a: "approveLeave demoEnv ?i (Some userU) oneLeave = (Inr a, st')"
       "a = ?l\<lparr>lv_status := Some LeaveApproved, lv_reviewedBy := Some userU\<rparr>"
       "findLeaveById ?i st' = Some a"
    by auto
  have r: "requiredString (lv_reason a)" "lv_status a \<noteq> Some LeavePending"
          "leaveStatusString (lv_status a) = ''approved''"
    using a(2) by (simp_all add: requiredString_def leaveOf_def)
  from leave_transitions_from_pending_only [OF h1 h2 a(3) r(1)] r(2,3)
  have "approveLeave demoEnv ?i (Some userU) st'
          = (Inl (ApiError 400 (''Cannot approve a leave request with status ''
                                  @ quoted ''approved'')), st')"
    by simp
  with a h1 h2 h3 h4 show ?thesis by simp
qed

section \<open>Attendance summaries\<close>

lemma foldl_sum_counts:
  "foldl (\<lambda>sum cur. sum + snd cur) a (xs :: ('k \<times> int) list) = a + sum_list (map snd xs)"
  by (induction xs arbitrary: a) auto

lemma length_filter_disj:
  "(\<And>x. \<not> (P x \<and> Q x)) \<Longrightarrow>
   length (filter (\<lambda>x. P x \<or> Q x) xs) = length (filter P xs) + length (filter Q xs)"
  by (induction xs) auto

lemma sum_counts_distinct:
  "distinct ss \<Longrightarrow>
   (\<Sum>s\<leftarrow>ss. int (length (filter (\<lambda>a. f a = s) xs)))
   = int (length (filter (\<lambda>a. f a \<in> set ss) xs))"
proof (induction ss)
  case Nil
  then show ?case by simp
next
  case (Cons s ss)
  have "length (filter (\<lambda>a. f a = s \<or> f a \<in> set ss) xs)
        = length (filter (\<lambda>a. f a = s) xs) + length (filter (\<lambda>a. f a \<in> set ss) xs)"
    using Cons.prems by (intro length_filter_disj) auto
  with Cons show ?case by simp
qed

text \<open>The counts of the groups add up to the number of documents grouped.\<close>

lemma groupByStatus_total:
  "foldl (\<lambda>sum cur. sum + snd cur) 0 (groupByStatus docs) = int (length docs)"
proof -
  have "sum_list (map snd (groupByStatus docs))
        = (\<Sum>s\<leftarrow>remdups (map att_status docs).
             int (length (filter (\<lambda>a. att_status a = s) docs)))"
    by (simp add: groupByStatus_def comp_def)
  also have "\<dots> = int (length (filter (\<lambda>a. att_status a \<in> set (remdups (map att_status docs)))
                                  docs))"
    by (rule sum_counts_distinct) simp
  also have "\<dots> = int (length docs)" by simp
  finally show ?thesis by (simp add: foldl_sum_counts)
qed

text \<open>
  \<open>forEach\<close> over groups of distinct statuses: a counter is the count of its group,
  and stays as it was when the group is absent.
\<close>

lemma foldl_setCount_present:
  "distinct ss \<Longrightarrow>
   present (foldl setCount s0 (map (\<lambda>s. (s, g s)) ss))
   = (if Present \<in> set ss then g Present else present s0)"
proof (induction ss arbitrary: s0)
  case Nil
  then show ?case by simp
next
  case (Cons s ss)
  then show ?case by (cases s) auto
qed

lemma foldl_setCount_absent:
  "distinct ss \<Longrightarrow>
   absent (foldl setCount s0 (map (\<lambda>s. (s, g s)) ss))
   = (if Absent \<in> set ss then g Absent else absent s0)"
proof (induction ss arbitrary: s0)
  case Nil
  then show ?case by simp
next
  case (Cons s ss)
  then show ?case by (cases s) auto
qed

lemma foldl_setCount_halfDay:
  "distinct ss \<Longrightarrow>
   halfDay (foldl setCount s0 (map (\<lambda>s. (s, g s)) ss))
   = (if HalfDay \<in> set ss then g HalfDay else halfDay s0)"
proof (induction ss arbitrary: s0)
  case Nil
  then show ?case by simp
next
  case (Cons s ss)
  then show ?case by (cases s) auto
qed

text \<open>A status no document has counts 0.\<close>

lemma countStatus_absent_status:
  "s \<notin> att_status ` set docs \<Longrightarrow> countStatus s docs = 0"
  by (auto simp: countStatus_def filter_empty_conv)

lemma summaryOf_groupByStatus:
  "summaryOf (groupByStatus docs)
   = \<lparr>present = countStatus Present docs, absent = countStatus Absent docs,
      halfDay = countStatus HalfDay docs, totalRecords = int (length docs)\<rparr>"
proof -
  let ?g = "\<lambda>s. int (length (filter (\<lambda>a. att_status a = s) docs))"
  let ?ss = "remdups (map att_status docs)"
  let ?s0 = "\<lparr>present = 0, absent = 0, halfDay = 0, totalRecords = 0\<rparr>"
  let ?f = "foldl setCount ?s0 (map (\<lambda>s. (s, ?g s)) ?ss)"
  have d: "distinct ?ss" by simp
  have p: "present ?f = countStatus Present docs"
    using foldl_setCount_present [OF d, of ?s0 ?g] countStatus_absent_status [of Present docs]
    by (auto simp: countStatus_def)
  have a: "absent ?f = countStatus Absent docs"
    using foldl_setCount_absent [OF d, of ?s0 ?g] countStatus_absent_status [of Absent docs]
    by (auto simp: countStatus_def)
  have h: "halfDay ?f = countStatus HalfDay docs"
    using foldl_setCount_halfDay [OF d, of ?s0 ?g] countStatus_absent_status [of HalfDay docs]
    by (auto simp: countStatus_def)
  have "summaryOf (groupByStatus docs) = ?f\<lparr>totalRecords := int (length docs)\<rparr>"
    using groupByStatus_total [of docs] by (simp add: summaryOf_def groupByStatus_def)
  with p a h show ?thesis by (cases ?f) simp
qed

lemma countStatus_sum:
  "countStatus Present docs + countStatus Absent docs + countStatus HalfDay docs
   = int (length docs)"
proof (induction docs)
  case Nil
  then show ?case by (simp add: countStatus_def)
next
  case (Cons a docs)
  then show ?case by (cases "att_status a") (auto simp: countStatus_def)
qed

lemma summaryBound_isBound: "isBound e x q \<Longrightarrow> summaryBound e m x = Inr q"
  by (auto simp: isBound_def summaryBound_def truthy_def split: option.splits)

lemma attendanceSummary_counts:
  assumes "isValid e i" "isBound e startDate lo" "isBound e endDate hi" "objectIdCallable e"
  shows "attendanceSummary e ref m i startDate endDate st
       = (Inr \<lparr>sr_id = i,
               sr_summary =
                 \<lparr>present = countStatus Present
                              (matchedAttendance ref (objectId e i) lo hi (attendances st)),
                  absent = countStatus Absent
                              (matchedAttendance ref (objectId e i) lo hi (attendances st)),
                  halfDay = countStatus HalfDay
                              (matchedAttendance ref (objectId e i) lo hi (attendances st)),
                  totalRecords = int (length
                              (matchedAttendance ref (objectId e i) lo hi (attendances st)))\<rparr>,
               sr_startDate = (if lo = None then None else startDate),
               sr_endDate = (if hi = None then None else endDate)\<rparr>, st)"
proof -
  have t: "truthy startDate \<longleftrightarrow> lo \<noteq> None" "truthy endDate \<longleftrightarrow> hi \<noteq> None"
    using assms(2,3) by (auto simp: isBound_def split: option.splits)
  have m: "filter (summaryMatches ref (objectId e i)
                     (if truthy startDate \<or> truthy endDate then Some (lo, hi) else None))
             (attendances st)
           = matchedAttendance ref (objectId e i) lo hi (attendances st)"
    unfolding matchedAttendance_def summaryMatches_def using t
    by (intro filter_cong refl) auto
  have "attendanceSummary e ref m i startDate endDate st
        = (Inr \<lparr>sr_id = i,
                sr_summary = summaryOf (groupByStatus
                  (filter (summaryMatches ref (objectId e i)
                             (if truthy startDate \<or> truthy endDate then Some (lo, hi) else None))
                     (attendances st))),
                sr_startDate = (if truthy startDate then startDate else None),
                sr_endDate = (if truthy endDate then endDate else None)\<rparr>, st)"
    using assms(1,4)
    by (simp add: attendanceSummary_def summaryBound_isBound [OF assms(2)]
        summaryBound_isBound [OF assms(3)] Let_def)
  then show ?thesis
    unfolding m summaryOf_groupByStatus using t by simp
qed

text \<open>Where \<open>ObjectId\<close> is a class, the call without \<open>new\<close> throws before the query.\<close>

lemma attendanceSummary_not_callable:
  assumes "isValid e i" "isBound e startDate lo" "isBound e endDate hi" "\<not> objectIdCallable e"
  shows "attendanceSummary e ref m i startDate endDate st
       = (Inl (TypeError ''Class constructor ObjectId cannot be invoked without new''), st)"
  using assms(1,4)
  by (simp add: attendanceSummary_def summaryBound_isBound [OF assms(2)]
      summaryBound_isBound [OF assms(3)])

text \<open>
  Where \<open>ObjectId\<close> can be called without \<open>new\<close> (Mongoose 6 or older): for a
  valid labourer or project identifier and date bounds that are dates when supplied, the
  summary is an object with the three counters and the total: each counter is the number
  of matching records of its status (0 when there is none,
  \<open>countStatus_absent_status\<close>), and the total is the number of matching records, which
  is the sum of the three counters.
\<close>

lemma attendance_summary_fixed_shape:
  assumes "isValid e i" "isBound e startDate lo" "isBound e endDate hi" "objectIdCallable e"
  shows "(\<exists>r. getLabourerAttendanceSummary e i startDate endDate st = (Inr r, st)
            \<and> sr_summary r =
                \<lparr>present = countStatus Present
                             (matchedAttendance att_labourerId (objectId e i) lo hi (attendances st)),
                 absent = countStatus Absent
                             (matchedAttendance att_labourerId (objectId e i) lo hi (attendances st)),
                 halfDay = countStatus HalfDay
                             (matchedAttendance att_labourerId (objectId e i) lo hi (attendances st)),
                 totalRecords = int (length
                             (matchedAttendance att_labourerId (objectId e i) lo hi (attendances st)))\<rparr>
            \<and> totalRecords (sr_summary r)
                = present (sr_summary r) + absent (sr_summary r) + halfDay (sr_summary r))
       \<and> (\<exists>r. getProjectAttendanceSummary e i startDate endDate st = (Inr r, st)
            \<and> sr_summary r =
                \<lparr>present = countStatus Present
                             (matchedAttendance att_projectId (objectId e i) lo hi (attendances st)),
                 absent = countStatus Absent
                             (matchedAttendance att_projectId (objectId e i) lo hi (attendances st)),
                 halfDay = countStatus HalfDay
                             (matchedAttendance att_projectId (objectId e i) lo hi (attendances st)),
                 totalRecords = int (length
                             (matchedAttendance att_projectId (objectId e i) lo hi (attendances st)))\<rparr>
            \<and> totalRecords (sr_summary r)
                = present (sr_summary r) + absent (sr_summary r) + halfDay (sr_summary r))"
  using attendanceSummary_counts [OF assms, of att_labourerId "''Invalid labourer ID''" st]
    attendanceSummary_counts [OF assms, of att_projectId "''Invalid project ID''" st]
    countStatus_sum [of "matchedAttendance att_labourerId (objectId e i) lo hi (attendances st)"]
    countStatus_sum [of "matchedAttendance att_projectId (objectId e i) lo hi (attendances st)"]
  by (simp add: getLabourerAttendanceSummary_def getProjectAttendanceSummary_def)

text \<open>
  Labourer A of \<open>fourRecords\<close> has 2 present, 1 absent and 1 half-day record: the
  summary is \<open>{present: 2, absent: 1, halfDay: 1, totalRecords: 4}\<close>.
\<close>

lemma attendance_summary_fixed_shape_witness:
  "isValid legacyEnv labA \<and> isBound legacyEnv None None \<and> objectIdCallable legacyEnv
   \<and> (\<exists>r. getLabourerAttendanceSummary legacyEnv labA None None fourRecords = (Inr r, fourRecords)
         \<and> sr_summary r = \<lparr>present = 2, absent = 1, halfDay = 1, totalRecords = 4\<rparr>)"
proof -
  let ?m = "matchedAttendance att_labourerId (Some labA) None None (attendances fourRecords)"
  have o: "objectId legacyEnv labA = Some labA"
    using demoObjectId_labA by (simp add: legacyEnv_def)
  have h1: "isValid legacyEnv labA" by (simp add: isValid_def o)
  have h2: "isBound legacyEnv None None" by (simp add: isBound_def truthy_def)
  have h3: "objectIdCallable legacyEnv" by (simp add: legacyEnv_def)
  have m: "?m = [attendanceOf ''000000000000000000000000'' labA 0 Present,
                 attendanceOf ''000000000000000000000001'' labA 86400000 Absent,
                 attendanceOf ''000000000000000000000003'' labA 172800000 Present,
                 attendanceOf ''000000000000000000000004'' labA 259200000 HalfDay]"
    by (simp add: matchedAttendance_def fourRecords_def attendanceOf_def labA_def labB_def)
  have c: "countStatus Present ?m = 2" "countStatus Absent ?m = 1" "countStatus HalfDay ?m = 1"
          "int (length ?m) = 4"
    unfolding m by (simp_all add: countStatus_def attendanceOf_def)
  from attendance_summary_fixed_shape [OF h1 h2 h2 h3, of fourRecords] obtain r where
    r: "getLabourerAttendanceSummary legacyEnv labA None None fourRecords = (Inr r, fourRecords)"
       "sr_summary r =
          \<lparr>present = countStatus Present ?m, absent = countStatus Absent ?m,
           halfDay = countStatus HalfDay ?m, totalRecords = int (length ?m)\<rparr>"
    unfolding o by blast
  have "sr_summary r = \<lparr>present = 2, absent = 1, halfDay = 1, totalRecords = 4\<rparr>"
    unfolding r(2) c by simp
  with r(1) h1 h2 h3 show ?thesis by blast
qed

text \<open>
  Claim C7, at a failing input. The store has the 2 present, 1 absent and 1 half-day
  records of labourer A on project P, and \<open>ObjectId\<close> is a class (Mongoose 7 or later).
  Both summaries, asked with a valid identifier and no bounds, throw the
  \<open>TypeError\<close> of the call \<open>mongoose.Types.ObjectId(id)\<close> without \<open>new\<close>, where
  the claim has \<open>{present: 2, absent: 1, halfDay: 1, totalRecords: 4}\<close> for the
  labourer.
\<close>

theorem attendance_summary_type_error:
  "getLabourerAttendanceSummary demoEnv labA None None fourRecords
     = (Inl (TypeError ''Class constructor ObjectId cannot be invoked without new''), fourRecords)
   \<and> getProjectAttendanceSummary demoEnv projP None None fourRecords
     = (Inl (TypeError ''Class constructor ObjectId cannot be invoked without new''), fourRecords)"
proof -
  have v: "isValid demoEnv labA" "isValid demoEnv projP"
    by (simp_all add: isValid_def demoEnv_def demoObjectId_def isHex_def lowerHex_def labA_def
        projP_def)
  have b: "isBound demoEnv None None" by (simp add: isBound_def truthy_def)
  have c: "\<not> objectIdCallable demoEnv" by (simp add: demoEnv_def)
  show ?thesis
    unfolding getLabourerAttendanceSummary_def getProjectAttendanceSummary_def
    using attendanceSummary_not_callable [OF v(1) b b c]
      attendanceSummary_not_callable [OF v(2) b b c]
    by simp
qed

text \<open>Neither call answers a summary.\<close>

theorem attendance_summary_type_error_witness:
  "(\<forall>r. fst (getLabourerAttendanceSummary demoEnv labA None None fourRecords) \<noteq> Inr r)
   \<and> (\<forall>r. fst (getProjectAttendanceSummary demoEnv projP None None fourRecords) \<noteq> Inr r)"
  using attendance_summary_type_error by simp

section \<open>One attendance record per labourer, project, date and shift\<close>

lemma shiftOf_nonempty: "shiftOf s = Some x \<Longrightarrow> s \<noteq> []"
  by (auto simp: shiftOf_def)

lemma attendanceStatusOf_nonempty: "attendanceStatusOf s = Some x \<Longrightarrow> s \<noteq> []"
  by (auto simp: attendanceStatusOf_def)

lemma findDuplicate_None_iff:
  "shiftOf shs = Some sh \<Longrightarrow>
   findDuplicate l p d shs st = None
   \<longleftrightarrow> (\<forall>a \<in> set (attendances st). attKey a \<noteq> (l, p, Some d, sh))"
  by (auto simp: findDuplicate_def find_None_iff attKey_def)

lemma castAttendance_valid:
  assumes "objectId e ls = Some l" "objectId e ps = Some p"
      and "shiftOf shs = Some sh" "attendanceStatusOf sts = Some status"
      and "case m of None \<Rightarrow> True | Some u \<Rightarrow> objectId e u \<noteq> None"
  shows "castAttendance e i
           \<lparr>an_labourerId = Some ls, an_projectId = Some ps, an_date = Some d,
            an_shift = Some shs, an_status = Some sts, an_markedBy = m\<rparr>
         = Inr \<lparr>att_id = i, att_labourerId = Some l, att_projectId = Some p, att_date = Some d,
                att_shift = sh, att_status = status, att_markedBy = castId e m\<rparr>"
  using assms shiftOf_nonempty [OF assms(3)] attendanceStatusOf_nonempty [OF assms(4)]
  by (auto simp: castAttendance_def attendanceErrors_def castIdErrors_def enumErrors_def
      requiredString_def castId_def split: option.splits)

text \<open>
  Marking with a valid body: the record is created when no record has the key, and the
  call is a conflict when one has.
\<close>

lemma markAttendance_valid:
  assumes "ai_labourerId b = Some ls" "ls \<noteq> []" "objectId e ls = Some l"
      and "ai_projectId b = Some ps" "ps \<noteq> []" "objectId e ps = Some p"
      and "ai_date b = Some ds" "ds \<noteq> []" "newDate e ds = Some d"
      and "ai_shift b = Some shs" "shiftOf shs = Some sh"
      and "ai_status b = Some sts" "attendanceStatusOf sts = Some status"
      and "case ai_markedBy b of None \<Rightarrow> True | Some u \<Rightarrow> objectId e u \<noteq> None"
  shows "markAttendance e b st =
           (if \<forall>a \<in> set (attendances st). attKey a \<noteq> (Some l, Some p, Some d, sh)
            then (Inr \<lparr>att_id = mkId e (created st), att_labourerId = Some l,
                       att_projectId = Some p, att_date = Some d, att_shift = sh,
                       att_status = status, att_markedBy = castId e (ai_markedBy b)\<rparr>,
                  st\<lparr>attendances := attendances st @
                        [\<lparr>att_id = mkId e (created st), att_labourerId = Some l,
                          att_projectId = Some p, att_date = Some d, att_shift = sh,
                          att_status = status, att_markedBy = castId e (ai_markedBy b)\<rparr>],
                     created := created st + 1\<rparr>)
            else (Inl (ApiError 409
                    ''Attendance already marked for this labourer, project, date, and shift''), st))"
proof -
  have ne: "shs \<noteq> []" "sts \<noteq> []"
    using shiftOf_nonempty [OF assms(11)] attendanceStatusOf_nonempty [OF assms(13)] by auto
  have mk: "\<not> invalidIfTruthy e (ai_markedBy b)"
    using assms(14) by (auto simp: invalidIfTruthy_def isValid_def split: option.splits)
  note c = castAttendance_valid [OF assms(3,6,11,13,14)]
  show ?thesis
  proof (cases "\<forall>a \<in> set (attendances st). attKey a \<noteq> (Some l, Some p, Some d, sh)")
    case True
    then have "findDuplicate (Some l) (Some p) d shs st = None"
      using findDuplicate_None_iff [OF assms(11)] by simp
    with True assms ne mk c show ?thesis
      by (simp add: markAttendance_def isValid_def createAttendance_def)
  next
    case False
    then have "findDuplicate (Some l) (Some p) d shs st \<noteq> None"
      using findDuplicate_None_iff [OF assms(11)] by simp
    with False assms ne mk show ?thesis
      by (auto simp: markAttendance_def isValid_def)
  qed
qed

lemma markAttendance_twice:
  assumes "ai_labourerId b = Some ls" "ls \<noteq> []" "objectId e ls = Some l"
      and "ai_projectId b = Some ps" "ps \<noteq> []" "objectId e ps = Some p"
      and "ai_date b = Some ds" "ds \<noteq> []" "newDate e ds = Some d"
      and "ai_shift b = Some shs" "shiftOf shs = Some sh"
      and "ai_status b = Some sts" "attendanceStatusOf sts = Some status"
      and "case ai_markedBy b of None \<Rightarrow> True | Some u \<Rightarrow> objectId e u \<noteq> None"
      and "\<forall>a \<in> set (attendances st). attKey a \<noteq> (Some l, Some p, Some d, sh)"
  shows "\<exists>a st1. markAttendance e b st = (Inr a, st1)
           \<and> attKey a = (Some l, Some p, Some d, sh) \<and> att_status a = status
           \<and> attendances st1 = attendances st @ [a]
           \<and> markAttendance e b st1
               = (Inl (ApiError 409
                    ''Attendance already marked for this labourer, project, date, and shift''), st1)
           \<and> length (filter (\<lambda>x. attKey x = (Some l, Some p, Some d, sh)) (attendances st1)) = 1"
proof -
  let ?k = "(Some l, Some p, Some d, sh)"
  let ?a = "\<lparr>att_id = mkId e (created st), att_labourerId = Some l,
             att_projectId = Some p, att_date = Some d, att_shift = sh,
             att_status = status, att_markedBy = castId e (ai_markedBy b)\<rparr>"
  let ?st1 = "st\<lparr>attendances := attendances st @ [?a], created := created st + 1\<rparr>"
  have 1: "markAttendance e b st = (Inr ?a, ?st1)"
    using markAttendance_valid [OF assms(1-14), of st] assms(15) by simp
  have k: "attKey ?a = ?k" by (simp add: attKey_def)
  have "\<not> (\<forall>a \<in> set (attendances ?st1). attKey a \<noteq> ?k)" using k by simp
  then have 2: "markAttendance e b ?st1
                = (Inl (ApiError 409
                     ''Attendance already marked for this labourer, project, date, and shift''), ?st1)"
    using markAttendance_valid [OF assms(1-14), of ?st1] by simp
  have "filter (\<lambda>x. attKey x = ?k) (attendances st) = []"
    using assms(15) by (simp add: filter_empty_conv)
  then have 3: "length (filter (\<lambda>x. attKey x = ?k) (attendances ?st1)) = 1"
    using k by simp
  from 1 2 3 k show ?thesis by simp
qed

text \<open>Marking keeps the keys of the store distinct, whatever the body is.\<close>

lemma markAttendance_error_store: "markAttendance e b st = (Inl err, st') \<Longrightarrow> st' = st"
  by (auto simp: markAttendance_def createAttendance_def
      split: option.splits if_splits prod.splits sum.splits)

lemma markAttendance_created:
  assumes "markAttendance e b st = (Inr a, st')"
  shows "attendances st' = attendances st @ [a]
       \<and> (\<forall>x \<in> set (attendances st). attKey x \<noteq> attKey a)"
proof -
  from assms obtain ls ps ds shs sts d where
    f: "findDuplicate (objectId e ls) (objectId e ps) d shs st = None"
    and c: "createAttendance e
              \<lparr>an_labourerId = Some ls, an_projectId = Some ps, an_date = Some d,
               an_shift = Some shs, an_status = Some sts, an_markedBy = ai_markedBy b\<rparr> st
            = (Inr a, st')"
    by (auto simp: markAttendance_def split: option.splits if_splits prod.splits)
  from c have a: "attendances st' = attendances st @ [a]"
    and k: "att_labourerId a = objectId e ls" "att_projectId a = objectId e ps" "att_date a = Some d"
           "shiftOf shs = Some (att_shift a)"
    by (auto simp: createAttendance_def castAttendance_def castId_def
        split: sum.splits list.splits option.splits prod.splits)
  from f k have "\<forall>x \<in> set (attendances st). attKey x \<noteq> attKey a"
    by (auto simp: findDuplicate_def find_None_iff attKey_def)
  with a show ?thesis by simp
qed

lemma markAttendance_keeps_keys_distinct:
  assumes "distinct (map attKey (attendances st))"
  shows "distinct (map attKey (attendances (snd (markAttendance e b st))))"
proof (cases "markAttendance e b st")
  case (Pair res st')
  show ?thesis
  proof (cases res)
    case (Inl err)
    with Pair markAttendance_error_store have "st' = st" by blast
    with Pair assms show ?thesis by simp
  next
    case (Inr a)
    with Pair markAttendance_created [of e b st a st'] assms show ?thesis by auto
  qed
qed

subsection \<open>The update\<close>

lemma findAttendanceById_Some:
  "findAttendanceById i st = Some a \<Longrightarrow> att_id a = i \<and> a \<in> set (attendances st)"
  by (auto simp: findAttendanceById_def find_Some_iff)

lemma findOther_None_iff:
  "findOther i k st = None
   \<longleftrightarrow> (\<forall>x \<in> set (attendances st). att_id x \<noteq> i \<longrightarrow> attKey x \<noteq> k)"
  by (auto simp: findOther_def find_None_iff)

text \<open>
  An update that succeeds has looked for another record with the target key, when the
  body supplies a field of the key, and has found none.
\<close>

lemma updateAttendance_success:
  assumes "updateAttendance e s u st = (Inr a', st')"
  shows "\<exists>i a. objectId e s = Some i \<and> findAttendanceById i st = Some a
           \<and> assignErrors e u = [] \<and> a' = assignUpdates e a u
           \<and> st' = st\<lparr>attendances :=
                         map (\<lambda>x. if att_id x = att_id a then a' else x) (attendances st)\<rparr>
           \<and> (suppliesKey u \<longrightarrow> findOther i (targetKey e u a) st = None)"
  using assms
  by (auto simp: updateAttendance_def saveAttendance_def suppliesKey_def targetKey_def
      split: option.splits if_splits)

text \<open>An update whose target key another record has is a conflict.\<close>

lemma updateAttendance_conflict:
  assumes "updateAttendance e s u st = (res, st')"
      and "objectId e s = Some i" "findAttendanceById i st = Some a" "suppliesKey u"
      and "x \<in> set (attendances st)" "att_id x \<noteq> i" "attKey x = targetKey e u a"
  shows "st' = st \<and> (\<exists>c m. res = Inl (ApiError c m))"
proof -
  have "findOther i (targetKey e u a) st \<noteq> None"
    using assms(5-7) by (auto simp: findOther_None_iff)
  with assms(1-4) show ?thesis
    by (auto simp: updateAttendance_def suppliesKey_def targetKey_def split: if_splits)
qed

text \<open>
  The key of the updated record is the key that was looked for. The empty string is no
  identifier; as a date it is outside this lemma (it is falsy, so the handler does not
  look, and Mongoose casts it to \<open>null\<close>).
\<close>

lemma assignUpdates_key:
  assumes "assignErrors e u = []" "objectId e [] = None" "ai_date u \<noteq> Some []"
  shows "attKey (assignUpdates e a u) = targetKey e u a"
proof -
  have l: "att_labourerId (assignUpdates e a u) = idToCheck e (ai_labourerId u) (att_labourerId a)"
    using assms(1,2)
    by (auto simp: assignErrors_def assignUpdates_def idToCheck_def castIdErrors_def castId_def
        truthy_def split: option.splits if_splits)
  have p: "att_projectId (assignUpdates e a u) = idToCheck e (ai_projectId u) (att_projectId a)"
    using assms(1,2)
    by (auto simp: assignErrors_def assignUpdates_def idToCheck_def castIdErrors_def castId_def
        truthy_def split: option.splits if_splits)
  have d: "att_date (assignUpdates e a u) = dateToCheck e (ai_date u) (att_date a)"
    using assms(3) by (auto simp: assignUpdates_def dateToCheck_def split: option.splits)
  have sh: "att_shift (assignUpdates e a u) = shiftToCheck (ai_shift u) (att_shift a)"
    using assms(1)
    by (auto simp: assignErrors_def assignUpdates_def shiftToCheck_def enumErrors_def
        requiredString_def split: option.splits if_splits)
  from l p d sh show ?thesis by (simp add: attKey_def targetKey_def)
qed

lemma targetKey_unchanged: "\<not> suppliesKey u \<Longrightarrow> targetKey e u a = attKey a"
  by (auto simp: suppliesKey_def targetKey_def attKey_def idToCheck_def dateToCheck_def
      shiftToCheck_def truthy_def split: option.splits)

lemma replace_keeps_keys_distinct:
  assumes "distinct (map att_id xs)" "distinct (map attKey xs)"
      and "\<forall>x \<in> set xs. att_id x \<noteq> i \<longrightarrow> attKey x \<noteq> attKey a'"
  shows "distinct (map attKey (map (\<lambda>x. if att_id x = i then a' else x) xs))"
  using assms
proof (induction xs)
  case Nil
  then show ?case by simp
next
  case (Cons x xs)
  show ?case
  proof (cases "att_id x = i")
    case True
    with Cons.prems(1) have n: "\<forall>y \<in> set xs. att_id y \<noteq> i" by (force simp: image_iff)
    then have "map (\<lambda>x. if att_id x = i then a' else x) xs = xs"
      by (simp add: map_idI)
    with True Cons.prems n show ?thesis by auto
  next
    case False
    have ih: "distinct (map attKey (map (\<lambda>x. if att_id x = i then a' else x) xs))"
      using Cons by simp
    have "attKey x \<notin> (\<lambda>y. attKey (if att_id y = i then a' else y)) ` set xs"
    proof
      assume "attKey x \<in> (\<lambda>y. attKey (if att_id y = i then a' else y)) ` set xs"
      then obtain y where y: "y \<in> set xs" "attKey x = attKey (if att_id y = i then a' else y)"
        by auto
      show False
      proof (cases "att_id y = i")
        case True
        with y have "attKey x = attKey a'" by simp
        with Cons.prems(3) False show False by simp
      next
        case False
        with y have "attKey x = attKey y" by simp
        with y(1) Cons.prems(2) show False by auto
      qed
    qed
    with False ih show ?thesis by (simp add: comp_def)
  qed
qed

lemma updateAttendance_keeps_keys_distinct:
  assumes "distinct (map att_id (attendances st))" "distinct (map attKey (attendances st))"
      and "objectId e [] = None" "ai_date u \<noteq> Some []"
  shows "distinct (map attKey (attendances (snd (updateAttendance e s u st))))"
proof (cases "updateAttendance e s u st")
  case (Pair res st')
  show ?thesis
  proof (cases res)
    case (Inl err)
    with Pair have "st' = st"
      by (auto simp: updateAttendance_def saveAttendance_def split: option.splits if_splits)
    with Pair assms(2) show ?thesis by simp
  next
    case (Inr a')
    with Pair updateAttendance_success [of e s u st a' st'] obtain i a where
      h: "objectId e s = Some i" "findAttendanceById i st = Some a" "assignErrors e u = []"
         "a' = assignUpdates e a u"
         "st' = st\<lparr>attendances :=
                    map (\<lambda>x. if att_id x = att_id a then a' else x) (attendances st)\<rparr>"
         "suppliesKey u \<longrightarrow> findOther i (targetKey e u a) st = None"
      by auto
    have a: "att_id a = i" "a \<in> set (attendances st)"
      using findAttendanceById_Some [OF h(2)] by auto
    have k: "attKey a' = targetKey e u a"
      using assignUpdates_key [OF h(3) assms(3,4)] h(4) by simp
    have others: "\<forall>x \<in> set (attendances st). att_id x \<noteq> i \<longrightarrow> attKey x \<noteq> attKey a'"
    proof (cases "suppliesKey u")
      case True
      with h(6) k show ?thesis by (simp add: findOther_None_iff)
    next
      case False
      then have "attKey a' = attKey a" using k targetKey_unchanged by simp
      moreover have "\<forall>x \<in> set (attendances st). att_id x \<noteq> i \<longrightarrow> attKey x \<noteq> attKey a"
        using assms(2) a by (auto simp: distinct_map inj_on_def)
      ultimately show ?thesis by simp
    qed
    from replace_keeps_keys_distinct [OF assms(1,2) others] h(5) a(1) Pair
    show ?thesis by simp
  qed
qed

text \<open>
  What holds of the uniqueness of the key. For a valid body (labourer and project
  identifiers, a date, a shift and a status of the schema, a marker that is an identifier
  when given) whose key no stored record has: the first mark-attendance call creates the
  record, the second call with the same body is the conflict 409 and changes nothing, and
  exactly one record has the key afterwards. An update keeps the keys of the store
  distinct when the date of its body is not the empty string: it looks for another record
  with the target key whenever the body supplies a field of the key
  (\<open>updateAttendance_success\<close>, \<open>updateAttendance_conflict\<close>).
\<close>

lemma attendance_key_unique:
  assumes "ai_labourerId b = Some ls" "ls \<noteq> []" "objectId e ls = Some l"
      and "ai_projectId b = Some ps" "ps \<noteq> []" "objectId e ps = Some p"
      and "ai_date b = Some ds" "ds \<noteq> []" "newDate e ds = Some d"
      and "ai_shift b = Some shs" "shiftOf shs = Some sh"
      and "ai_status b = Some sts" "attendanceStatusOf sts = Some status"
      and "case ai_markedBy b of None \<Rightarrow> True | Some u \<Rightarrow> objectId e u \<noteq> None"
      and "\<forall>a \<in> set (attendances st). attKey a \<noteq> (Some l, Some p, Some d, sh)"
      and "distinct (map att_id (attendances st2))" "distinct (map attKey (attendances st2))"
      and "objectId e [] = None" "ai_date u \<noteq> Some []"
  shows "(\<exists>a st1. markAttendance e b st = (Inr a, st1)
            \<and> attKey a = (Some l, Some p, Some d, sh) \<and> att_status a = status
            \<and> attendances st1 = attendances st @ [a]
            \<and> markAttendance e b st1
                = (Inl (ApiError 409
                     ''Attendance already marked for this labourer, project, date, and shift''), st1)
            \<and> length (filter (\<lambda>x. attKey x = (Some l, Some p, Some d, sh)) (attendances st1)) = 1)
       \<and> distinct (map attKey (attendances (snd (markAttendance e b st2))))
       \<and> distinct (map attKey (attendances (snd (updateAttendance e s u st2))))"
  using markAttendance_twice [OF assms(1-15)]
    markAttendance_keeps_keys_distinct [OF assms(17), of e b]
    updateAttendance_keeps_keys_distinct [OF assms(16-19), of s]
  by blast

lemma demoObjectId_projP: "objectId demoEnv projP = Some projP"
  by (simp add: demoEnv_def demoObjectId_def isHex_def lowerHex_def projP_def)

lemma demoObjectId_empty: "objectId demoEnv [] = None"
  by (simp add: demoEnv_def demoObjectId_def)

text \<open>
  Labourer A is marked present for the morning of the first of January 1970 in the empty
  store, twice; and the shift of a record of \<open>threeDays\<close> is updated.
\<close>

lemma attendance_key_unique_witness:
  "attendances emptyStore = []
   \<and> distinct (map att_id (attendances threeDays)) \<and> distinct (map attKey (attendances threeDays))
   \<and> (\<exists>a st1. markAttendance demoEnv (entryOn ''1970-01-01'' ''morning'') emptyStore = (Inr a, st1)
         \<and> attKey a = (Some labA, Some projP, Some 0, Morning)
         \<and> attendances st1 = [a]
         \<and> markAttendance demoEnv (entryOn ''1970-01-01'' ''morning'') st1
             = (Inl (ApiError 409
                  ''Attendance already marked for this labourer, project, date, and shift''), st1))
   \<and> distinct (map attKey (attendances
        (snd (updateAttendance demoEnv ''000000000000000000000001'' toEvening threeDays))))"
proof -
  let ?b = "entryOn ''1970-01-01'' ''morning''"
  have ne: "labA \<noteq> []" "projP \<noteq> []" by (simp_all add: labA_def projP_def)
  have b: "ai_labourerId ?b = Some labA" "ai_projectId ?b = Some projP"
          "ai_date ?b = Some ''1970-01-01''" "ai_shift ?b = Some ''morning''"
          "ai_status ?b = Some ''present''"
    by (simp_all add: entryOn_def)
  have m: "case ai_markedBy ?b of None \<Rightarrow> True | Some u \<Rightarrow> objectId demoEnv u \<noteq> None"
    by (simp add: entryOn_def)
  have d: "''1970-01-01'' \<noteq> []" by simp
  have sh: "shiftOf ''morning'' = Some Morning" by (simp add: shiftOf_def)
  have status: "attendanceStatusOf ''present'' = Some Present"
    by (simp add: attendanceStatusOf_def)
  have e0: "attendances emptyStore = []" by (simp add: emptyStore_def)
  then have none: "\<forall>a \<in> set (attendances emptyStore).
                     attKey a \<noteq> (Some labA, Some projP, Some 0, Morning)"
    by simp
  have i: "distinct (map att_id (attendances threeDays))"
    by (simp add: threeDays_def presentOn_def)
  have k: "distinct (map attKey (attendances threeDays))"
    by (simp add: threeDays_def presentOn_def attKey_def)
  have u: "ai_date toEvening \<noteq> Some []" by (simp add: toEvening_def)
  from attendance_key_unique [OF b(1) ne(1) demoObjectId_labA b(2) ne(2) demoObjectId_projP
      b(3) d demoDate_01 b(4) sh b(5) status m none i k demoObjectId_empty u,
      of "''000000000000000000000001''"] e0 i k
  show ?thesis by auto
qed


subsection \<open>An update that clears the date\<close>

text \<open>
  A body whose only field is \<open>date: ""\<close> passes every check of \<open>updateAttendance\<close>
  (each is guarded by the truthiness of the field), the search for another record is
  skipped for the same reason, and \<open>Object.assign\<close> sets the date, which Mongoose casts
  to \<open>null\<close>.
\<close>

lemma updateAttendance_clearDate:
  assumes "objectId e s = Some i" "findAttendanceById i st = Some a"
  shows "updateAttendance e s clearDate st
         = (Inr (a\<lparr>att_date := None\<rparr>),
            st\<lparr>attendances :=
                 map (\<lambda>x. if att_id x = att_id a then a\<lparr>att_date := None\<rparr> else x)
                     (attendances st)\<rparr>)"
  using assms
  by (simp add: updateAttendance_def invalidIfTruthy_def notAllowedIfTruthy_def truthy_def
      clearDate_def saveAttendance_def assignErrors_def castIdErrors_def assignUpdates_def)

text \<open>
  Claim C8, at a failing input. The store has the morning records of labourer A on project
  P for the first, second and third of January 1970. The first is updated with the body
  \<open>{date: ""}\<close>, then the second: both calls succeed, no duplicate check runs although
  the key field \<open>date\<close> changes, and the two records end with the same (labourer,
  project, date, shift), where the claim has the update perform the duplicate check
  whenever a key field changes and at most one record per tuple.
\<close>

theorem updateAttendance_empty_date_duplicates:
  "updateAttendance demoEnv ''000000000000000000000001'' clearDate threeDays
     = (Inr (undated ''000000000000000000000001''), oneUndated)
   \<and> updateAttendance demoEnv ''000000000000000000000002'' clearDate oneUndated
     = (Inr (undated ''000000000000000000000002''), twoUndated)
   \<and> attKey (undated ''000000000000000000000001'') = attKey (undated ''000000000000000000000002'')"
proof -
  have f1: "findAttendanceById ''000000000000000000000001'' threeDays
            = Some (presentOn ''000000000000000000000001'' labA 0)"
    by (simp add: findAttendanceById_def threeDays_def presentOn_def)
  have f2: "findAttendanceById ''000000000000000000000002'' oneUndated
            = Some (presentOn ''000000000000000000000002'' labA 86400000)"
    by (simp add: findAttendanceById_def oneUndated_def presentOn_def undated_def)
  have "updateAttendance demoEnv ''000000000000000000000001'' clearDate threeDays
     = (Inr (undated ''000000000000000000000001''), oneUndated)"
    unfolding updateAttendance_clearDate [OF demoObjectId_1 f1]
    by (simp add: threeDays_def oneUndated_def presentOn_def undated_def)
  moreover have "updateAttendance demoEnv ''000000000000000000000002'' clearDate oneUndated
     = (Inr (undated ''000000000000000000000002''), twoUndated)"
    unfolding updateAttendance_clearDate [OF demoObjectId_2 f2]
    by (simp add: twoUndated_def oneUndated_def presentOn_def undated_def)
  ultimately show ?thesis by (simp add: attKey_def undated_def)
qed

text \<open>The keys of the store are distinct before the two updates and not after them.\<close>

theorem updateAttendance_empty_date_duplicates_witness:
  "distinct (map attKey (attendances threeDays))
   \<and> \<not> distinct (map attKey (attendances
         (snd (updateAttendance demoEnv ''000000000000000000000002'' clearDate
            (snd (updateAttendance demoEnv ''000000000000000000000001'' clearDate threeDays))))))"
  using updateAttendance_empty_date_duplicates
  by (simp add: threeDays_def twoUndated_def presentOn_def undated_def attKey_def)

section \<open>Bulk attendance\<close>

lemma length_filter_enumerate:
  "length (filter (\<lambda>(k, r). Q r) (enumerate n rs)) = length (filter Q rs)"
  by (induction rs arbitrary: n) auto

text \<open>The checks partition the entries: each is a valid record or a failure.\<close>

lemma partition_lengths:
  "length (validRecords e rs) + length (entryErrors e rs) = length rs"
proof -
  have "length (entryErrors e rs) = length (filter (\<lambda>r. \<not> fst (checkEntry e r)) rs)"
    using length_filter_enumerate [of "\<lambda>r. \<not> fst (checkEntry e r)" 0 rs]
    by (simp add: entryErrors_def)
  then show ?thesis
    using sum_length_filter_compl [of "\<lambda>r. fst (checkEntry e r)" rs]
    by (simp add: validRecords_def)
qed

text \<open>
  A failure of the checks is reported with the index of its entry in the request, the
  entry, and the message of its last failed check; and every entry that fails is reported.
\<close>

lemma entryErrors_idx:
  assumes "f \<in> set (entryErrors e rs)"
  shows "fr_idx f < length rs \<and> fr_record f = Entry (rs ! fr_idx f)
       \<and> \<not> fst (checkEntry e (rs ! fr_idx f)) \<and> fr_error f = snd (checkEntry e (rs ! fr_idx f))"
  using assms by (auto simp: entryErrors_def in_set_enumerate_eq)

lemma entryErrors_complete:
  assumes "k < length rs" "\<not> fst (checkEntry e (rs ! k))"
  shows "\<lparr>fr_idx = k, fr_error = snd (checkEntry e (rs ! k)), fr_record = Entry (rs ! k)\<rparr>
         \<in> set (entryErrors e rs)"
proof -
  have "(k, rs ! k) \<in> set (filter (\<lambda>(k, r). \<not> fst (checkEntry e r)) (enumerate 0 rs))"
    using assms by (simp add: in_set_enumerate_eq)
  then show ?thesis
    unfolding entryErrors_def by (force simp: image_iff)
qed

text \<open>
  The unordered insert continues past a failure: a document that passes the schema and
  that the server does not reject is written, whatever happens to the others.
\<close>

lemma written_iff: "doc \<in> set (written os) \<longleftrightarrow> Written doc \<in> set os"
  by (induction os rule: written.induct) auto

lemma writeOutcomes_nth:
  "k < length vs \<Longrightarrow>
   writeOutcomes e dr c vs ! k =
     (case castAttendance e (mkId e (c + k)) (vs ! k) of
        Inl _ \<Rightarrow> LeftOut
      | Inr doc \<Rightarrow> (case writeError dr doc of None \<Rightarrow> Written doc | Some m \<Rightarrow> Rejected k m))"
  by (simp add: writeOutcomes_def nth_enumerate_eq)

lemma written_continues:
  assumes "k < length vs" "castAttendance e (mkId e (c + k)) (vs ! k) = Inr doc"
      and "writeError dr doc = None"
  shows "doc \<in> set (written (writeOutcomes e dr c vs))"
proof -
  have "writeOutcomes e dr c vs ! k = Written doc"
    using assms by (simp add: writeOutcomes_nth)
  moreover have "k < length (writeOutcomes e dr c vs)"
    using assms(1) by (simp add: writeOutcomes_def)
  ultimately have "Written doc \<in> set (writeOutcomes e dr c vs)"
    by (metis nth_mem)
  then show ?thesis by (simp add: written_iff)
qed

lemma bulk_none_valid:
  assumes "rs \<noteq> []" "validRecords e rs = []"
  shows "bulkAddAttendance e dr (Some rs) st
       = (Inl (ApiError 400 (''No valid attendance records to add. ''
                 @ showNat (length rs) @ '' failed validation.'')), st)"
  using assms partition_lengths [of e rs]
  by (simp add: bulkAddAttendance_def Let_def)

lemma bulk_some_valid:
  assumes "rs \<noteq> []" "validRecords e rs \<noteq> []"
  shows "let os = writeOutcomes e dr (created st) (validRecords e rs)
         in \<exists>resp st'. bulkAddAttendance e dr (Some rs) st = (Inr resp, st')
              \<and> br_failedRecords resp
                  = entryErrors e rs @ map (\<lambda>(k, m). \<lparr>fr_idx = k, fr_error = m,
                                      fr_record = recordAt (validRecords e rs) k\<rparr>)
                             (rejected os)
              \<and> br_failedCount resp = length (br_failedRecords resp)
              \<and> br_insertedCount resp
                  = (if rejected os = [] then length (written os)
                     else length (case resultInsertedDocs dr (written os) of
                                    None \<Rightarrow> [] | Some ds \<Rightarrow> ds))
              \<and> attendances st' = attendances st @ written os
              \<and> salaries st' = salaries st \<and> leaves st' = leaves st"
  using assms
  by (simp add: bulkAddAttendance_def insertManyUnordered_def Let_def writeFailures_def)

text \<open>
  What holds of the report. For a body with entries: every entry is checked on its own, and the entries
  are partitioned into the valid records and the failures, each failure with the index
  of its entry (0-based), its error and the entry. With no valid record the call fails
  with one error 400 and writes nothing. Otherwise the call answers 201: the failed list
  is the failures of the checks followed by one failure per write error, with its index,
  message and record; the failed count is the length of that list; every record that
  passes the schema and that the server does not reject is stored, whatever happens to
  the others; and the inserted count is the number of records stored when no write was
  rejected (else the handler counts \<open>err.result.insertedDocs\<close>).
\<close>

lemma bulkAddAttendance_report:
  assumes "rs \<noteq> []"
  shows "length (validRecords e rs) + length (entryErrors e rs) = length rs
       \<and> (\<forall>f \<in> set (entryErrors e rs).
            fr_idx f < length rs \<and> fr_record f = Entry (rs ! fr_idx f)
            \<and> \<not> fst (checkEntry e (rs ! fr_idx f))
            \<and> fr_error f = snd (checkEntry e (rs ! fr_idx f)))
       \<and> (if validRecords e rs = []
          then bulkAddAttendance e dr (Some rs) st
                 = (Inl (ApiError 400 (''No valid attendance records to add. ''
                           @ showNat (length rs) @ '' failed validation.'')), st)
          else (let os = writeOutcomes e dr (created st) (validRecords e rs)
                in \<exists>resp st'. bulkAddAttendance e dr (Some rs) st = (Inr resp, st')
                     \<and> br_failedRecords resp
                         = entryErrors e rs @ map (\<lambda>(k, m). \<lparr>fr_idx = k, fr_error = m,
                                      fr_record = recordAt (validRecords e rs) k\<rparr>)
                             (rejected os)
                     \<and> br_failedCount resp = length (br_failedRecords resp)
                     \<and> br_insertedCount resp
                         = (if rejected os = [] then length (written os)
                            else length (case resultInsertedDocs dr (written os) of
                                           None \<Rightarrow> [] | Some ds \<Rightarrow> ds))
                     \<and> attendances st' = attendances st @ written os
                     \<and> (\<forall>k doc. k < length (validRecords e rs)
                           \<and> castAttendance e (mkId e (created st + k)) (validRecords e rs ! k)
                               = Inr doc
                           \<and> writeError dr doc = None
                           \<longrightarrow> doc \<in> set (attendances st'))))"
proof -
  have 1: "length (validRecords e rs) + length (entryErrors e rs) = length rs"
    by (rule partition_lengths)
  have 2: "\<forall>f \<in> set (entryErrors e rs).
            fr_idx f < length rs \<and> fr_record f = Entry (rs ! fr_idx f)
            \<and> \<not> fst (checkEntry e (rs ! fr_idx f))
            \<and> fr_error f = snd (checkEntry e (rs ! fr_idx f))"
    using entryErrors_idx by blast
  show ?thesis
  proof (cases "validRecords e rs = []")
    case True
    with 1 2 bulk_none_valid [OF assms True, of dr st] show ?thesis by simp
  next
    case False
    let ?os = "writeOutcomes e dr (created st) (validRecords e rs)"
    from bulk_some_valid [OF assms False, of dr st] obtain resp st' where
      r: "bulkAddAttendance e dr (Some rs) st = (Inr resp, st')"
         "br_failedRecords resp
            = entryErrors e rs @ map (\<lambda>(k, m). \<lparr>fr_idx = k, fr_error = m,
                                      fr_record = recordAt (validRecords e rs) k\<rparr>)
                             (rejected ?os)"
         "br_failedCount resp = length (br_failedRecords resp)"
         "br_insertedCount resp
            = (if rejected ?os = [] then length (written ?os)
               else length (case resultInsertedDocs dr (written ?os) of
                              None \<Rightarrow> [] | Some ds \<Rightarrow> ds))"
         "attendances st' = attendances st @ written ?os"
      unfolding Let_def by blast
    have "\<forall>k doc. k < length (validRecords e rs)
             \<and> castAttendance e (mkId e (created st + k)) (validRecords e rs ! k) = Inr doc
             \<and> writeError dr doc = None
             \<longrightarrow> doc \<in> set (attendances st')"
      using written_continues [of _ "validRecords e rs" e "created st" _ dr] r(5) by auto
    with r have "\<exists>resp st'. bulkAddAttendance e dr (Some rs) st = (Inr resp, st')
                     \<and> br_failedRecords resp
                         = entryErrors e rs @ map (\<lambda>(k, m). \<lparr>fr_idx = k, fr_error = m,
                                      fr_record = recordAt (validRecords e rs) k\<rparr>)
                             (rejected ?os)
                     \<and> br_failedCount resp = length (br_failedRecords resp)
                     \<and> br_insertedCount resp
                         = (if rejected ?os = [] then length (written ?os)
                            else length (case resultInsertedDocs dr (written ?os) of
                                           None \<Rightarrow> [] | Some ds \<Rightarrow> ds))
                     \<and> attendances st' = attendances st @ written ?os
                     \<and> (\<forall>k doc. k < length (validRecords e rs)
                           \<and> castAttendance e (mkId e (created st + k)) (validRecords e rs ! k)
                               = Inr doc
                           \<and> writeError dr doc = None
                           \<longrightarrow> doc \<in> set (attendances st'))"
      by blast
    with 1 2 False show ?thesis by (simp add: Let_def)
  qed
qed

lemma demoDate_02: "newDate demoEnv ''1970-01-02'' = Some 86400000"
  by (simp add: demoEnv_def demoNewDate_def isDigit_def digitsVal_def digitVal_def)

lemma demoDate_04: "newDate demoEnv ''1970-01-04'' = Some 259200000"
  by (simp add: demoEnv_def demoNewDate_def isDigit_def digitsVal_def digitVal_def)

lemma demoDate_05: "newDate demoEnv ''1970-01-05'' = Some 345600000"
  by (simp add: demoEnv_def demoNewDate_def isDigit_def digitsVal_def digitVal_def)

lemma checkEntry_entryOn:
  assumes "newDate demoEnv d = Some t" "d \<noteq> []"
  shows "checkEntry demoEnv (entryOn d sh)
       = (if sh \<noteq> [] \<and> shiftOf sh \<noteq> None then (True, []) else (False, ''Missing/invalid shift''))"
proof -
  have "labA \<noteq> []" "projP \<noteq> []" by (simp_all add: labA_def projP_def)
  with assms show ?thesis
    by (simp add: checkEntry_def entryOn_def missingOrInvalidId_def missingOrNot_def
        invalidIfTruthy_def isValid_def demoObjectId_labA demoObjectId_projP
        attendanceStatusOf_def Let_def)
qed

lemma castAttendance_entryOn:
  assumes "newDate demoEnv d = Some t" "shiftOf sh = Some x"
  shows "castAttendance demoEnv i (toNew demoEnv (entryOn d sh))
       = Inr \<lparr>att_id = i, att_labourerId = Some labA, att_projectId = Some projP,
              att_date = Some t, att_shift = x, att_status = Present, att_markedBy = None\<rparr>"
proof -
  have n: "toNew demoEnv (entryOn d sh)
           = \<lparr>an_labourerId = Some labA, an_projectId = Some projP, an_date = Some t,
              an_shift = Some sh, an_status = Some ''present'', an_markedBy = None\<rparr>"
    using assms(1) by (simp add: toNew_def entryOn_def)
  have s: "attendanceStatusOf ''present'' = Some Present"
    by (simp add: attendanceStatusOf_def)
  show ?thesis
    unfolding n
    using castAttendance_valid [OF demoObjectId_labA demoObjectId_projP assms(2) s, of None i t]
    by (simp add: castId_def)
qed

lemma fiveEntries_checked:
  "validRecords demoEnv fiveEntries
     = [toNew demoEnv (entryOn ''1970-01-01'' ''morning''),
        toNew demoEnv (entryOn ''1970-01-02'' ''morning''),
        toNew demoEnv (entryOn ''1970-01-04'' ''evening''),
        toNew demoEnv (entryOn ''1970-01-05'' ''night'')]"
  "entryErrors demoEnv fiveEntries
     = [\<lparr>fr_idx = 2, fr_error = ''Missing/invalid shift'',
         fr_record = Entry (entryOn ''1970-01-03'' ''afternoon'')\<rparr>]"
  by (simp_all add: validRecords_def entryErrors_def fiveEntries_def
      checkEntry_entryOn [OF demoDate_01] checkEntry_entryOn [OF demoDate_02]
      checkEntry_entryOn [OF demoDate_03] checkEntry_entryOn [OF demoDate_04]
      checkEntry_entryOn [OF demoDate_05] shiftOf_def)

lemma fiveEntries_outcomes:
  "rejected (writeOutcomes demoEnv demoDriver 0 (validRecords demoEnv fiveEntries)) = []"
  "length (written (writeOutcomes demoEnv demoDriver 0 (validRecords demoEnv fiveEntries))) = 4"
proof -
  have sh: "shiftOf ''morning'' = Some Morning" "shiftOf ''evening'' = Some Evening"
           "shiftOf ''night'' = Some Night"
    by (simp_all add: shiftOf_def)
  have w: "\<And>doc. writeError demoDriver doc = None" by (simp add: demoDriver_def)
  show "rejected (writeOutcomes demoEnv demoDriver 0 (validRecords demoEnv fiveEntries)) = []"
    by (simp add: fiveEntries_checked writeOutcomes_def w
        castAttendance_entryOn [OF demoDate_01 sh(1)] castAttendance_entryOn [OF demoDate_02 sh(1)]
        castAttendance_entryOn [OF demoDate_04 sh(2)] castAttendance_entryOn [OF demoDate_05 sh(3)])
  show "length (written (writeOutcomes demoEnv demoDriver 0 (validRecords demoEnv fiveEntries))) = 4"
    by (simp add: fiveEntries_checked writeOutcomes_def w
        castAttendance_entryOn [OF demoDate_01 sh(1)] castAttendance_entryOn [OF demoDate_02 sh(1)]
        castAttendance_entryOn [OF demoDate_04 sh(2)] castAttendance_entryOn [OF demoDate_05 sh(3)])
qed

text \<open>
  Five entries of which the third has an invalid shift, with a server that rejects no
  write: 4 inserted, 1 failed, and the failure is reported at index 2.
\<close>

lemma bulkAddAttendance_report_witness:
  "fiveEntries \<noteq> []
   \<and> (\<exists>resp st'. bulkAddAttendance demoEnv demoDriver (Some fiveEntries) emptyStore = (Inr resp, st')
         \<and> br_insertedCount resp = 4 \<and> br_failedCount resp = 1
         \<and> br_failedRecords resp
             = [\<lparr>fr_idx = 2, fr_error = ''Missing/invalid shift'',
                 fr_record = Entry (entryOn ''1970-01-03'' ''afternoon'')\<rparr>]
         \<and> length (attendances st') = 4)"
proof -
  let ?os = "writeOutcomes demoEnv demoDriver 0 (validRecords demoEnv fiveEntries)"
  have h: "fiveEntries \<noteq> []" by (simp add: fiveEntries_def)
  have v: "validRecords demoEnv fiveEntries \<noteq> []" by (simp add: fiveEntries_checked)
  have c: "created emptyStore = 0" "attendances emptyStore = []" by (simp_all add: emptyStore_def)
  from bulkAddAttendance_report [OF h, of demoEnv demoDriver emptyStore] v c obtain resp st' where
    r: "bulkAddAttendance demoEnv demoDriver (Some fiveEntries) emptyStore = (Inr resp, st')"
       "br_failedRecords resp
          = entryErrors demoEnv fiveEntries
            @ map (\<lambda>(k, m). \<lparr>fr_idx = k, fr_error = m,
                                      fr_record = recordAt (validRecords demoEnv fiveEntries) k\<rparr>)
                             (rejected ?os)"
       "br_failedCount resp = length (br_failedRecords resp)"
       "br_insertedCount resp
          = (if rejected ?os = [] then length (written ?os)
             else length (case resultInsertedDocs demoDriver (written ?os) of
                            None \<Rightarrow> [] | Some ds \<Rightarrow> ds))"
       "attendances st' = written ?os"
    by (auto simp: Let_def)
  have f: "br_failedRecords resp
           = [\<lparr>fr_idx = 2, fr_error = ''Missing/invalid shift'',
               fr_record = Entry (entryOn ''1970-01-03'' ''afternoon'')\<rparr>]"
    unfolding r(2) fiveEntries_outcomes(1) by (simp add: fiveEntries_checked(2) writeFailures_def)
  have "br_insertedCount resp = 4" "br_failedCount resp = 1" "length (attendances st') = 4"
    using r(3,4,5) f fiveEntries_outcomes by simp_all
  with r(1) f h show ?thesis by blast
qed

subsection \<open>An entry that is neither inserted nor reported\<close>

text \<open>
  The check of \<open>markedBy\<close> is \<open>if (markedBy && !isValid(markedBy))\<close>: the empty
  string is falsy and passes. The entry is a valid record for the handler;
  \<open>insertMany\<close> cannot cast its \<open>markedBy\<close> and, being unordered, leaves the
  document out without an error.
\<close>

lemma checkEntry_empty_marker:
  assumes "newDate demoEnv d = Some t" "d \<noteq> []" "shiftOf sh \<noteq> None"
  shows "checkEntry demoEnv ((entryOn d sh)\<lparr>ai_markedBy := Some []\<rparr>) = (True, [])"
proof -
  have "labA \<noteq> []" "projP \<noteq> []" by (simp_all add: labA_def projP_def)
  moreover have "sh \<noteq> []" using assms(3) by (auto simp: shiftOf_def)
  ultimately show ?thesis
    using assms
    by (simp add: checkEntry_def entryOn_def missingOrInvalidId_def missingOrNot_def
        invalidIfTruthy_def isValid_def demoObjectId_labA demoObjectId_projP
        attendanceStatusOf_def Let_def)
qed

lemma castAttendance_empty_marker:
  "\<exists>errs. castAttendance demoEnv i (toNew demoEnv ((entryOn d sh)\<lparr>ai_markedBy := Some []\<rparr>))
           = Inl errs"
  by (simp add: castAttendance_def attendanceErrors_def castIdErrors_def toNew_def entryOn_def
      demoObjectId_empty split: list.splits option.splits)

lemma threeEntries_checked:
  "validRecords demoEnv threeEntries
     = [toNew demoEnv (entryOn ''1970-01-01'' ''morning''),
        toNew demoEnv ((entryOn ''1970-01-02'' ''morning'')\<lparr>ai_markedBy := Some []\<rparr>),
        toNew demoEnv (entryOn ''1970-01-03'' ''morning'')]"
  "entryErrors demoEnv threeEntries = []"
proof -
  have m: "shiftOf ''morning'' \<noteq> None" by (simp add: shiftOf_def)
  show "validRecords demoEnv threeEntries
     = [toNew demoEnv (entryOn ''1970-01-01'' ''morning''),
        toNew demoEnv ((entryOn ''1970-01-02'' ''morning'')\<lparr>ai_markedBy := Some []\<rparr>),
        toNew demoEnv (entryOn ''1970-01-03'' ''morning'')]"
    using m
    by (simp add: validRecords_def threeEntries_def checkEntry_entryOn [OF demoDate_01]
        checkEntry_entryOn [OF demoDate_03] checkEntry_empty_marker [OF demoDate_02])
  show "entryErrors demoEnv threeEntries = []"
    using m
    by (simp add: entryErrors_def threeEntries_def checkEntry_entryOn [OF demoDate_01]
        checkEntry_entryOn [OF demoDate_03] checkEntry_empty_marker [OF demoDate_02])
qed

lemma threeEntries_outcomes:
  "writeOutcomes demoEnv demoDriver 0 (validRecords demoEnv threeEntries)
   = [Written \<lparr>att_id = mkId demoEnv 0, att_labourerId = Some labA, att_projectId = Some projP,
               att_date = Some 0, att_shift = Morning, att_status = Present,
               att_markedBy = None\<rparr>,
      LeftOut,
      Written \<lparr>att_id = mkId demoEnv 2, att_labourerId = Some labA, att_projectId = Some projP,
               att_date = Some 172800000, att_shift = Morning, att_status = Present,
               att_markedBy = None\<rparr>]"
proof -
  have sh: "shiftOf ''morning'' = Some Morning" by (simp add: shiftOf_def)
  have w: "\<And>doc. writeError demoDriver doc = None" by (simp add: demoDriver_def)
  obtain errs where
    c: "castAttendance demoEnv (mkId demoEnv (Suc 0))
          (toNew demoEnv ((entryOn ''1970-01-02'' ''morning'')\<lparr>ai_markedBy := Some []\<rparr>))
        = Inl errs"
    using castAttendance_empty_marker by blast
  show ?thesis
    by (simp add: threeEntries_checked writeOutcomes_def w c
        castAttendance_entryOn [OF demoDate_01 sh] castAttendance_entryOn [OF demoDate_03 sh]
        numeral_2_eq_2)
qed

text \<open>
  Claim C6, at a failing input. Three entries are sent to the empty store, on a server
  that rejects no write; the second entry has the marker \<open>""\<close>. The handler answers
  201 with \<open>insertedCount\<close> 2, \<open>failedCount\<close> 0 and no failed record, and the store
  has the first and the third record: the second entry is neither inserted nor reported,
  where the claim has every entry either inserted or in the list of failures with its
  index and error.
\<close>

theorem bulkAddAttendance_entry_lost:
  "fst (bulkAddAttendance demoEnv demoDriver (Some threeEntries) emptyStore)
     = Inr \<lparr>br_message = ''Bulk attendance insert complete'', br_insertedCount = 2,
            br_failedCount = 0, br_failedRecords = []\<rparr>
   \<and> map att_date (attendances (snd (bulkAddAttendance demoEnv demoDriver (Some threeEntries)
                                        emptyStore)))
     = [Some 0, Some 172800000]"
proof -
  have e: "threeEntries \<noteq> []" by (simp add: threeEntries_def)
  have v: "validRecords demoEnv threeEntries \<noteq> []" by (simp add: threeEntries_checked)
  have c: "created emptyStore = 0" "attendances emptyStore = []" by (simp_all add: emptyStore_def)
  show ?thesis
    using e v
    by (simp add: bulkAddAttendance_def insertManyUnordered_def Let_def c threeEntries_outcomes
        threeEntries_checked(2))
qed

text \<open>Three entries were sent; the inserted and the failed together are two.\<close>

theorem bulkAddAttendance_entry_lost_witness:
  "length threeEntries = 3
   \<and> (\<exists>resp. fst (bulkAddAttendance demoEnv demoDriver (Some threeEntries) emptyStore) = Inr resp
         \<and> br_insertedCount resp + br_failedCount resp = 2)"
  using bulkAddAttendance_entry_lost by (simp add: threeEntries_def)

text \<open>
  And when the server rejects a write, the handler counts
  \<open>err.result.insertedDocs\<close>: with a driver that does not set it, the inserted count is 0
  whatever was written.
\<close>

lemma bulkAddAttendance_write_error_count:
  assumes "rs \<noteq> []" "validRecords e rs \<noteq> []"
      and "rejected (writeOutcomes e dr (created st) (validRecords e rs)) \<noteq> []"
      and "resultInsertedDocs dr (written (writeOutcomes e dr (created st) (validRecords e rs)))
           = None"
  shows "\<exists>resp st'. bulkAddAttendance e dr (Some rs) st = (Inr resp, st')
           \<and> br_insertedCount resp = 0
           \<and> attendances st'
               = attendances st @ written (writeOutcomes e dr (created st) (validRecords e rs))"
  using assms
  by (simp add: bulkAddAttendance_def insertManyUnordered_def Let_def)

end
